theory Spec2Isabelle
  imports Complex_Main
begin

section \<open>Comparison macros and constants of the headers\<close>

text \<open>
  The C sources compute on \<^verbatim>\<open>double\<close>; the embedding computes on the reals, so
  rounding is not modelled. An array parameter is a C pointer: it is modelled as a total
  function from indices to values, and an index past the number of layers addresses
  whatever the caller's storage holds there.
\<close>

text \<open>
  Modelled from the spec: the comparison macros \<^verbatim>\<open>GT\<close>, \<^verbatim>\<open>LT\<close>, \<^verbatim>\<open>GE\<close>,
  \<^verbatim>\<open>LE\<close>, \<^verbatim>\<open>EQ\<close> and \<^verbatim>\<open>ZRO\<close> come from \<^verbatim>\<open>generic.h\<close>, which is not
  among the sources. The spec reads them as the plain comparisons (its section 9 names
  \<^verbatim>\<open>LE\<close>/\<^verbatim>\<open>GT\<close> as the inclusive and the exclusive boundary), and so they are
  defined here.
\<close>

definition GT :: "real \<Rightarrow> real \<Rightarrow> bool" where
  "GT x y = (x > y)"

definition LT :: "real \<Rightarrow> real \<Rightarrow> bool" where
  "LT x y = (x < y)"

definition GE :: "real \<Rightarrow> real \<Rightarrow> bool" where
  "GE x y = (x \<ge> y)"

definition LE :: "real \<Rightarrow> real \<Rightarrow> bool" where
  "LE x y = (x \<le> y)"

definition EQ :: "real \<Rightarrow> real \<Rightarrow> bool" where
  "EQ x y = (x = y)"

definition ZRO :: "real \<Rightarrow> bool" where
  "ZRO x = (x = 0)"

lemmas cmp_defs = GT_def LT_def GE_def LE_def EQ_def ZRO_def

section \<open>Interception\<close>

text \<open>
  The pool limits \<^verbatim>\<open>MAX_WINTSTCR\<close>, \<^verbatim>\<open>MAX_WINTFOR\<close> and \<^verbatim>\<open>MAX_WINTLIT\<close> are
  macros of \<^verbatim>\<open>SW_Defines.h\<close>, which is not among the sources: each function takes
  its limit as the first argument. The result is the pair of the two pointer outputs,
  \<^verbatim>\<open>(*pptleft, *wint)\<close>.
\<close>

definition grass_intercepted_water ::
  "real \<Rightarrow> real \<Rightarrow> real \<Rightarrow> real \<Rightarrow> real \<Rightarrow> real \<Rightarrow> real \<Rightarrow> real \<Rightarrow> real \<times> real" where
  "grass_intercepted_water MAX_WINTSTCR ppt vegcov scale a b c d =
     (if GT vegcov 0 \<and> GT ppt 0 then
        let intcpt = b * vegcov + a;
            slope = d * vegcov + c;
            wintgrass = (intcpt + slope * ppt) * scale;
            wintgrass = min wintgrass ppt;
            wintgrass = min wintgrass MAX_WINTSTCR
        in (max (ppt - wintgrass) 0, wintgrass)
      else (ppt, 0))"

definition shrub_intercepted_water ::
  "real \<Rightarrow> real \<Rightarrow> real \<Rightarrow> real \<Rightarrow> real \<Rightarrow> real \<Rightarrow> real \<Rightarrow> real \<Rightarrow> real \<times> real" where
  "shrub_intercepted_water MAX_WINTSTCR ppt vegcov scale a b c d =
     (if GT vegcov 0 \<and> GT ppt 0 then
        let intcpt = b * vegcov + a;
            slope = d * vegcov + c;
            wintshrub = (intcpt + slope * ppt) * scale;
            wintshrub = min wintshrub ppt;
            wintshrub = min wintshrub MAX_WINTSTCR
        in (max (ppt - wintshrub) 0, wintshrub)
      else (ppt, 0))"

definition tree_intercepted_water ::
  "real \<Rightarrow> real \<Rightarrow> real \<Rightarrow> real \<Rightarrow> real \<Rightarrow> real \<Rightarrow> real \<Rightarrow> real \<Rightarrow> real \<times> real" where
  "tree_intercepted_water MAX_WINTFOR ppt LAI scale a b c d =
     (if GT LAI 0 \<and> GT ppt 0 then
        let intcpt = b * LAI + a;
            slope = d * LAI + c;
            wintfor = (intcpt + slope * ppt) * scale;
            wintfor = min wintfor ppt;
            wintfor = min wintfor MAX_WINTFOR
        in (max (ppt - wintfor) 0, wintfor)
      else (ppt, 0))"

definition forb_intercepted_water ::
  "real \<Rightarrow> real \<Rightarrow> real \<Rightarrow> real \<Rightarrow> real \<Rightarrow> real \<Rightarrow> real \<Rightarrow> real \<Rightarrow> real \<times> real" where
  "forb_intercepted_water MAX_WINTSTCR ppt vegcov scale a b c d =
     (if GT vegcov 0 \<and> GT ppt 0 then
        let intcpt = b * vegcov + a;
            slope = d * vegcov + c;
            wintforb = (intcpt + slope * ppt) * scale;
            wintforb = min wintforb ppt;
            wintforb = min wintforb MAX_WINTSTCR
        in (max (ppt - wintforb) 0, wintforb)
      else (ppt, 0))"

text \<open>
  \<^verbatim>\<open>litter_intercepted_water\<close> reads and writes \<^verbatim>\<open>*pptleft\<close>; with no litter it
  leaves \<^verbatim>\<open>*pptleft\<close> as it is, and with litter but no water left it sets it to 0.
\<close>

definition litter_intercepted_water ::
  "real \<Rightarrow> real \<Rightarrow> real \<Rightarrow> real \<Rightarrow> real \<Rightarrow> real \<Rightarrow> real \<Rightarrow> real \<Rightarrow> real \<times> real" where
  "litter_intercepted_water MAX_WINTLIT pptleft blitter scale a b c d =
     (if ZRO blitter then (pptleft, 0)
      else if GT pptleft 0 then
        let intcpt = b * blitter + a;
            slope = d * blitter + c;
            wintlit = (intcpt + slope * pptleft) * scale;
            wintlit = min pptleft wintlit;
            wintlit = min wintlit MAX_WINTLIT;
            pptleft = pptleft - wintlit;
            pptleft = max pptleft 0
        in (pptleft, wintlit)
      else (0, 0))"

text \<open>
  The interception contract in the spec's words (section 4.1), for comparison: the linear
  amount clamped to the interval from 0 to \<open>min pptleft MAX_pool\<close>, and the water left
  reduced by it, never below 0.
\<close>

definition interception_spec ::
  "real \<Rightarrow> real \<Rightarrow> real \<Rightarrow> real \<Rightarrow> real \<Rightarrow> real \<Rightarrow> real \<Rightarrow> real \<Rightarrow> real \<times> real" where
  "interception_spec MAX_pool pptleft cov scale a b c d =
     (if cov = 0 \<or> pptleft = 0 then (pptleft, 0)
      else
        let intercepted =
              max 0 (min (scale * ((a + b * cov) + (c + d * cov) * pptleft)) (min pptleft MAX_pool))
        in (max (pptleft - intercepted) 0, intercepted))"

lemmas interception_defs =
  grass_intercepted_water_def shrub_intercepted_water_def tree_intercepted_water_def
  forb_intercepted_water_def litter_intercepted_water_def

section \<open>Module state of the flow library\<close>

text \<open>
  The fields of \<^verbatim>\<open>ST_RGR_VALUES\<close> that the functions read and write (the struct is
  declared in \<^verbatim>\<open>SW_Flow_lib.h\<close>), and the three module-wide latches.
\<close>

record ST_RGR_VALUES =
  depths :: "nat \<Rightarrow> real"
  depthsR :: "nat \<Rightarrow> real"
  fcR :: "nat \<Rightarrow> real"
  wpR :: "nat \<Rightarrow> real"
  bDensityR :: "nat \<Rightarrow> real"
  oldsFusionPool_actual :: "nat \<Rightarrow> real"
  oldsTempR :: "nat \<Rightarrow> real"
  lyrFrozen :: "nat \<Rightarrow> int"
  tlyrs_by_slyrs :: "nat \<Rightarrow> nat \<Rightarrow> real"

record flow_globals =
  stValues :: ST_RGR_VALUES
  soil_temp_error :: nat
  soil_temp_init :: nat
  fusion_pool_init :: nat

text \<open>
  \<^verbatim>\<open>stValues\<close> is a static object and the latches are file-scope variables: C
  initialises them with zeros before the first call.
\<close>

definition stValues_initial :: ST_RGR_VALUES where
  "stValues_initial =
     \<lparr>depths = (\<lambda>i. 0), depthsR = (\<lambda>i. 0), fcR = (\<lambda>i. 0), wpR = (\<lambda>i. 0),
      bDensityR = (\<lambda>i. 0), oldsFusionPool_actual = (\<lambda>i. 0), oldsTempR = (\<lambda>i. 0),
      lyrFrozen = (\<lambda>i. 0), tlyrs_by_slyrs = (\<lambda>i j. 0)\<rparr>"

definition flow_globals_initial :: flow_globals where
  "flow_globals_initial =
     \<lparr>stValues = stValues_initial, soil_temp_error = 0, soil_temp_init = 0, fusion_pool_init = 0\<rparr>"

section \<open>Infiltration and percolation\<close>

text \<open>
  The arrays and pointer outputs that the two infiltration routines update in place.
\<close>

record soil_water =
  sw_swc :: "nat \<Rightarrow> real"
  sw_drain :: "nat \<Rightarrow> real"
  sw_drainout :: real
  sw_standingWater :: real

text \<open>
  One pass of the saturated percolation loop of \<^verbatim>\<open>infiltrate_water_high\<close>, at layer
  \<open>i < nlyrs\<close> (so \<open>nlyrs - 1\<close> does not wrap).
\<close>

definition saturated_percolation_step ::
  "ST_RGR_VALUES \<Rightarrow> nat \<Rightarrow> (nat \<Rightarrow> real) \<Rightarrow> (nat \<Rightarrow> real) \<Rightarrow> nat \<Rightarrow> soil_water \<Rightarrow> soil_water" where
  "saturated_percolation_step st nlyrs swcfc impermeability i s =
     (let ksat_rel = (if lyrFrozen st i = 1 then 0.01 else 1);
          d = max 0 (ksat_rel * (1 - impermeability i) * (sw_swc s i - swcfc i));
          s = s\<lparr>sw_drain := (sw_drain s)(i := d)\<rparr>
      in if i < nlyrs - 1 then
           (let s = s\<lparr>sw_swc := (sw_swc s)(i + 1 := sw_swc s (i + 1) + d)\<rparr>
            in s\<lparr>sw_swc := (sw_swc s)(i := sw_swc s i - d)\<rparr>)
         else
           (let s = s\<lparr>sw_drainout := d\<rparr>
            in s\<lparr>sw_swc := (sw_swc s)(i := sw_swc s i - sw_drainout s)\<rparr>))"

text \<open>
  The indices of the loop \<^verbatim>\<open>for (j = nlyrs; j >= 0; j--)\<close> that pushes water upwards,
  in the order the loop visits them.
\<close>

definition oversat_sweep_indices :: "nat \<Rightarrow> nat list" where
  "oversat_sweep_indices nlyrs = rev [0..<Suc nlyrs]"

text \<open>
  One pass of that loop in \<^verbatim>\<open>infiltrate_water_high\<close>: it reads \<^verbatim>\<open>swc[j]\<close> and
  \<^verbatim>\<open>swcsat[j]\<close>, and on excess writes \<^verbatim>\<open>swc[j]\<close> and either \<^verbatim>\<open>drain[j - 1]\<close> and
  \<^verbatim>\<open>swc[j - 1]\<close> or, at \<open>j = 0\<close>, the standing water.
\<close>

definition push_up_step_high :: "(nat \<Rightarrow> real) \<Rightarrow> nat \<Rightarrow> soil_water \<Rightarrow> soil_water" where
  "push_up_step_high swcsat j s =
     (if GT (sw_swc s j) (swcsat j) then
        let push = sw_swc s j - swcsat j;
            s = s\<lparr>sw_swc := (sw_swc s)(j := sw_swc s j - push)\<rparr>
        in if j > 0 then
             (let s = s\<lparr>sw_drain := (sw_drain s)(j - 1 := sw_drain s (j - 1) - push)\<rparr>
              in s\<lparr>sw_swc := (sw_swc s)(j - 1 := sw_swc s (j - 1) + push)\<rparr>)
           else s\<lparr>sw_standingWater := push\<rparr>
      else s)"

definition infiltrate_water_high ::
  "ST_RGR_VALUES \<Rightarrow> (nat \<Rightarrow> real) \<Rightarrow> (nat \<Rightarrow> real) \<Rightarrow> real \<Rightarrow> real \<Rightarrow> nat \<Rightarrow>
   (nat \<Rightarrow> real) \<Rightarrow> (nat \<Rightarrow> real) \<Rightarrow> (nat \<Rightarrow> real) \<Rightarrow> real \<Rightarrow> soil_water" where
  "infiltrate_water_high st swc drain drainout pptleft nlyrs swcfc swcsat impermeability standingWater =
     (let s = \<lparr>sw_swc = swc, sw_drain = drain, sw_drainout = drainout,
                sw_standingWater = standingWater\<rparr>;
          s = s\<lparr>sw_swc := (sw_swc s)(0 := sw_swc s 0 + pptleft)\<rparr>;
          s = s\<lparr>sw_standingWater := 0\<rparr>;
          s = fold (saturated_percolation_step st nlyrs swcfc impermeability) [0..<nlyrs] s
      in fold (push_up_step_high swcsat) (oversat_sweep_indices nlyrs) s)"

text \<open>One pass of the unsaturated percolation loop of \<^verbatim>\<open>infiltrate_water_low\<close>.\<close>

definition unsaturated_percolation_step ::
  "ST_RGR_VALUES \<Rightarrow> nat \<Rightarrow> real \<Rightarrow> real \<Rightarrow> (nat \<Rightarrow> real) \<Rightarrow> (nat \<Rightarrow> real) \<Rightarrow> (nat \<Rightarrow> real) \<Rightarrow>
   (nat \<Rightarrow> real) \<Rightarrow> nat \<Rightarrow> soil_water \<Rightarrow> soil_water" where
  "unsaturated_percolation_step st nlyrs sdrainpar sdraindpth swcfc width swcmin impermeability i s =
     (let d = (if LE (sw_swc s i) (swcmin i) then 0
               else
                 let kunsat_rel = (if lyrFrozen st i = 1 then 0.01 else 1);
                     swc_avail = max 0 (sw_swc s i - swcmin i);
                     drainpot = (if GT (sw_swc s i) (swcfc i) then sdrainpar
                                 else sdrainpar * exp ((sw_swc s i - swcfc i) * sdraindpth / width i))
                 in kunsat_rel * (1 - impermeability i) * min swc_avail drainpot);
          s = s\<lparr>sw_drain := (sw_drain s)(i := sw_drain s i + d)\<rparr>
      in if i < nlyrs - 1 then
           (let s = s\<lparr>sw_swc := (sw_swc s)(i + 1 := sw_swc s (i + 1) + d)\<rparr>
            in s\<lparr>sw_swc := (sw_swc s)(i := sw_swc s i - d)\<rparr>)
         else
           (let drainlw = max d 0;
                s = s\<lparr>sw_drainout := sw_drainout s + drainlw\<rparr>
            in s\<lparr>sw_swc := (sw_swc s)(i := sw_swc s i - drainlw)\<rparr>))"

text \<open>
  The same upward push in \<^verbatim>\<open>infiltrate_water_low\<close>; at \<open>j = 0\<close> the excess is added to
  the standing water.
\<close>

definition push_up_step_low :: "(nat \<Rightarrow> real) \<Rightarrow> nat \<Rightarrow> soil_water \<Rightarrow> soil_water" where
  "push_up_step_low swcsat j s =
     (if GT (sw_swc s j) (swcsat j) then
        let push = sw_swc s j - swcsat j;
            s = s\<lparr>sw_swc := (sw_swc s)(j := sw_swc s j - push)\<rparr>
        in if j > 0 then
             (let s = s\<lparr>sw_drain := (sw_drain s)(j - 1 := sw_drain s (j - 1) - push)\<rparr>
              in s\<lparr>sw_swc := (sw_swc s)(j - 1 := sw_swc s (j - 1) + push)\<rparr>)
           else s\<lparr>sw_standingWater := sw_standingWater s + push\<rparr>
      else s)"

definition infiltrate_water_low ::
  "ST_RGR_VALUES \<Rightarrow> (nat \<Rightarrow> real) \<Rightarrow> (nat \<Rightarrow> real) \<Rightarrow> real \<Rightarrow> nat \<Rightarrow> real \<Rightarrow> real \<Rightarrow>
   (nat \<Rightarrow> real) \<Rightarrow> (nat \<Rightarrow> real) \<Rightarrow> (nat \<Rightarrow> real) \<Rightarrow> (nat \<Rightarrow> real) \<Rightarrow> (nat \<Rightarrow> real) \<Rightarrow> real \<Rightarrow>
   soil_water" where
  "infiltrate_water_low st swc drain drainout nlyrs sdrainpar sdraindpth swcfc width swcmin swcsat
       impermeability standingWater =
     (let s = \<lparr>sw_swc = swc, sw_drain = drain, sw_drainout = drainout,
                sw_standingWater = standingWater\<rparr>;
          s = fold (unsaturated_percolation_step st nlyrs sdrainpar sdraindpth swcfc width swcmin
                      impermeability) [0..<nlyrs] s
      in fold (push_up_step_low swcsat) (oversat_sweep_indices nlyrs) s)"

section \<open>Removal of water by evaporation and transpiration\<close>

text \<open>
  \<^verbatim>\<open>SWCbulk2SWPmatric\<close> (soil water potential from the gravel fraction, the water
  content and the layer) is defined in \<^verbatim>\<open>SW_SoilWater.c\<close> and the gravel fractions are
  read from \<^verbatim>\<open>SW_Site\<close>; neither is among the sources, so both are parameters. The
  result is the triple of the arrays \<^verbatim>\<open>swc\<close>, \<^verbatim>\<open>qty\<close> and the accumulator
  \<^verbatim>\<open>*aet\<close>.
\<close>

definition remove_step ::
  "ST_RGR_VALUES \<Rightarrow> (nat \<Rightarrow> real) \<Rightarrow> real \<Rightarrow> real \<Rightarrow> (nat \<Rightarrow> real) \<Rightarrow> nat \<Rightarrow>
   (nat \<Rightarrow> real) \<times> (nat \<Rightarrow> real) \<times> real \<Rightarrow> (nat \<Rightarrow> real) \<times> (nat \<Rightarrow> real) \<times> real" where
  "remove_step st swpfrac sumswp rate swcmin i s =
     (case s of (swc, qty, aet) \<Rightarrow>
        if lyrFrozen st i = 0 then
          let q = (swpfrac i / sumswp) * rate;
              swc_avail = max 0 (swc i - swcmin i);
              qty = qty(i := min q swc_avail);
              swc = swc(i := swc i - qty i);
              aet = aet + qty i
          in (swc, qty, aet)
        else (swc, qty, aet))"

definition remove_from_soil ::
  "(real \<Rightarrow> real \<Rightarrow> nat \<Rightarrow> real) \<Rightarrow> (nat \<Rightarrow> real) \<Rightarrow> ST_RGR_VALUES \<Rightarrow>
   (nat \<Rightarrow> real) \<Rightarrow> (nat \<Rightarrow> real) \<Rightarrow> real \<Rightarrow> nat \<Rightarrow> (nat \<Rightarrow> real) \<Rightarrow> real \<Rightarrow> (nat \<Rightarrow> real) \<Rightarrow>
   (nat \<Rightarrow> real) \<times> (nat \<Rightarrow> real) \<times> real" where
  "remove_from_soil SWCbulk2SWPmatric fractionVolBulk_gravel st swc qty aet nlyrs coeff rate swcmin =
     (let swpfrac = (\<lambda>i. coeff i / SWCbulk2SWPmatric (fractionVolBulk_gravel i) (swc i) i);
          sumswp = fold (\<lambda>i sumswp. sumswp + swpfrac i) [0..<nlyrs] 0
      in if ZRO sumswp then (swc, qty, aet)
         else fold (remove_step st swpfrac sumswp rate swcmin) [0..<nlyrs] (swc, qty, aet))"

section \<open>Hydraulic redistribution\<close>

text \<open>
  The local pair matrix \<^verbatim>\<open>hydredmat[nlyrs][nlyrs]\<close> is a function of two indices;
  \<open>mat_upd\<close> is the assignment \<^verbatim>\<open>hydredmat[i][j] = v\<close>.
\<close>

definition mat_upd :: "(nat \<Rightarrow> nat \<Rightarrow> real) \<Rightarrow> nat \<Rightarrow> nat \<Rightarrow> real \<Rightarrow> (nat \<Rightarrow> nat \<Rightarrow> real)" where
  "mat_upd m i j v = m(i := (m i)(j := v))"

text \<open>
  The first loop clears row 0 and column 0 of the matrix
  (\<^verbatim>\<open>hydredmat[0][i] = hydredmat[i][0] = 0.\<close>).
\<close>

definition hydred_clear_top :: "nat \<Rightarrow> (nat \<Rightarrow> nat \<Rightarrow> real) \<Rightarrow> (nat \<Rightarrow> nat \<Rightarrow> real)" where
  "hydred_clear_top nlyrs hydredmat =
     fold (\<lambda>i hm. let hm = mat_upd hm i 0 0 in mat_upd hm 0 i (hm i 0)) [0..<nlyrs] hydredmat"

text \<open>The body of the inner loop over \<open>j\<close> of the second loop, for the pair \<open>(i, j)\<close>.\<close>

definition hydred_pair ::
  "ST_RGR_VALUES \<Rightarrow> (nat \<Rightarrow> real) \<Rightarrow> (nat \<Rightarrow> real) \<Rightarrow> real \<Rightarrow> (nat \<Rightarrow> real) \<Rightarrow> (nat \<Rightarrow> real) \<Rightarrow>
   (nat \<Rightarrow> real) \<Rightarrow> nat \<Rightarrow> nat \<Rightarrow> (nat \<Rightarrow> nat \<Rightarrow> real) \<Rightarrow> (nat \<Rightarrow> nat \<Rightarrow> real)" where
  "hydred_pair st swc lyrRootCo maxCondroot swp swpwp relCondroot i j hm =
     (if (LT (swp i) (swpwp i) \<or> LT (swp j) (swpwp j)) \<and> lyrFrozen st i = 0 \<and> lyrFrozen st j = 0
      then
        let Rx = (if GT (swc i) (swc j) then lyrRootCo i else lyrRootCo j);
            hm = mat_upd hm i j
                   (maxCondroot * 10 / 24 * (swp j - swp i) * max (relCondroot i) (relCondroot j)
                      * (lyrRootCo i * lyrRootCo j / (1 - Rx)))
        in mat_upd hm j i (- hm i j)
      else
        let hm = mat_upd hm j i 0
        in mat_upd hm i j (hm j i))"

text \<open>The body of the second loop, for the layer \<open>i \<ge> 1\<close>.\<close>

definition hydred_matrix_row ::
  "ST_RGR_VALUES \<Rightarrow> (nat \<Rightarrow> real) \<Rightarrow> (nat \<Rightarrow> real) \<Rightarrow> nat \<Rightarrow> real \<Rightarrow> (nat \<Rightarrow> real) \<Rightarrow>
   (nat \<Rightarrow> real) \<Rightarrow> (nat \<Rightarrow> real) \<Rightarrow> nat \<Rightarrow>
   (nat \<Rightarrow> real) \<times> (nat \<Rightarrow> nat \<Rightarrow> real) \<Rightarrow> (nat \<Rightarrow> real) \<times> (nat \<Rightarrow> nat \<Rightarrow> real)" where
  "hydred_matrix_row st swc lyrRootCo nlyrs maxCondroot swp swpwp relCondroot i s =
     (case s of (hydred, hm) \<Rightarrow>
        let hm = mat_upd hm i i 0;
            hydred = hydred(i := hm i i);
            hm = fold (hydred_pair st swc lyrRootCo maxCondroot swp swpwp relCondroot i)
                   [i + 1..<nlyrs] hm
        in (hydred, hm))"

text \<open>
  The body of the third loop: the row sum of layer \<open>i\<close>, its available water, and the
  scaling of row \<open>i\<close> and of column \<open>i\<close> when the layer would lose more than that.
\<close>

definition hydred_limit_row ::
  "(nat \<Rightarrow> real) \<Rightarrow> (nat \<Rightarrow> real) \<Rightarrow> nat \<Rightarrow> nat \<Rightarrow> (nat \<Rightarrow> nat \<Rightarrow> real) \<Rightarrow> (nat \<Rightarrow> nat \<Rightarrow> real)" where
  "hydred_limit_row swc swcwp nlyrs i hm =
     (let hydred_sum = fold (\<lambda>j hydred_sum. hydred_sum + hm i j) [0..<nlyrs] 0;
          swa = max 0 (swc i - swcwp i)
      in if LT hydred_sum 0 \<and> GT (- hydred_sum) swa then
           fold (\<lambda>j hm. let hm = mat_upd hm i j (hm i j * (swa / - hydred_sum))
                         in mat_upd hm j i (hm j i * (swa / - hydred_sum)))
             [0..<nlyrs] hm
         else hm)"

text \<open>The body of the last loop: the row is summed into \<^verbatim>\<open>hydred[i]\<close> and applied.\<close>

definition hydred_apply_row ::
  "nat \<Rightarrow> real \<Rightarrow> (nat \<Rightarrow> nat \<Rightarrow> real) \<Rightarrow> nat \<Rightarrow>
   (nat \<Rightarrow> real) \<times> (nat \<Rightarrow> real) \<Rightarrow> (nat \<Rightarrow> real) \<times> (nat \<Rightarrow> real)" where
  "hydred_apply_row nlyrs scale hm i s =
     (case s of (swc, hydred) \<Rightarrow>
        let hydred = fold (\<lambda>j hydred. hydred(i := hydred i + hm i j * scale)) [0..<nlyrs] hydred;
            swc = swc(i := swc i + hydred i)
        in (swc, hydred))"

text \<open>
  The pair matrix before the scaling (after the second loop), together with the array
  \<^verbatim>\<open>hydred\<close> as the first two loops leave it. The water potentials of the layers and
  of their wilting points come from \<^verbatim>\<open>SWCbulk2SWPmatric\<close>, and the relative root
  conductance uses the macro \<^verbatim>\<open>powe\<close> of \<^verbatim>\<open>generic.h\<close>: both are parameters, as is
  the content \<open>hydredmat\<close> of the uninitialised local matrix.
\<close>

definition hydred_flux_matrix ::
  "(real \<Rightarrow> real \<Rightarrow> nat \<Rightarrow> real) \<Rightarrow> (nat \<Rightarrow> real) \<Rightarrow> (real \<Rightarrow> real \<Rightarrow> real) \<Rightarrow> ST_RGR_VALUES \<Rightarrow>
   (nat \<Rightarrow> nat \<Rightarrow> real) \<Rightarrow> (nat \<Rightarrow> real) \<Rightarrow> (nat \<Rightarrow> real) \<Rightarrow> (nat \<Rightarrow> real) \<Rightarrow> (nat \<Rightarrow> real) \<Rightarrow>
   nat \<Rightarrow> real \<Rightarrow> real \<Rightarrow> real \<Rightarrow> (nat \<Rightarrow> real) \<times> (nat \<Rightarrow> nat \<Rightarrow> real)" where
  "hydred_flux_matrix SWCbulk2SWPmatric fractionVolBulk_gravel powe st hydredmat swc swcwp lyrRootCo
       hydred nlyrs maxCondroot swp50 shapeCond =
     (let hydred = hydred(0 := 0);
          swp = (\<lambda>i. SWCbulk2SWPmatric (fractionVolBulk_gravel i) (swc i) i);
          relCondroot = (\<lambda>i. min 1 (max 0 (1 / (1 + powe (swp i / swp50) shapeCond))));
          swpwp = (\<lambda>i. SWCbulk2SWPmatric (fractionVolBulk_gravel i) (swcwp i) i);
          hm = hydred_clear_top nlyrs hydredmat
      in fold (hydred_matrix_row st swc lyrRootCo nlyrs maxCondroot swp swpwp relCondroot)
           [1..<nlyrs] (hydred, hm))"

text \<open>The pair matrix after the available-water scaling (after the third loop).\<close>

definition hydred_limited_matrix ::
  "(nat \<Rightarrow> real) \<Rightarrow> (nat \<Rightarrow> real) \<Rightarrow> nat \<Rightarrow> (nat \<Rightarrow> nat \<Rightarrow> real) \<Rightarrow> (nat \<Rightarrow> nat \<Rightarrow> real)" where
  "hydred_limited_matrix swc swcwp nlyrs hm = fold (hydred_limit_row swc swcwp nlyrs) [0..<nlyrs] hm"

text \<open>The whole routine; the result is the pair of the arrays \<^verbatim>\<open>swc\<close> and \<^verbatim>\<open>hydred\<close>.\<close>

definition hydraulic_redistribution ::
  "(real \<Rightarrow> real \<Rightarrow> nat \<Rightarrow> real) \<Rightarrow> (nat \<Rightarrow> real) \<Rightarrow> (real \<Rightarrow> real \<Rightarrow> real) \<Rightarrow> ST_RGR_VALUES \<Rightarrow>
   (nat \<Rightarrow> nat \<Rightarrow> real) \<Rightarrow> (nat \<Rightarrow> real) \<Rightarrow> (nat \<Rightarrow> real) \<Rightarrow> (nat \<Rightarrow> real) \<Rightarrow> (nat \<Rightarrow> real) \<Rightarrow>
   nat \<Rightarrow> real \<Rightarrow> real \<Rightarrow> real \<Rightarrow> real \<Rightarrow> (nat \<Rightarrow> real) \<times> (nat \<Rightarrow> real)" where
  "hydraulic_redistribution SWCbulk2SWPmatric fractionVolBulk_gravel powe st hydredmat swc swcwp
       lyrRootCo hydred nlyrs maxCondroot swp50 shapeCond scale =
     (case hydred_flux_matrix SWCbulk2SWPmatric fractionVolBulk_gravel powe st hydredmat swc swcwp
             lyrRootCo hydred nlyrs maxCondroot swp50 shapeCond of
        (hydred, hm) \<Rightarrow>
          let hm = hydred_limited_matrix swc swcwp nlyrs hm
          in fold (hydred_apply_row nlyrs scale hm) [0..<nlyrs] (swc, hydred))"

section \<open>Soil surface temperature and frozen layers\<close>

text \<open>
  Modelled from the spec: \<^verbatim>\<open>FREEZING_TEMP_C\<close> and \<^verbatim>\<open>MIN_VWC_TO_FREEZE\<close> are constants
  of \<^verbatim>\<open>SW_Defines.h\<close>, which is not among the sources; the spec (section 6) gives the
  frozen threshold as -1 degree Celsius and the saturation-proximity threshold as 0.13.
\<close>

definition FREEZING_TEMP_C :: real where
  "FREEZING_TEMP_C = - 1"

definition MIN_VWC_TO_FREEZE :: real where
  "MIN_VWC_TO_FREEZE = 0.13"

text \<open>
  \<^verbatim>\<open>surface_temperature_under_snow\<close>: with negative \<^verbatim>\<open>snow\<close> no branch assigns
  \<^verbatim>\<open>tSoilAvg\<close> and the C function returns an uninitialised value, which is \<open>None\<close>
  here.
\<close>

definition surface_temperature_under_snow :: "real \<Rightarrow> real \<Rightarrow> real option" where
  "surface_temperature_under_snow airTempAvg snow =
     (if snow = 0 then Some 0.0
      else if snow > 0 \<and> airTempAvg \<ge> 0 then Some (- 2.0)
      else if snow > 0 \<and> airTempAvg < 0 then
        (let kSnow = max (- 0.15 * snow + 1.0) 0.0
         in Some (0.3 * airTempAvg * kSnow + - 2.0))
      else None)"

text \<open>
  The computation of \<^verbatim>\<open>T1\<close>, the average daily soil surface temperature, in
  \<^verbatim>\<open>soil_temperature\<close>.
\<close>

definition soil_temperature_T1 ::
  "real \<Rightarrow> real \<Rightarrow> real \<Rightarrow> real \<Rightarrow> real \<Rightarrow> real \<Rightarrow> real \<Rightarrow> real \<Rightarrow> real \<Rightarrow> real \<Rightarrow> real option" where
  "soil_temperature_T1 airTemp pet aet biomass bmLimiter t1Param1 t1Param2 t1Param3 snowdepth snow =
     (if GT snowdepth 0.0 then surface_temperature_under_snow airTemp snow
      else if LE biomass bmLimiter then
        Some (airTemp + (t1Param1 * pet * (1 - (aet / pet)) * (1 - (biomass / bmLimiter))))
      else Some (airTemp + ((t1Param2 * (biomass - bmLimiter)) / t1Param3)))"

text \<open>
  The surface temperature in the spec's words (section 4.4), for comparison; \<open>SWE\<close> is the
  snow-water equivalent and \<open>AGB\<close> the aboveground biomass.
\<close>

definition surface_temperature_under_snow_spec :: "real \<Rightarrow> real \<Rightarrow> real" where
  "surface_temperature_under_snow_spec T_air SWE =
     (if SWE = 0 then 0
      else if T_air \<ge> 0 then - 2
      else 0.3 * T_air * max (- 0.15 * SWE + 1) 0 - 2)"

definition T1_spec ::
  "real \<Rightarrow> real \<Rightarrow> real \<Rightarrow> real \<Rightarrow> real \<Rightarrow> real \<Rightarrow> real \<Rightarrow> real \<Rightarrow> real \<Rightarrow> real \<Rightarrow> real" where
  "T1_spec T_air PET AET AGB bmLimiter t1p1 t1p2 t1p3 snowdepth SWE =
     (if snowdepth > 0 then surface_temperature_under_snow_spec T_air SWE
      else if AGB \<le> bmLimiter then T_air + t1p1 * PET * (1 - AET / PET) * (1 - AGB / bmLimiter)
      else T_air + t1p2 * (AGB - bmLimiter) / t1p3)"

text \<open>\<^verbatim>\<open>set_frozen_unfrozen\<close>: the loop body, and the loop over the layers.\<close>

definition set_frozen_step ::
  "(nat \<Rightarrow> real) \<Rightarrow> (nat \<Rightarrow> real) \<Rightarrow> (nat \<Rightarrow> real) \<Rightarrow> (nat \<Rightarrow> real) \<Rightarrow> nat \<Rightarrow>
   ST_RGR_VALUES \<Rightarrow> ST_RGR_VALUES" where
  "set_frozen_step sTemp swc swc_sat width i st =
     (if LE (sTemp i) FREEZING_TEMP_C \<and> GT (swc i) (swc_sat i - width i * MIN_VWC_TO_FREEZE)
      then st\<lparr>lyrFrozen := (lyrFrozen st)(i := 1)\<rparr>
      else st\<lparr>lyrFrozen := (lyrFrozen st)(i := 0)\<rparr>)"

definition set_frozen_unfrozen ::
  "nat \<Rightarrow> (nat \<Rightarrow> real) \<Rightarrow> (nat \<Rightarrow> real) \<Rightarrow> (nat \<Rightarrow> real) \<Rightarrow> (nat \<Rightarrow> real) \<Rightarrow>
   ST_RGR_VALUES \<Rightarrow> ST_RGR_VALUES" where
  "set_frozen_unfrozen nlyrs sTemp swc swc_sat width st =
     fold (set_frozen_step sTemp swc swc_sat width) [0..<nlyrs] st"

section \<open>Markov weather generator\<close>

text \<open>
  \<^verbatim>\<open>LogError\<close> with \<^verbatim>\<open>LOGFATAL\<close> ends the program: it is the error value of the
  functions below.
\<close>

datatype fatal_error = Bad_covariance_matrix

text \<open>
  The square root of a negative \<^verbatim>\<open>double\<close> is NaN, and the temperatures of this module
  are computed from one. A \<^verbatim>\<open>double\<close> that may be NaN is a \<^typ>\<open>real option\<close> here:
  \<open>None\<close> is NaN. Arithmetic on NaN gives NaN (\<^const>\<open>map_option\<close>), a comparison with
  NaN is false, and \<^verbatim>\<open>fmin\<close> of the C library returns its other argument when one of
  the two is NaN. The parameters of the generator are finite numbers: the functions that
  read them (\<^verbatim>\<open>SW_MKV_read_prob\<close>, \<^verbatim>\<open>SW_MKV_read_cov\<close>) refuse every value that is
  not; they do not test the sign of a variance.
\<close>

definition sqrt_c :: "real \<Rightarrow> real option" where
  "sqrt_c x = (if x < 0 then None else Some (sqrt x))"

definition fmin :: "real option \<Rightarrow> real option \<Rightarrow> real option" where
  "fmin x y =
     (case x of
        None \<Rightarrow> y
      | Some a \<Rightarrow> (case y of None \<Rightarrow> Some a | Some b \<Rightarrow> Some (min a b)))"

text \<open>The comparison \<^verbatim>\<open>tmin <= tmax\<close> of two such values, as C evaluates it.\<close>

definition le_c :: "real option \<Rightarrow> real option \<Rightarrow> bool" where
  "le_c x y = (case x of None \<Rightarrow> False | Some a \<Rightarrow> (case y of None \<Rightarrow> False | Some b \<Rightarrow> a \<le> b))"

definition temp_correct_wetdry ::
  "real option \<Rightarrow> real option \<Rightarrow> real \<Rightarrow> real \<Rightarrow> real \<Rightarrow> real \<Rightarrow> real \<Rightarrow> real option \<times> real option" where
  "temp_correct_wetdry tmax tmin rain cfmax_wet cfmax_dry cfmin_wet cfmin_dry =
     (if GT rain 0 then
        let tmax = map_option (\<lambda>t. t + cfmax_wet) tmax;
            tmin = fmin tmax (map_option (\<lambda>t. t + cfmin_wet) tmin)
        in (tmax, tmin)
      else
        let tmax = map_option (\<lambda>t. t + cfmax_dry) tmax;
            tmin = fmin tmax (map_option (\<lambda>t. t + cfmin_dry) tmin)
        in (tmax, tmin))"

text \<open>
  \<^verbatim>\<open>mvnorm\<close>: the two standard normal variates that it draws with \<^verbatim>\<open>RandNorm\<close>
  (of \<^verbatim>\<open>rands.c\<close>, not among the sources) are the arguments \<open>z1\<close> and \<open>z2\<close>. The
  result is the pair \<^verbatim>\<open>(*tmax, *tmin)\<close>. When the variance \<^verbatim>\<open>wTmax_var\<close> is
  negative, \<^verbatim>\<open>wTmax_sd\<close> is NaN: the test \<^verbatim>\<open>GT(wTmax_sd, 0.)\<close> is false, so
  \<^verbatim>\<open>vc10\<close> is 0, and \<^verbatim>\<open>*tmax\<close> is NaN.
\<close>

definition mvnorm ::
  "real \<Rightarrow> real \<Rightarrow> real \<Rightarrow> real \<Rightarrow> real \<Rightarrow> real \<Rightarrow> real \<Rightarrow>
   fatal_error + real option \<times> real option" where
  "mvnorm z1 z2 wTmax wTmin wTmax_var wTmin_var wT_covar =
     (let wTmax_sd = sqrt_c wTmax_var;
          vc10 = (case wTmax_sd of
                    None \<Rightarrow> 0
                  | Some sd \<Rightarrow> if GT sd 0 then wT_covar / sd else 0);
          s = vc10 * vc10
      in if GT s wTmin_var then Inl Bad_covariance_matrix
         else
           let vc11 = (if EQ wTmin_var s then Some 0 else sqrt_c (wTmin_var - s));
               tmax = map_option (\<lambda>sd. sd * z1 + wTmax) wTmax_sd;
               tmin = fmin tmax (map_option (\<lambda>v. (vc10 * z1) + (v * z2) + wTmin) vc11)
           in Inr (tmax, tmin))"

record SW_MARKOV =
  wetprob :: "nat \<Rightarrow> real"
  dryprob :: "nat \<Rightarrow> real"
  avg_ppt :: "nat \<Rightarrow> real"
  std_ppt :: "nat \<Rightarrow> real"
  cfxw :: "nat \<Rightarrow> real"
  cfxd :: "nat \<Rightarrow> real"
  cfnw :: "nat \<Rightarrow> real"
  cfnd :: "nat \<Rightarrow> real"
  u_cov :: "nat \<Rightarrow> nat \<Rightarrow> real"
  v_cov :: "nat \<Rightarrow> nat \<Rightarrow> nat \<Rightarrow> real"
  ppt_events :: nat

text \<open>
  \<^verbatim>\<open>SW_MKV_today\<close>: the random draws are arguments, in the order the function asks for
  them: \<open>p\<close> is the uniform draw, \<open>x\<close> the normal draw for the amount of rain (asked for
  only on a wet day), \<open>z1\<close> and \<open>z2\<close> the draws of \<^verbatim>\<open>mvnorm\<close>. The macro
  \<^verbatim>\<open>doy2week\<close> of \<^verbatim>\<open>Times.h\<close> is a parameter. The values that \<^verbatim>\<open>*tmax\<close> and
  \<^verbatim>\<open>*tmin\<close> hold on entry are never read. The result is the updated module state with
  \<^verbatim>\<open>(*tmax, *tmin, *rain)\<close>.
\<close>

definition SW_MKV_today ::
  "(nat \<Rightarrow> nat) \<Rightarrow> SW_MARKOV \<Rightarrow> real \<Rightarrow> real \<Rightarrow> real \<Rightarrow> real \<Rightarrow> nat \<Rightarrow> real \<Rightarrow>
   fatal_error + SW_MARKOV \<times> real option \<times> real option \<times> real" where
  "SW_MKV_today doy2week m p x z1 z2 doy0 rain =
     (let prob = (if GT rain 0.0 then wetprob m doy0 else dryprob m doy0);
          rain = (if LE p prob then max 0 x else 0);
          m = (if GT rain 0 then m\<lparr>ppt_events := ppt_events m + 1\<rparr> else m);
          week = doy2week (doy0 + 1)
      in case mvnorm z1 z2 (u_cov m week 0) (u_cov m week 1) (v_cov m week 0 0) (v_cov m week 1 1)
                (v_cov m week 1 0) of
           Inl e \<Rightarrow> Inl e
         | Inr (tmax, tmin) \<Rightarrow>
             (case temp_correct_wetdry tmax tmin rain (cfxw m week) (cfxd m week) (cfnw m week)
                     (cfnd m week) of
                (tmax, tmin) \<Rightarrow> Inr (m, tmax, tmin, rain)))"

section \<open>Projections between the soil layers and the temperature grid\<close>

text \<open>
  \<^verbatim>\<open>j - 1\<close> on an \<^verbatim>\<open>unsigned int\<close>: at 0 it wraps to \<open>2^32 - 1\<close>.
\<close>

definition unsigned_pred :: "nat \<Rightarrow> nat" where
  "unsigned_pred n = (if n = 0 then 4294967295 else n - 1)"

text \<open>
  The \<^verbatim>\<open>while\<close> loop of \<^verbatim>\<open>lyrSoil_to_lyrTemp\<close> for the temperature layer \<open>i\<close>; its
  state is \<^verbatim>\<open>(j, acc, sum, res)\<close> (written \<open>acc'\<close> and \<open>sumr\<close>, since the plain names are constants of the library).
\<close>

function lyrSoil_to_lyrTemp_while ::
  "(nat \<Rightarrow> nat \<Rightarrow> real) \<Rightarrow> nat \<Rightarrow> (nat \<Rightarrow> real) \<Rightarrow> (nat \<Rightarrow> real) \<Rightarrow> real \<Rightarrow> nat \<Rightarrow>
   nat \<times> real \<times> real \<times> (nat \<Rightarrow> real) \<Rightarrow> nat \<times> real \<times> real \<times> (nat \<Rightarrow> real)" where
  "lyrSoil_to_lyrTemp_while cor nlyrSoil width_Soil var width_Temp i (j, acc', sumr, res) =
     (if LT acc' width_Temp \<and> j < nlyrSoil + 1 then
        (if GE (cor i j) 0.0 then
           (let ratio = cor i j / width_Soil j;
                res = res(i := res i + var j * ratio);
                sumr = sumr + ratio;
                acc' = acc' + cor i j;
                j = (if LT acc' width_Temp then j + 1 else j)
            in lyrSoil_to_lyrTemp_while cor nlyrSoil width_Soil var width_Temp i (j, acc', sumr, res))
         else if LT (cor i j) 0.0 then
           (let ratio = - cor i j / width_Soil (unsigned_pred j);
                res = res(i := res i + var (unsigned_pred j) * ratio);
                sumr = sumr + ratio;
                acc' = acc' + (- cor i j)
            in lyrSoil_to_lyrTemp_while cor nlyrSoil width_Soil var width_Temp i (j, acc', sumr, res))
         else lyrSoil_to_lyrTemp_while cor nlyrSoil width_Soil var width_Temp i (j, acc', sumr, res))
      else (j, acc', sumr, res))"
  by pat_completeness auto
termination
proof (relation "measures
    [\<lambda>(cor, nlyrSoil, width_Soil, var, width_Temp, i, j, acc', sumr, res). nlyrSoil + 1 - j,
     \<lambda>(cor, nlyrSoil, width_Soil, var, width_Temp, i, j, acc', sumr, res).
        if acc' < width_Temp then 1 + nat \<lceil>(width_Temp - acc') / (- cor i j)\<rceil> else 0]",
    goal_cases)
  case 1
  then show ?case by simp
next
  case (2 cor nlyrSoil width_Soil var width_Temp i j acc' sumr res ratio resa suma acca ja)
  then show ?case by (auto simp: cmp_defs)
next
  case (3 cor nlyrSoil width_Soil var width_Temp i j acc' sumr res ratio resa suma acca)
  then have c: "0 < - cor i j" and a: "acc' < width_Temp" and acca: "acca = acc' + (- cor i j)"
    by (auto simp: cmp_defs)
  have "acca < width_Temp \<Longrightarrow>
      nat \<lceil>(width_Temp - acca) / (- cor i j)\<rceil> < nat \<lceil>(width_Temp - acc') / (- cor i j)\<rceil>"
  proof -
    assume lt: "acca < width_Temp"
    have eq: "(width_Temp - acca) / (- cor i j) = (width_Temp - acc') / (- cor i j) - 1"
      using c by (simp add: acca field_simps)
    have pos: "0 < (width_Temp - acca) / (- cor i j)"
      using c lt by (intro divide_pos_pos) auto
    then have "0 < \<lceil>(width_Temp - acca) / (- cor i j)\<rceil>" by simp
    moreover have "\<lceil>(width_Temp - acca) / (- cor i j)\<rceil> = \<lceil>(width_Temp - acc') / (- cor i j)\<rceil> - 1"
      unfolding eq by simp
    ultimately show ?thesis by linarith
  qed
  with a show ?case by (auto simp: acca)
next
  case (4 cor nlyrSoil width_Soil var width_Temp i j acc' sumr res)
  then show ?case by (auto simp: cmp_defs)
qed


text \<open>
  \<^verbatim>\<open>lyrSoil_to_lyrTemp\<close>: the body of the loop over the temperature layers (\<open>j\<close> is
  kept from one layer to the next), and the loop.
\<close>

definition lyrSoil_to_lyrTemp_row ::
  "(nat \<Rightarrow> nat \<Rightarrow> real) \<Rightarrow> nat \<Rightarrow> (nat \<Rightarrow> real) \<Rightarrow> (nat \<Rightarrow> real) \<Rightarrow> real \<Rightarrow> nat \<Rightarrow>
   nat \<times> (nat \<Rightarrow> real) \<Rightarrow> nat \<times> (nat \<Rightarrow> real)" where
  "lyrSoil_to_lyrTemp_row cor nlyrSoil width_Soil var width_Temp i s =
     (case s of (j, res) \<Rightarrow>
        let res = res(i := 0.0)
        in case lyrSoil_to_lyrTemp_while cor nlyrSoil width_Soil var width_Temp i (j, 0.0, 0.0, res) of
             (j, acc', sumr, res) \<Rightarrow> (j, res(i := res i / sumr)))"

definition lyrSoil_to_lyrTemp ::
  "(nat \<Rightarrow> nat \<Rightarrow> real) \<Rightarrow> nat \<Rightarrow> (nat \<Rightarrow> real) \<Rightarrow> (nat \<Rightarrow> real) \<Rightarrow> nat \<Rightarrow> real \<Rightarrow>
   (nat \<Rightarrow> real) \<Rightarrow> (nat \<Rightarrow> real)" where
  "lyrSoil_to_lyrTemp cor nlyrSoil width_Soil var nlyrTemp width_Temp res =
     snd (fold (lyrSoil_to_lyrTemp_row cor nlyrSoil width_Soil var width_Temp) [0..<nlyrTemp + 1]
            (0, res))"

text \<open>
  \<^verbatim>\<open>lyrSoil_to_lyrTemp_temperature\<close>: its two \<^verbatim>\<open>while\<close> loops advance \<open>j1\<close> and
  \<open>j2\<close>. The function \<^verbatim>\<open>interpolation\<close> is defined in \<^verbatim>\<open>generic.c\<close>, which is not
  among the sources: it is a parameter. The local arrays \<^verbatim>\<open>depth_Soil2\<close> and
  \<^verbatim>\<open>sTemp2\<close> are filled up to the index \<open>nlyrSoil\<close>.
\<close>

function lyrSoil_to_lyrTemp_temperature_j1 :: "(nat \<Rightarrow> real) \<Rightarrow> real \<Rightarrow> nat \<Rightarrow> nat \<Rightarrow> nat" where
  "lyrSoil_to_lyrTemp_temperature_j1 depth_Soil2 depth_Temp_i nlyrSoil j1 =
     (if LT (depth_Soil2 (j1 + 1)) depth_Temp_i \<and> (j1 + 1) < nlyrSoil
      then lyrSoil_to_lyrTemp_temperature_j1 depth_Soil2 depth_Temp_i nlyrSoil (j1 + 1)
      else j1)"
  by pat_completeness auto
termination
  by (relation "measure (\<lambda>(depth_Soil2, depth_Temp_i, nlyrSoil, j1). nlyrSoil - j1)") auto

function lyrSoil_to_lyrTemp_temperature_j2 :: "(nat \<Rightarrow> real) \<Rightarrow> real \<Rightarrow> nat \<Rightarrow> nat \<Rightarrow> nat" where
  "lyrSoil_to_lyrTemp_temperature_j2 depth_Soil2 depth_Temp_i nlyrSoil j2 =
     (if LE (depth_Soil2 (j2 + 1)) depth_Temp_i \<and> (j2 + 1) < nlyrSoil + 1
      then lyrSoil_to_lyrTemp_temperature_j2 depth_Soil2 depth_Temp_i nlyrSoil (j2 + 1)
      else j2)"
  by pat_completeness auto
termination
  by (relation "measure (\<lambda>(depth_Soil2, depth_Temp_i, nlyrSoil, j2). nlyrSoil + 1 - j2)") auto

definition lyrSoil_to_lyrTemp_temperature ::
  "(real \<Rightarrow> real \<Rightarrow> real \<Rightarrow> real \<Rightarrow> real \<Rightarrow> real) \<Rightarrow> nat \<Rightarrow> (nat \<Rightarrow> real) \<Rightarrow> (nat \<Rightarrow> real) \<Rightarrow> real \<Rightarrow>
   nat \<Rightarrow> (nat \<Rightarrow> real) \<Rightarrow> real \<Rightarrow> (nat \<Rightarrow> real) \<Rightarrow> (nat \<Rightarrow> real)" where
  "lyrSoil_to_lyrTemp_temperature interpolation nlyrSoil depth_Soil sTemp endTemp nlyrTemp depth_Temp
       maxTempDepth sTempR =
     (let depth_Soil2 = fold (\<lambda>i a. a(i := depth_Soil i)) [0..<nlyrSoil] (\<lambda>i. 0);
          sTemp2 = fold (\<lambda>i a. a(i := sTemp i)) [0..<nlyrSoil] (\<lambda>i. 0);
          depth_Soil2 = depth_Soil2(nlyrSoil := maxTempDepth);
          sTemp2 = sTemp2(nlyrSoil := endTemp);
          sTempR = snd (fold
            (\<lambda>i s. case s of (j1, sTempR) \<Rightarrow>
               let j1 = lyrSoil_to_lyrTemp_temperature_j1 depth_Soil2 (depth_Temp i) nlyrSoil j1;
                   j2 = j1 + 1;
                   j2 = lyrSoil_to_lyrTemp_temperature_j2 depth_Soil2 (depth_Temp i) nlyrSoil j2
               in (j1, sTempR(i + 1 := interpolation (depth_Soil2 j1) (depth_Soil2 j2) (sTemp2 j1)
                                         (sTemp2 j2) (depth_Temp i))))
            [0..<nlyrTemp] (0, sTempR))
      in sTempR(nlyrTemp + 1 := endTemp))"

text \<open>
  \<^verbatim>\<open>lyrTemp_to_lyrSoil_temperature\<close>: the \<^verbatim>\<open>while\<close> loop for the soil layer \<open>j\<close>, with
  the state \<^verbatim>\<open>(i, acc, n, sTemp)\<close>; a negative entry of \<^verbatim>\<open>cor\<close> leaves the loop.
\<close>

function lyrTemp_to_lyrSoil_temperature_while ::
  "(real \<Rightarrow> real \<Rightarrow> real \<Rightarrow> real \<Rightarrow> real \<Rightarrow> real) \<Rightarrow> (nat \<Rightarrow> nat \<Rightarrow> real) \<Rightarrow> nat \<Rightarrow> (nat \<Rightarrow> real) \<Rightarrow>
   (nat \<Rightarrow> real) \<Rightarrow> (nat \<Rightarrow> real) \<Rightarrow> (nat \<Rightarrow> real) \<Rightarrow> nat \<Rightarrow>
   nat \<times> real \<times> nat \<times> (nat \<Rightarrow> real) \<Rightarrow> nat \<times> real \<times> nat \<times> (nat \<Rightarrow> real)" where
  "lyrTemp_to_lyrSoil_temperature_while interpolation cor nlyrTemp depth_Temp sTempR depth_Soil
       width_Soil j (i, acc', n, sTemp) =
     (if LT acc' (width_Soil j) \<and> i \<le> nlyrTemp + 1 then
        (let i = (if EQ (cor i j) 0.0 then i + 1 else i)
         in if GT (cor i j) 0.0 then
              (let use_layer = \<not> (i = 0 \<and> LT (acc' + cor i j) (width_Soil j));
                   sTemp = (if use_layer then
                              sTemp(j := sTemp j
                                + interpolation (if i > 0 then depth_Temp (i - 1) else 0.0)
                                    (depth_Temp i) (sTempR i) (sTempR (i + 1)) (depth_Soil j))
                            else sTemp);
                   n = (if use_layer then n + 1 else n);
                   acc' = acc' + cor i j;
                   i = (if LT acc' (width_Soil j) then i + 1 else i)
               in lyrTemp_to_lyrSoil_temperature_while interpolation cor nlyrTemp depth_Temp sTempR
                    depth_Soil width_Soil j (i, acc', n, sTemp))
            else if LT (cor i j) 0.0 then (i, acc', n, sTemp)
            else lyrTemp_to_lyrSoil_temperature_while interpolation cor nlyrTemp depth_Temp sTempR
                   depth_Soil width_Soil j (i, acc', n, sTemp))
      else (i, acc', n, sTemp))"
  by pat_completeness auto
termination
proof (relation "measure
    (\<lambda>(interpolation, cor, nlyrTemp, depth_Temp, sTempR, depth_Soil, width_Soil, j, i, acc', n, sTemp).
        if acc' < width_Soil j \<and> i \<le> nlyrTemp + 1 then nlyrTemp + 3 - i else 0)", goal_cases)
  case 1
  then show ?case by simp
next
  case 2
  then show ?case by (auto simp: cmp_defs split: if_splits)
next
  case 3
  then show ?case by (auto simp: cmp_defs split: if_splits)
qed

definition lyrTemp_to_lyrSoil_temperature ::
  "(real \<Rightarrow> real \<Rightarrow> real \<Rightarrow> real \<Rightarrow> real \<Rightarrow> real) \<Rightarrow> (nat \<Rightarrow> nat \<Rightarrow> real) \<Rightarrow> nat \<Rightarrow> (nat \<Rightarrow> real) \<Rightarrow>
   (nat \<Rightarrow> real) \<Rightarrow> nat \<Rightarrow> (nat \<Rightarrow> real) \<Rightarrow> (nat \<Rightarrow> real) \<Rightarrow> (nat \<Rightarrow> real) \<Rightarrow> (nat \<Rightarrow> real)" where
  "lyrTemp_to_lyrSoil_temperature interpolation cor nlyrTemp depth_Temp sTempR nlyrSoil depth_Soil
       width_Soil sTemp =
     snd (fold
       (\<lambda>j s. case s of (i, sTemp) \<Rightarrow>
          let sTemp = sTemp(j := 0.0)
          in case lyrTemp_to_lyrSoil_temperature_while interpolation cor nlyrTemp depth_Temp sTempR
                    depth_Soil width_Soil j (i, 0.0, 0, sTemp) of
               (i, acc', n, sTemp) \<Rightarrow>
                 (i, if n > 0 then sTemp(j := sTemp j / real n) else sTemp))
       [0..<nlyrSoil + 1] (0, sTemp))"


section \<open>Soil temperature\<close>

text \<open>
  A loop whose body may fail to return: the state is passed on as long as the body
  returns.
\<close>

fun fold_option :: "('a \<Rightarrow> 'b \<Rightarrow> 'b option) \<Rightarrow> 'a list \<Rightarrow> 'b \<Rightarrow> 'b option" where
  "fold_option f [] s = Some s"
| "fold_option f (x # xs) s = (case f x s of None \<Rightarrow> None | Some s' \<Rightarrow> fold_option f xs s')"

text \<open>
  The \<^verbatim>\<open>while\<close> loop of \<^verbatim>\<open>soil_temperature_init\<close> that fills row \<open>i\<close> of
  \<^verbatim>\<open>tlyrs_by_slyrs\<close>; its state is \<^verbatim>\<open>(x2, d1, acc, tlyrs_by_slyrs)\<close>, and \<open>x1\<close> does
  not change inside it. From a state with \<open>acc < deltaX \<le> 0\<close> the loop of the C code can
  run forever, so the function is partial: \<open>None\<close> is a loop that does not end.
\<close>

partial_function (option) soil_temperature_init_while ::
  "nat \<Rightarrow> real \<Rightarrow> (nat \<Rightarrow> real) \<Rightarrow> ST_RGR_VALUES \<Rightarrow> nat \<Rightarrow> nat \<Rightarrow>
   nat \<times> real \<times> real \<times> (nat \<Rightarrow> nat \<Rightarrow> real) \<Rightarrow> (nat \<times> real \<times> real \<times> (nat \<Rightarrow> nat \<Rightarrow> real)) option" where
  "soil_temperature_init_while nlyrs deltaX width st i x1 s =
     (case s of (x2, d1, acc', tlyrs) \<Rightarrow>
        if x2 < nlyrs \<and> acc' < deltaX then
          (if GT d1 0.0 then
             (if GT d1 deltaX then
                soil_temperature_init_while nlyrs deltaX width st i x1
                  (x2, d1 - deltaX, acc' + deltaX, mat_upd tlyrs i x1 deltaX)
              else
                soil_temperature_init_while nlyrs deltaX width st i x1
                  (x2 + 1, 0.0, acc' + d1, mat_upd tlyrs i x1 d1))
           else
             (if LT (depthsR st i) (depths st x2) then
                soil_temperature_init_while nlyrs deltaX width st i x1
                  (x2, width x2 - max (deltaX - acc') 0.0, acc' + max (deltaX - acc') 0.0,
                   mat_upd tlyrs i x2 (max (deltaX - acc') 0.0))
              else
                soil_temperature_init_while nlyrs deltaX width st i x1
                  (x2 + 1, 0.0, acc' + width x2, mat_upd tlyrs i x2 (width x2))))
        else Some s)"

text \<open>
  The body of the loop over the temperature layers that holds this \<^verbatim>\<open>while\<close> loop; its
  state is \<^verbatim>\<open>(x1, x2, d1, tlyrs_by_slyrs)\<close>.
\<close>

definition soil_temperature_init_row ::
  "nat \<Rightarrow> real \<Rightarrow> (nat \<Rightarrow> real) \<Rightarrow> ST_RGR_VALUES \<Rightarrow> nat \<Rightarrow>
   nat \<times> nat \<times> real \<times> (nat \<Rightarrow> nat \<Rightarrow> real) \<Rightarrow> (nat \<times> nat \<times> real \<times> (nat \<Rightarrow> nat \<Rightarrow> real)) option" where
  "soil_temperature_init_row nlyrs deltaX width st i s =
     (case s of (x1, x2, d1, tlyrs) \<Rightarrow>
        (case soil_temperature_init_while nlyrs deltaX width st i x1 (x2, d1, 0.0, tlyrs) of
           None \<Rightarrow> None
         | Some (x2, d1, acc', tlyrs) \<Rightarrow>
             Some (x2, x2, d1,
                   if x2 \<ge> nlyrs then mat_upd tlyrs i x2 (- (deltaX - acc')) else tlyrs)))"

text \<open>
  The first part of \<^verbatim>\<open>soil_temperature_init\<close>, up to the test of the maximum depth:
  the latch is set, the arrays of the grid are cleared, and the depths of the soil layers
  and of the temperature layers are summed up. The loop over the soil layers runs to
  \<open>j = nlyrs\<close> and so reads \<^verbatim>\<open>width[nlyrs]\<close>.
\<close>

definition soil_temperature_init_clear :: "nat \<Rightarrow> nat \<Rightarrow> ST_RGR_VALUES \<Rightarrow> ST_RGR_VALUES" where
  "soil_temperature_init_clear nlyrs nRgr st =
     fold (\<lambda>i st.
             let st = st\<lparr>fcR := (fcR st)(i := 0.0)\<rparr>;
                 st = st\<lparr>wpR := (wpR st)(i := 0.0)\<rparr>;
                 st = st\<lparr>bDensityR := (bDensityR st)(i := 0.0)\<rparr>;
                 st = st\<lparr>oldsTempR := (oldsTempR st)(i := 0.0)\<rparr>
             in fold (\<lambda>j st. st\<lparr>tlyrs_by_slyrs := mat_upd (tlyrs_by_slyrs st) i j 0.0\<rparr>)
                  [0..<nlyrs + 1] st)
       [0..<nRgr + 1] st"

definition soil_temperature_init_depths ::
  "(nat \<Rightarrow> real) \<Rightarrow> nat \<Rightarrow> real \<Rightarrow> nat \<Rightarrow> ST_RGR_VALUES \<Rightarrow> ST_RGR_VALUES" where
  "soil_temperature_init_depths width nlyrs deltaX nRgr st =
     (let st = snd (fold (\<lambda>j s. case s of (acc', st) \<Rightarrow>
                            (acc' + width j, st\<lparr>depths := (depths st)(j := acc' + width j)\<rparr>))
                      [0..<nlyrs + 1] (0.0, st))
      in snd (fold (\<lambda>i s. case s of (acc', st) \<Rightarrow>
                      (acc' + deltaX, st\<lparr>depthsR := (depthsR st)(i := acc' + deltaX)\<rparr>))
                [0..<nRgr + 1] (0.0, st)))"

text \<open>
  \<^verbatim>\<open>soil_temperature_init\<close>. The parameter \<^verbatim>\<open>surfaceTemp\<close> is not used by the
  function. When the maximum depth is less than the depth of the soil profile, the error
  flag is set unless it is set already, and the function returns.
\<close>

definition soil_temperature_init ::
  "(real \<Rightarrow> real \<Rightarrow> real \<Rightarrow> real \<Rightarrow> real \<Rightarrow> real) \<Rightarrow> (nat \<Rightarrow> real) \<Rightarrow> (nat \<Rightarrow> real) \<Rightarrow> real \<Rightarrow>
   (nat \<Rightarrow> real) \<Rightarrow> real \<Rightarrow> nat \<Rightarrow> (nat \<Rightarrow> real) \<Rightarrow> (nat \<Rightarrow> real) \<Rightarrow> real \<Rightarrow> real \<Rightarrow> nat \<Rightarrow>
   flow_globals \<Rightarrow> flow_globals option" where
  "soil_temperature_init interpolation bDensity width surfaceTemp oldsTemp meanAirTemp nlyrs fc wp
       deltaX theMaxDepth nRgr g =
     (let g = g\<lparr>soil_temp_init := 1\<rparr>;
          st = soil_temperature_init_clear nlyrs nRgr (stValues g);
          st = soil_temperature_init_depths width nlyrs deltaX nRgr st
      in if LT theMaxDepth (depths st (unsigned_pred nlyrs)) then
           Some (if soil_temp_error g = 0 then g\<lparr>stValues := st, soil_temp_error := 1\<rparr>
                 else g\<lparr>stValues := st\<rparr>)
         else
           (case fold_option (soil_temperature_init_row nlyrs deltaX width st) [0..<nRgr + 1]
                   (0, 0, 0.0, tlyrs_by_slyrs st) of
              None \<Rightarrow> None
            | Some (x1, x2, d1, tlyrs) \<Rightarrow>
                let st = st\<lparr>tlyrs_by_slyrs := tlyrs\<rparr>;
                    st = st\<lparr>bDensityR := lyrSoil_to_lyrTemp (tlyrs_by_slyrs st) nlyrs width bDensity
                                          nRgr deltaX (bDensityR st)\<rparr>;
                    st = st\<lparr>oldsTempR := lyrSoil_to_lyrTemp_temperature interpolation nlyrs
                                          (depths st) oldsTemp meanAirTemp nRgr (depthsR st)
                                          theMaxDepth (oldsTempR st)\<rparr>;
                    fc_vwc = fold (\<lambda>i a. a(i := fc i / width i)) [0..<nlyrs] (\<lambda>i. 0);
                    wp_vwc = fold (\<lambda>i a. a(i := wp i / width i)) [0..<nlyrs] (\<lambda>i. 0);
                    st = st\<lparr>fcR := lyrSoil_to_lyrTemp (tlyrs_by_slyrs st) nlyrs width fc_vwc nRgr
                                    deltaX (fcR st)\<rparr>;
                    st = st\<lparr>wpR := lyrSoil_to_lyrTemp (tlyrs_by_slyrs st) nlyrs width wp_vwc nRgr
                                    deltaX (wpR st)\<rparr>
                in Some (g\<lparr>stValues := st\<rparr>)))"


text \<open>
  \<^verbatim>\<open>adjust_Tsoil_by_freezing_and_thawing\<close>: the adjustment itself is commented out in
  the source; what is left clears the fusion pools on the first call and returns 0.
\<close>

definition adjust_Tsoil_by_freezing_and_thawing ::
  "(nat \<Rightarrow> real) \<Rightarrow> (nat \<Rightarrow> real) \<Rightarrow> real \<Rightarrow> nat \<Rightarrow> (nat \<Rightarrow> real) \<Rightarrow> (nat \<Rightarrow> real) \<Rightarrow>
   flow_globals \<Rightarrow> flow_globals \<times> nat" where
  "adjust_Tsoil_by_freezing_and_thawing oldsTemp sTemp shParam nlyrs vwc bDensity g =
     (let g = (if fusion_pool_init g = 0 then
                 g\<lparr>stValues := fold (\<lambda>i st. st\<lparr>oldsFusionPool_actual :=
                                                     (oldsFusionPool_actual st)(i := 0)\<rparr>)
                                    [0..<nlyrs] (stValues g),
                   fusion_pool_init := 1\<rparr>
               else g);
          sFadjusted_sTemp = 0
      in (g, sFadjusted_sTemp))"

text \<open>
  Modelled from the spec: \<^verbatim>\<open>SEC_PER_DAY\<close> and the macro \<^verbatim>\<open>squared\<close> come from
  headers that are not among the sources; the spec gives the time step as 86400 s and the
  stability coefficient as \<open>(\<Delta>t / \<Delta>X\<^sup>2) \<sqdot> cs / (sh \<sqdot> bDensityR)\<close>. The indices
  \<^verbatim>\<open>Yesterday\<close> and \<^verbatim>\<open>Today\<close> of \<^verbatim>\<open>surfaceTemp[2]\<close> are the two values of an
  enumeration.
\<close>

definition SEC_PER_DAY :: real where
  "SEC_PER_DAY = 86400"

definition squared :: "real \<Rightarrow> real" where
  "squared x = x * x"

datatype TwoDays = Yesterday | Today

text \<open>
  The coefficient \<^verbatim>\<open>parts\<close> of the band \<open>k\<close> in the loop of \<^verbatim>\<open>soil_temperature\<close>,
  from \<^verbatim>\<open>pe\<close>, \<^verbatim>\<open>cs\<close> and \<^verbatim>\<open>sh\<close>. The quotients are those of the real numbers.
  Where \<^verbatim>\<open>fcR[k]\<close> equals \<^verbatim>\<open>wpR[k]\<close>, or \<^verbatim>\<open>sh * bDensityR[k]\<close> or \<^verbatim>\<open>deltaX\<close> is 0,
  the C code divides by zero and goes on with an infinite value or with NaN; the value that
  this definition has there is not the value of the code. The lemmas that say what
  \<^verbatim>\<open>soil_temperature\<close> computes take the flag and the new temperatures from this
  definition only for bands where none of these divisors is 0.
\<close>

definition soil_temperature_parts ::
  "ST_RGR_VALUES \<Rightarrow> (nat \<Rightarrow> real) \<Rightarrow> real \<Rightarrow> real \<Rightarrow> real \<Rightarrow> real \<Rightarrow> nat \<Rightarrow> real" where
  "soil_temperature_parts st vwcR csParam1 csParam2 shParam part1 k =
     (let pe = (vwcR k - wpR st k) / (fcR st k - wpR st k);
          cs = csParam1 + (pe * csParam2);
          sh = vwcR k + shParam * (1 - vwcR k)
      in part1 * cs / (sh * bDensityR st k))"

text \<open>The divisors of \<^verbatim>\<open>parts\<close> for the band \<open>k\<close> are not 0.\<close>

definition soil_temperature_parts_defined ::
  "ST_RGR_VALUES \<Rightarrow> (nat \<Rightarrow> real) \<Rightarrow> real \<Rightarrow> real \<Rightarrow> nat \<Rightarrow> bool" where
  "soil_temperature_parts_defined st vwcR shParam deltaX k =
     (deltaX \<noteq> 0 \<and> fcR st k - wpR st k \<noteq> 0 \<and>
      (vwcR k + shParam * (1 - vwcR k)) * bDensityR st k \<noteq> 0)"

text \<open>
  The body of that loop for \<open>i\<close> from 1 to \<open>nRgr\<close>, on the local array \<^verbatim>\<open>sTempR\<close> and
  the error flag \<open>err\<close>: the flag is set when \<^verbatim>\<open>parts\<close> exceeds 1, and the new temperature is
  computed in either case.
\<close>

definition soil_temperature_step ::
  "ST_RGR_VALUES \<Rightarrow> (nat \<Rightarrow> real) \<Rightarrow> real \<Rightarrow> real \<Rightarrow> real \<Rightarrow> real \<Rightarrow> nat \<Rightarrow>
   (nat \<Rightarrow> real) \<times> nat \<Rightarrow> (nat \<Rightarrow> real) \<times> nat" where
  "soil_temperature_step st vwcR csParam1 csParam2 shParam part1 i s =
     (case s of (sTempR, err) \<Rightarrow>
        let k = i - 1;
            parts = soil_temperature_parts st vwcR csParam1 csParam2 shParam part1 k;
            part2 = sTempR (i - 1) - 2 * oldsTempR st i + oldsTempR st (i + 1);
            err = (if GT parts 1.0 then 1 else err)
        in (sTempR(i := oldsTempR st i + parts * part2), err))"

text \<open>
  The two local arrays of \<^verbatim>\<open>soil_temperature\<close> that hold values of the grid are declared
  as \<^verbatim>\<open>double vwcR[nRgr], sTempR[nRgr + 1]\<close>. A write past the end of such an array has
  no defined behaviour in C: it is the error value of the functions below, with the array
  and the index of the write. Every write to one of the two arrays is tested against the
  number of elements of the array: \<open>checked name n i x\<close> is the value \<open>x\<close> that the write
  at the index \<open>i\<close> leaves if the array has more than \<open>i\<close> elements, and the error if not.
  A loop whose body may end in an error stops at the first one.
\<close>

datatype local_array = Array_vwcR | Array_sTempR

datatype memory_error = Out_of_bounds local_array nat

definition checked :: "local_array \<Rightarrow> nat \<Rightarrow> nat \<Rightarrow> 'a \<Rightarrow> memory_error + 'a" where
  "checked name n i x = (if i < n then Inr x else Inl (Out_of_bounds name i))"

fun fold_error :: "('a \<Rightarrow> 'b \<Rightarrow> memory_error + 'b) \<Rightarrow> 'a list \<Rightarrow> 'b \<Rightarrow> memory_error + 'b" where
  "fold_error f [] s = Inr s"
| "fold_error f (x # xs) s = (case f x s of Inl e \<Rightarrow> Inl e | Inr s' \<Rightarrow> fold_error f xs s')"

text \<open>
  The new temperatures of the grid, in the local array \<^verbatim>\<open>sTempR\<close> of \<open>n_sTempR\<close>
  elements: the surface value at the index 0, the loop, which writes the index \<open>i\<close> in its
  pass \<open>i\<close>, and the constant value below the last band, at the index \<open>nRgr + 1\<close>.
\<close>

definition soil_temperature_grid ::
  "nat \<Rightarrow> ST_RGR_VALUES \<Rightarrow> (nat \<Rightarrow> real) \<Rightarrow> real \<Rightarrow> real \<Rightarrow> real \<Rightarrow> real \<Rightarrow> real \<Rightarrow> real \<Rightarrow> nat \<Rightarrow> nat \<Rightarrow>
   memory_error + (nat \<Rightarrow> real) \<times> nat" where
  "soil_temperature_grid n_sTempR st vwcR T1 csParam1 csParam2 shParam meanAirTemp deltaX nRgr err =
     (case checked Array_sTempR n_sTempR 0 ((\<lambda>i. 0)(0 := T1)) of
        Inl e \<Rightarrow> Inl e
      | Inr sTempR \<Rightarrow>
          (let part1 = SEC_PER_DAY / squared deltaX
           in case fold_error
                    (\<lambda>i s. checked Array_sTempR n_sTempR i
                             (soil_temperature_step st vwcR csParam1 csParam2 shParam part1 i s))
                    [1..<nRgr + 1] (sTempR, err) of
               Inl e \<Rightarrow> Inl e
             | Inr (sTempR, err) \<Rightarrow>
                 (case checked Array_sTempR n_sTempR (nRgr + 1) (sTempR(nRgr + 1 := meanAirTemp)) of
                    Inl e \<Rightarrow> Inl e
                  | Inr sTempR \<Rightarrow> Inr (sTempR, err))))"

text \<open>
  The first part of \<^verbatim>\<open>soil_temperature\<close>: on the first call the surface temperature of
  today is set to the air temperature, the frozen flags are set from the temperatures of
  the day before, and the grid is initialised.
\<close>

definition soil_temperature_first_call ::
  "(real \<Rightarrow> real \<Rightarrow> real \<Rightarrow> real \<Rightarrow> real \<Rightarrow> real) \<Rightarrow> real \<Rightarrow> (nat \<Rightarrow> real) \<Rightarrow> (nat \<Rightarrow> real) \<Rightarrow> (nat \<Rightarrow> real) \<Rightarrow>
   (nat \<Rightarrow> real) \<Rightarrow> (nat \<Rightarrow> real) \<Rightarrow> (TwoDays \<Rightarrow> real) \<Rightarrow> nat \<Rightarrow> (nat \<Rightarrow> real) \<Rightarrow> (nat \<Rightarrow> real) \<Rightarrow> real \<Rightarrow>
   real \<Rightarrow> real \<Rightarrow> nat \<Rightarrow> flow_globals \<Rightarrow> (flow_globals \<times> (TwoDays \<Rightarrow> real)) option" where
  "soil_temperature_first_call interpolation airTemp swc swc_sat bDensity width oldsTemp surfaceTemp
       nlyrs fc wp meanAirTemp deltaX theMaxDepth nRgr g =
     (if soil_temp_init g = 0 then
        (let surfaceTemp = surfaceTemp(Today := airTemp);
             g = g\<lparr>stValues := set_frozen_unfrozen nlyrs oldsTemp swc swc_sat width (stValues g)\<rparr>
         in case soil_temperature_init interpolation bDensity width (surfaceTemp Today) oldsTemp
                   meanAirTemp nlyrs fc wp deltaX theMaxDepth nRgr g of
              None \<Rightarrow> None
            | Some g \<Rightarrow> Some (g, surfaceTemp))
      else Some (g, surfaceTemp))"

text \<open>
  The body of \<^verbatim>\<open>soil_temperature\<close>, with the numbers of elements of the local arrays
  \<^verbatim>\<open>vwcR\<close> and \<^verbatim>\<open>sTempR\<close> as the parameters \<open>n_vwcR\<close> and \<open>n_sTempR\<close>. The call
  \<^verbatim>\<open>lyrSoil_to_lyrTemp(..., vwcR)\<close> is the loop of that function over the rows
  \<open>0..nRgr\<close>, whose pass \<open>i\<close> writes \<^verbatim>\<open>res[i]\<close>, here \<^verbatim>\<open>vwcR[i]\<close>. The result is
  \<open>None\<close> when the initialisation does not return or the surface temperature under snow
  is not defined, an error value when a local array is written past its end, and otherwise
  the module state with the arrays \<^verbatim>\<open>sTemp\<close> and \<^verbatim>\<open>surfaceTemp\<close>.
\<close>

definition soil_temperature_sized ::
  "nat \<Rightarrow> nat \<Rightarrow>
   (real \<Rightarrow> real \<Rightarrow> real \<Rightarrow> real \<Rightarrow> real \<Rightarrow> real) \<Rightarrow> real \<Rightarrow> real \<Rightarrow> real \<Rightarrow> real \<Rightarrow> (nat \<Rightarrow> real) \<Rightarrow>
   (nat \<Rightarrow> real) \<Rightarrow> (nat \<Rightarrow> real) \<Rightarrow> (nat \<Rightarrow> real) \<Rightarrow> (nat \<Rightarrow> real) \<Rightarrow> (nat \<Rightarrow> real) \<Rightarrow> (TwoDays \<Rightarrow> real) \<Rightarrow>
   nat \<Rightarrow> (nat \<Rightarrow> real) \<Rightarrow> (nat \<Rightarrow> real) \<Rightarrow> real \<Rightarrow> real \<Rightarrow> real \<Rightarrow> real \<Rightarrow> real \<Rightarrow> real \<Rightarrow> real \<Rightarrow>
   real \<Rightarrow> real \<Rightarrow> real \<Rightarrow> real \<Rightarrow> nat \<Rightarrow> real \<Rightarrow> flow_globals \<Rightarrow>
   (memory_error + flow_globals \<times> (nat \<Rightarrow> real) \<times> (TwoDays \<Rightarrow> real)) option" where
  "soil_temperature_sized n_vwcR n_sTempR interpolation airTemp pet aet biomass swc swc_sat bDensity
       width oldsTemp sTemp surfaceTemp nlyrs fc wp bmLimiter t1Param1 t1Param2 t1Param3 csParam1
       csParam2 shParam snowdepth meanAirTemp deltaX theMaxDepth nRgr snow g =
     (let vwc = fold (\<lambda>i a. a(i := swc i / width i)) [0..<nlyrs] (\<lambda>i. 0)
      in case soil_temperature_first_call interpolation airTemp swc swc_sat bDensity width oldsTemp
                surfaceTemp nlyrs fc wp meanAirTemp deltaX theMaxDepth nRgr g of
           None \<Rightarrow> None
         | Some (g, surfaceTemp) \<Rightarrow>
             (case soil_temperature_T1 airTemp pet aet biomass bmLimiter t1Param1 t1Param2
                     t1Param3 snowdepth snow of
                None \<Rightarrow> None
              | Some T1 \<Rightarrow>
                  (let st = stValues g
                   in case fold_error
                            (\<lambda>i s. checked Array_vwcR n_vwcR i
                                     (lyrSoil_to_lyrTemp_row (tlyrs_by_slyrs st) nlyrs width vwc
                                        deltaX i s))
                            [0..<nRgr + 1] (0, \<lambda>i. 0) of
                       Inl e \<Rightarrow> Some (Inl e)
                     | Inr (j, vwcR) \<Rightarrow>
                         (case soil_temperature_grid n_sTempR st vwcR T1 csParam1 csParam2 shParam
                                 meanAirTemp deltaX nRgr (soil_temp_error g) of
                            Inl e \<Rightarrow> Some (Inl e)
                          | Inr (sTempR, err) \<Rightarrow>
                              let g = g\<lparr>soil_temp_error := err\<rparr>;
                                  surfaceTemp = surfaceTemp(Yesterday := surfaceTemp Today);
                                  surfaceTemp = surfaceTemp(Today := T1);
                                  sTemp = lyrTemp_to_lyrSoil_temperature interpolation
                                            (tlyrs_by_slyrs st) nRgr (depthsR st) sTempR nlyrs
                                            (depths st) width sTemp
                              in case adjust_Tsoil_by_freezing_and_thawing oldsTemp sTemp shParam
                                        nlyrs vwc bDensity g of
                                   (g, sFadjusted_sTemp) \<Rightarrow>
                                     let sTempR =
                                           (if sFadjusted_sTemp \<noteq> 0 then
                                              lyrSoil_to_lyrTemp_temperature interpolation nlyrs
                                                (depths (stValues g)) sTemp meanAirTemp nRgr
                                                (depthsR (stValues g)) theMaxDepth sTempR
                                            else sTempR);
                                         g = g\<lparr>stValues := set_frozen_unfrozen nlyrs sTemp swc
                                                               swc_sat width (stValues g)\<rparr>;
                                         g = g\<lparr>stValues :=
                                                 fold (\<lambda>i st. st\<lparr>oldsTempR := (oldsTempR st)(i := sTempR i)\<rparr>)
                                                   [0..<nRgr + 2] (stValues g)\<rparr>
                                     in Some (Inr (g, sTemp, surfaceTemp))))))"


section \<open>The bounds on the soil water content\<close>

text \<open>
  The invariant of the spec (section 8): every layer holds at least its minimum less
  \<open>1e-9\<close> and at most its saturation plus \<open>1e-9\<close>; and the constraints of the
  data model on the parameters of the layers, as claim C1 lists them.
\<close>

definition swc_tolerance :: real where
  "swc_tolerance = 1 / 10 ^ 9"

definition swc_within_bounds :: "nat \<Rightarrow> (nat \<Rightarrow> real) \<Rightarrow> (nat \<Rightarrow> real) \<Rightarrow> (nat \<Rightarrow> real) \<Rightarrow> bool" where
  "swc_within_bounds nlyrs swcmin swcsat swc =
     (\<forall>i<nlyrs. swcmin i - swc_tolerance \<le> swc i \<and> swc i \<le> swcsat i + swc_tolerance)"

text \<open>The lower half of the invariant.\<close>

definition swc_above_min :: "nat \<Rightarrow> (nat \<Rightarrow> real) \<Rightarrow> (nat \<Rightarrow> real) \<Rightarrow> bool" where
  "swc_above_min nlyrs swcmin swc = (\<forall>i<nlyrs. swcmin i - swc_tolerance \<le> swc i)"

definition soil_profile_ok ::
  "nat \<Rightarrow> (nat \<Rightarrow> real) \<Rightarrow> (nat \<Rightarrow> real) \<Rightarrow> (nat \<Rightarrow> real) \<Rightarrow> (nat \<Rightarrow> real) \<Rightarrow> (nat \<Rightarrow> real) \<Rightarrow> bool" where
  "soil_profile_ok nlyrs swcmin swcfc swcwp swcsat impermeability =
     (\<forall>i<nlyrs. 0 \<le> swcmin i \<and> swcmin i \<le> swcfc i \<and> swcwp i \<le> swcsat i \<and>
                0 \<le> impermeability i \<and> impermeability i \<le> 1)"

section \<open>Properties of interception\<close>

text \<open>
  Claim C6, as stated, fails: no interception routine clamps the intercepted amount from
  below. With a negative intercept parameter the linear amount is negative, the routine
  returns it as it is and the water left grows, where the spec's clamp gives 0.
\<close>

theorem interception_clamp_counterexample:
  "grass_intercepted_water 1 1 1 1 (-1) 0 0 0 = (2, -1) \<and>
   interception_spec 1 1 1 1 (-1) 0 0 0 = (1, 0)"
  by (simp add: grass_intercepted_water_def interception_spec_def cmp_defs Let_def)

text \<open>
  Claim C6, amended: with cover and incoming water positive, each routine returns the
  linear amount bounded above by the incoming water and by the pool limit (and not bounded
  below), and the water left is the incoming water less that amount, never below 0; with
  cover or incoming water 0 nothing is intercepted and the water passes through; and where
  the linear amount and the pool limit are not negative, the routine agrees with the
  spec's clamped contract.
\<close>

theorem interception_upper_clamp:
  fixes ppt cov scale a b c d M :: real
  defines "lin \<equiv> scale * ((a + b * cov) + (c + d * cov) * ppt)"
  defines "w \<equiv> min lin (min ppt M)"
  shows
    "(0 < cov \<and> 0 < ppt \<longrightarrow>
        grass_intercepted_water M ppt cov scale a b c d = (max (ppt - w) 0, w) \<and>
        shrub_intercepted_water M ppt cov scale a b c d = (max (ppt - w) 0, w) \<and>
        tree_intercepted_water M ppt cov scale a b c d = (max (ppt - w) 0, w) \<and>
        forb_intercepted_water M ppt cov scale a b c d = (max (ppt - w) 0, w) \<and>
        litter_intercepted_water M ppt cov scale a b c d = (max (ppt - w) 0, w)) \<and>
     (cov = 0 \<or> ppt = 0 \<longrightarrow>
        grass_intercepted_water M ppt cov scale a b c d = (ppt, 0) \<and>
        shrub_intercepted_water M ppt cov scale a b c d = (ppt, 0) \<and>
        tree_intercepted_water M ppt cov scale a b c d = (ppt, 0) \<and>
        forb_intercepted_water M ppt cov scale a b c d = (ppt, 0) \<and>
        litter_intercepted_water M ppt cov scale a b c d = (ppt, 0)) \<and>
     (0 \<le> cov \<and> 0 \<le> ppt \<and> 0 \<le> lin \<and> 0 \<le> M \<longrightarrow>
        grass_intercepted_water M ppt cov scale a b c d = interception_spec M ppt cov scale a b c d \<and>
        shrub_intercepted_water M ppt cov scale a b c d = interception_spec M ppt cov scale a b c d \<and>
        tree_intercepted_water M ppt cov scale a b c d = interception_spec M ppt cov scale a b c d \<and>
        forb_intercepted_water M ppt cov scale a b c d = interception_spec M ppt cov scale a b c d \<and>
        litter_intercepted_water M ppt cov scale a b c d = interception_spec M ppt cov scale a b c d)"
proof (intro conjI impI)
  assume pos: "0 < cov \<and> 0 < ppt"
  have lin': "(b * cov + a + (d * cov + c) * ppt) * scale = lin"
    by (simp add: lin_def algebra_simps)
  have w': "min (min lin ppt) M = w"
    by (simp add: w_def min.assoc)
  have w'': "min (min ppt lin) M = w"
    by (simp add: w_def min.assoc min.commute)
  have wle: "max (ppt - w) 0 = ppt - w"
    by (simp add: w_def)
  from pos show "grass_intercepted_water M ppt cov scale a b c d = (max (ppt - w) 0, w)"
    by (simp add: grass_intercepted_water_def cmp_defs Let_def lin' w' wle)
  from pos show "shrub_intercepted_water M ppt cov scale a b c d = (max (ppt - w) 0, w)"
    by (simp add: shrub_intercepted_water_def cmp_defs Let_def lin' w' wle)
  from pos show "tree_intercepted_water M ppt cov scale a b c d = (max (ppt - w) 0, w)"
    by (simp add: tree_intercepted_water_def cmp_defs Let_def lin' w' wle)
  from pos show "forb_intercepted_water M ppt cov scale a b c d = (max (ppt - w) 0, w)"
    by (simp add: forb_intercepted_water_def cmp_defs Let_def lin' w' wle)
  from pos show "litter_intercepted_water M ppt cov scale a b c d = (max (ppt - w) 0, w)"
    by (simp add: litter_intercepted_water_def cmp_defs Let_def lin' w'' wle)
next
  assume z: "cov = 0 \<or> ppt = 0"
  then show "grass_intercepted_water M ppt cov scale a b c d = (ppt, 0)"
    by (auto simp: grass_intercepted_water_def cmp_defs)
  from z show "shrub_intercepted_water M ppt cov scale a b c d = (ppt, 0)"
    by (auto simp: shrub_intercepted_water_def cmp_defs)
  from z show "tree_intercepted_water M ppt cov scale a b c d = (ppt, 0)"
    by (auto simp: tree_intercepted_water_def cmp_defs)
  from z show "forb_intercepted_water M ppt cov scale a b c d = (ppt, 0)"
    by (auto simp: forb_intercepted_water_def cmp_defs)
  from z show "litter_intercepted_water M ppt cov scale a b c d = (ppt, 0)"
    by (auto simp: litter_intercepted_water_def cmp_defs)
next
  assume nn: "0 \<le> cov \<and> 0 \<le> ppt \<and> 0 \<le> lin \<and> 0 \<le> M"
  have lin': "(b * cov + a + (d * cov + c) * ppt) * scale = lin"
    by (simp add: lin_def algebra_simps)
  have lin'': "scale * (a + b * cov + (c + d * cov) * ppt) = lin"
    by (simp add: lin_def)
  from nn have clamp: "max 0 (min lin (min ppt M)) = min lin (min ppt M)"
    by simp
  have m1: "min (min lin ppt) M = min lin (min ppt M)"
    by (simp add: min.assoc)
  have m2: "min (min ppt lin) M = min lin (min ppt M)"
    by (simp add: min.assoc min.commute)
  from nn show "grass_intercepted_water M ppt cov scale a b c d = interception_spec M ppt cov scale a b c d"
    by (auto simp: grass_intercepted_water_def interception_spec_def cmp_defs Let_def lin' lin'' clamp m1)
  from nn show "shrub_intercepted_water M ppt cov scale a b c d = interception_spec M ppt cov scale a b c d"
    by (auto simp: shrub_intercepted_water_def interception_spec_def cmp_defs Let_def lin' lin'' clamp m1)
  from nn show "tree_intercepted_water M ppt cov scale a b c d = interception_spec M ppt cov scale a b c d"
    by (auto simp: tree_intercepted_water_def interception_spec_def cmp_defs Let_def lin' lin'' clamp m1)
  from nn show "forb_intercepted_water M ppt cov scale a b c d = interception_spec M ppt cov scale a b c d"
    by (auto simp: forb_intercepted_water_def interception_spec_def cmp_defs Let_def lin' lin'' clamp m1)
  from nn show "litter_intercepted_water M ppt cov scale a b c d = interception_spec M ppt cov scale a b c d"
    by (auto simp: litter_intercepted_water_def interception_spec_def cmp_defs Let_def lin' lin'' clamp m2)
qed

theorem interception_upper_clamp_witness:
  "grass_intercepted_water 1 2 1 1 (1/2) 0 0 0 = (3/2, 1/2) \<and>
   shrub_intercepted_water 1 2 1 1 (1/2) 0 0 0 = (3/2, 1/2) \<and>
   tree_intercepted_water 1 2 1 1 (1/2) 0 0 0 = (3/2, 1/2) \<and>
   forb_intercepted_water 1 2 1 1 (1/2) 0 0 0 = (3/2, 1/2) \<and>
   litter_intercepted_water 1 2 1 1 (1/2) 0 0 0 = (3/2, 1/2) \<and>
   litter_intercepted_water 1 2 1 1 (1/2) 0 0 0 = interception_spec 1 2 1 1 (1/2) 0 0 0 \<and>
   grass_intercepted_water 1 2 0 1 (1/2) 0 0 0 = (2, 0) \<and>
   litter_intercepted_water 1 0 1 1 (1/2) 0 0 0 = (0, 0)"
  using interception_upper_clamp [where ppt = 2 and cov = 1 and scale = 1 and a = "1/2"
      and b = 0 and c = 0 and d = 0 and M = 1]
    interception_upper_clamp [where ppt = 2 and cov = 0 and scale = 1 and a = "1/2"
      and b = 0 and c = 0 and d = 0 and M = 1]
    interception_upper_clamp [where ppt = 0 and cov = 1 and scale = 1 and a = "1/2"
      and b = 0 and c = 0 and d = 0 and M = 1]
  by auto

section \<open>Frozen flags and surface temperature\<close>

lemma lyrFrozen_set_frozen_fold:
  "lyrFrozen (fold (set_frozen_step sTemp swc swc_sat width) [0..<n] st) i =
     (if i < n then
        (if LE (sTemp i) FREEZING_TEMP_C \<and> GT (swc i) (swc_sat i - width i * MIN_VWC_TO_FREEZE)
         then 1 else 0)
      else lyrFrozen st i)"
  by (induction n) (auto simp: set_frozen_step_def)

text \<open>
  Claim C2: after \<^verbatim>\<open>set_frozen_unfrozen\<close>, the flag of every layer \<open>i < nlyrs\<close> is 1
  exactly when its temperature is at most -1 and its saturation deficit is below
  \<open>width i * 0.13\<close>, and 0 otherwise; the first comparison is inclusive and the second
  strict.
\<close>

theorem set_frozen_unfrozen_rule:
  "i < nlyrs \<Longrightarrow>
   lyrFrozen (set_frozen_unfrozen nlyrs sTemp swc swc_sat width st) i =
     (if sTemp i \<le> - 1 \<and> swc_sat i - swc i < width i * 0.13 then 1 else 0)"
  by (auto simp: set_frozen_unfrozen_def lyrFrozen_set_frozen_fold cmp_defs
      FREEZING_TEMP_C_def MIN_VWC_TO_FREEZE_def)

text \<open>
  The witness takes three layers of width 5 and saturation 1: layer 0 at exactly -1
  degree and wet (frozen), layer 1 at exactly -1 degree with a deficit of exactly
  \<open>5 * 0.13\<close> (not frozen), layer 2 wet and just above -1 degree (not frozen).
\<close>

theorem set_frozen_unfrozen_rule_witness:
  "lyrFrozen (set_frozen_unfrozen 3 (\<lambda>i. if i = 2 then - 0.99 else - 1)
      (\<lambda>i. if i = 1 then 0.35 else 1) (\<lambda>i. 1) (\<lambda>i. 5) stValues_initial) 0 = 1 \<and>
   lyrFrozen (set_frozen_unfrozen 3 (\<lambda>i. if i = 2 then - 0.99 else - 1)
      (\<lambda>i. if i = 1 then 0.35 else 1) (\<lambda>i. 1) (\<lambda>i. 5) stValues_initial) 1 = 0 \<and>
   lyrFrozen (set_frozen_unfrozen 3 (\<lambda>i. if i = 2 then - 0.99 else - 1)
      (\<lambda>i. if i = 1 then 0.35 else 1) (\<lambda>i. 1) (\<lambda>i. 5) stValues_initial) 2 = 0"
  using set_frozen_unfrozen_rule [where i = 0 and nlyrs = 3
      and sTemp = "\<lambda>i. if i = 2 then - 0.99 else - 1"
      and swc = "\<lambda>i. if i = 1 then 0.35 else 1" and swc_sat = "\<lambda>i. 1" and width = "\<lambda>i. 5"
      and st = stValues_initial]
    set_frozen_unfrozen_rule [where i = 1 and nlyrs = 3
      and sTemp = "\<lambda>i. if i = 2 then - 0.99 else - 1"
      and swc = "\<lambda>i. if i = 1 then 0.35 else 1" and swc_sat = "\<lambda>i. 1" and width = "\<lambda>i. 5"
      and st = stValues_initial]
    set_frozen_unfrozen_rule [where i = 2 and nlyrs = 3
      and sTemp = "\<lambda>i. if i = 2 then - 0.99 else - 1"
      and swc = "\<lambda>i. if i = 1 then 0.35 else 1" and swc_sat = "\<lambda>i. 1" and width = "\<lambda>i. 5"
      and st = stValues_initial]
  by simp

text \<open>
  Claim C5: the surface temperature \<^verbatim>\<open>T1\<close> that \<^verbatim>\<open>soil_temperature\<close> computes is the
  three-branch definition of the spec, for a snow-water equivalent that is not negative
  and a positive potential evapotranspiration.
\<close>

theorem soil_temperature_T1_three_branch:
  assumes "0 \<le> snow" and "0 < pet"
  shows "soil_temperature_T1 airTemp pet aet biomass bmLimiter t1Param1 t1Param2 t1Param3
           snowdepth snow =
         Some (T1_spec airTemp pet aet biomass bmLimiter t1Param1 t1Param2 t1Param3 snowdepth snow)"
proof (cases "snowdepth > 0")
  case True
  with assms(1) show ?thesis
    by (auto simp: soil_temperature_T1_def T1_spec_def surface_temperature_under_snow_def
        surface_temperature_under_snow_spec_def cmp_defs Let_def)
next
  case False
  then show ?thesis
    by (simp add: soil_temperature_T1_def T1_spec_def cmp_defs)
qed

text \<open>
  The witness runs the three branches: snow on the ground at -10 degrees with a
  snow-water equivalent of 1 (the value -4.55 of the unit test), no snow with a biomass
  of 100 below the limiter 300, and no snow with a biomass of 600 above it.
\<close>

theorem soil_temperature_T1_three_branch_witness:
  "soil_temperature_T1 (- 10) 0.3 0.1 100 300 15 (- 4) 600 5 1 = Some (- 4.55) \<and>
   soil_temperature_T1 15 0.3 0.1 100 300 15 (- 4) 600 0 0 = Some 17 \<and>
   soil_temperature_T1 15 0.3 0.1 600 300 15 (- 4) 600 0 0 = Some 13"
  using soil_temperature_T1_three_branch [where snow = 1 and pet = "0.3" and airTemp = "- 10"
      and aet = "0.1" and biomass = 100 and bmLimiter = 300 and ?t1Param1.0 = 15
      and ?t1Param2.0 = "- 4" and ?t1Param3.0 = 600 and snowdepth = 5]
    soil_temperature_T1_three_branch [where snow = 0 and pet = "0.3" and airTemp = 15
      and aet = "0.1" and biomass = 100 and bmLimiter = 300 and ?t1Param1.0 = 15
      and ?t1Param2.0 = "- 4" and ?t1Param3.0 = 600 and snowdepth = 0]
    soil_temperature_T1_three_branch [where snow = 0 and pet = "0.3" and airTemp = 15
      and aet = "0.1" and biomass = 600 and bmLimiter = 300 and ?t1Param1.0 = 15
      and ?t1Param2.0 = "- 4" and ?t1Param3.0 = 600 and snowdepth = 0]
  by (simp add: T1_spec_def surface_temperature_under_snow_spec_def)

section \<open>Properties of the Markov weather generator\<close>

lemma fmin_le_c: "le_c (fmin (Some a) y) (Some a)"
  by (simp add: fmin_def le_c_def split: option.splits)

lemma temp_correct_wetdry_ordered:
  "tmax \<noteq> None \<Longrightarrow>
   le_c (snd (temp_correct_wetdry tmax tmin rain cfmax_wet cfmax_dry cfmin_wet cfmin_dry))
        (fst (temp_correct_wetdry tmax tmin rain cfmax_wet cfmax_dry cfmin_wet cfmin_dry))"
  by (auto simp: temp_correct_wetdry_def Let_def fmin_le_c)

lemma temp_correct_wetdry_pair:
  "temp_correct_wetdry tmax tmin rain cfmax_wet cfmax_dry cfmin_wet cfmin_dry = (tx, tn) \<Longrightarrow>
   tmax \<noteq> None \<Longrightarrow> le_c tn tx"
  using temp_correct_wetdry_ordered [of tmax tmin rain cfmax_wet cfmax_dry cfmin_wet cfmin_dry]
  by simp

lemma mvnorm_ordered:
  "mvnorm z1 z2 wTmax wTmin wTmax_var wTmin_var wT_covar = Inr (tmax, tmin) \<Longrightarrow>
   0 \<le> wTmax_var \<Longrightarrow> tmax \<noteq> None \<and> le_c tmin tmax"
  by (auto simp: mvnorm_def Let_def sqrt_c_def fmin_le_c split: if_splits)

text \<open>
  \<^verbatim>\<open>mvnorm\<close> fails only on a bad covariance matrix, and \<^verbatim>\<open>SW_MKV_today\<close> fails only
  where \<^verbatim>\<open>mvnorm\<close> does: otherwise both return.
\<close>

lemma mvnorm_returns:
  "(\<exists>r. mvnorm z1 z2 wTmax wTmin wTmax_var wTmin_var wT_covar = Inr r) \<longleftrightarrow>
   \<not> GT ((if 0 < wTmax_var then wT_covar / sqrt wTmax_var else 0)
         * (if 0 < wTmax_var then wT_covar / sqrt wTmax_var else 0)) wTmin_var"
  by (simp add: mvnorm_def Let_def sqrt_c_def cmp_defs)

lemma SW_MKV_today_returns:
  "(\<exists>r. SW_MKV_today doy2week m p x z1 z2 doy0 rain = Inr r) \<longleftrightarrow>
   (\<exists>r. mvnorm z1 z2 (u_cov m (doy2week (doy0 + 1)) 0) (u_cov m (doy2week (doy0 + 1)) 1)
          (v_cov m (doy2week (doy0 + 1)) 0 0) (v_cov m (doy2week (doy0 + 1)) 1 1)
          (v_cov m (doy2week (doy0 + 1)) 1 0) = Inr r)"
  by (auto simp: SW_MKV_today_def Let_def split: sum.splits prod.splits)

text \<open>
  Claim C9, as stated, fails for a parameter set with a negative variance of the maximum
  temperature, which \<^verbatim>\<open>SW_MKV_read_cov\<close> accepts. Weekly means 20 and 5, variances -4
  and 9, covariance 0, no corrections, a dry day and the draws \<open>z1 = 1\<close>, \<open>z2 = 2\<close>:
  \<^verbatim>\<open>mvnorm\<close> raises no error and returns NaN for \<^verbatim>\<open>*tmax\<close> and 11 for \<^verbatim>\<open>*tmin\<close>,
  \<^verbatim>\<open>SW_MKV_today\<close> returns the same pair, and \<^verbatim>\<open>tmin <= tmax\<close> is false of it.
\<close>

theorem markov_negative_variance_unordered:
  "mvnorm 1 2 20 5 (- 4) 9 0 = Inr (None, Some 11) \<and>
   SW_MKV_today (\<lambda>d. d div 7)
     \<lparr>wetprob = (\<lambda>d. 0), dryprob = (\<lambda>d. 0), avg_ppt = (\<lambda>d. 1), std_ppt = (\<lambda>d. 0),
      cfxw = (\<lambda>w. 0), cfxd = (\<lambda>w. 0), cfnw = (\<lambda>w. 0), cfnd = (\<lambda>w. 0),
      u_cov = (\<lambda>w k. if k = 0 then 20 else 5),
      v_cov = (\<lambda>w a b. if a = 0 \<and> b = 0 then - 4 else if a = 1 \<and> b = 1 then 9 else 0),
      ppt_events = 0\<rparr> 0.5 1 1 2 0 0
   = Inr (\<lparr>wetprob = (\<lambda>d. 0), dryprob = (\<lambda>d. 0), avg_ppt = (\<lambda>d. 1), std_ppt = (\<lambda>d. 0),
      cfxw = (\<lambda>w. 0), cfxd = (\<lambda>w. 0), cfnw = (\<lambda>w. 0), cfnd = (\<lambda>w. 0),
      u_cov = (\<lambda>w k. if k = 0 then 20 else 5),
      v_cov = (\<lambda>w a b. if a = 0 \<and> b = 0 then - 4 else if a = 1 \<and> b = 1 then 9 else 0),
      ppt_events = 0\<rparr>, None, Some 11, 0) \<and>
   \<not> le_c (Some 11) None"
proof -
  have mv: "mvnorm 1 2 20 5 (- 4) 9 0 = Inr (None, Some 11)"
    by (simp add: mvnorm_def sqrt_c_def fmin_def cmp_defs Let_def)
  show ?thesis
    by (simp add: SW_MKV_today_def mv temp_correct_wetdry_def fmin_def le_c_def cmp_defs Let_def)
qed

text \<open>
  Claim C9, amended: when the variance of the maximum temperature is not negative, the pair
  that \<^verbatim>\<open>mvnorm\<close> returns holds two numbers with \<open>tmin \<le> tmax\<close>; the wet/dry correction
  returns such a pair whenever the maximum temperature it is given is a number; and so
  does \<^verbatim>\<open>SW_MKV_today\<close>, for every day of the year, every parameter set whose variance
  of the maximum temperature of the week is not negative, and all random draws.
\<close>

theorem markov_tmin_le_tmax:
  "(0 \<le> wTmax_var \<longrightarrow> mvnorm z1 z2 wTmax wTmin wTmax_var wTmin_var wT_covar = Inr (tmax, tmin) \<longrightarrow>
      le_c tmin tmax) \<and>
   (tmax0 \<noteq> None \<longrightarrow>
      le_c (snd (temp_correct_wetdry tmax0 tmin0 rain0 cfmax_wet cfmax_dry cfmin_wet cfmin_dry))
           (fst (temp_correct_wetdry tmax0 tmin0 rain0 cfmax_wet cfmax_dry cfmin_wet cfmin_dry))) \<and>
   (0 \<le> v_cov m (doy2week (doy0 + 1)) 0 0 \<longrightarrow>
      SW_MKV_today doy2week m p x z1 z2 doy0 rain = Inr (m', tmax', tmin', rain') \<longrightarrow>
      le_c tmin' tmax')"
proof (intro conjI impI)
  assume "0 \<le> wTmax_var" "mvnorm z1 z2 wTmax wTmin wTmax_var wTmin_var wT_covar = Inr (tmax, tmin)"
  then show "le_c tmin tmax" using mvnorm_ordered by blast
next
  assume "tmax0 \<noteq> None"
  then show "le_c (snd (temp_correct_wetdry tmax0 tmin0 rain0 cfmax_wet cfmax_dry cfmin_wet cfmin_dry))
           (fst (temp_correct_wetdry tmax0 tmin0 rain0 cfmax_wet cfmax_dry cfmin_wet cfmin_dry))"
    by (rule temp_correct_wetdry_ordered)
next
  assume var: "0 \<le> v_cov m (doy2week (doy0 + 1)) 0 0"
    and today: "SW_MKV_today doy2week m p x z1 z2 doy0 rain = Inr (m', tmax', tmin', rain')"
  from today var show "le_c tmin' tmax'"
    by (auto simp: SW_MKV_today_def Let_def split: sum.splits prod.splits if_splits
        dest!: mvnorm_ordered dest: temp_correct_wetdry_pair)
qed

text \<open>
  The witness runs one wet day: weekly means 20 and 5, variances 4 and 8, covariance 4,
  wet-day corrections -1 and +1, and the draws \<open>p = 0.5\<close>, \<open>x = 1\<close>, \<open>z1 = 1\<close>,
  \<open>z2 = - 1\<close>. With the draws \<open>z1 = 0\<close>, \<open>z2 = 10\<close> the second variate of
  \<^verbatim>\<open>mvnorm\<close> is 25 and the minimum with the first one, 20, is returned.
\<close>

theorem markov_tmin_le_tmax_witness:
  "SW_MKV_today (\<lambda>d. d div 7)
     \<lparr>wetprob = (\<lambda>d. 1), dryprob = (\<lambda>d. 0), avg_ppt = (\<lambda>d. 1), std_ppt = (\<lambda>d. 0),
      cfxw = (\<lambda>w. - 1), cfxd = (\<lambda>w. 1), cfnw = (\<lambda>w. 1), cfnd = (\<lambda>w. - 1),
      u_cov = (\<lambda>w k. if k = 0 then 20 else 5),
      v_cov = (\<lambda>w a b. if a = 0 \<and> b = 0 then 4 else if a = 1 \<and> b = 1 then 8 else 4),
      ppt_events = 0\<rparr> 0.5 1 1 (- 1) 0 1
   = Inr (\<lparr>wetprob = (\<lambda>d. 1), dryprob = (\<lambda>d. 0), avg_ppt = (\<lambda>d. 1), std_ppt = (\<lambda>d. 0),
      cfxw = (\<lambda>w. - 1), cfxd = (\<lambda>w. 1), cfnw = (\<lambda>w. 1), cfnd = (\<lambda>w. - 1),
      u_cov = (\<lambda>w k. if k = 0 then 20 else 5),
      v_cov = (\<lambda>w a b. if a = 0 \<and> b = 0 then 4 else if a = 1 \<and> b = 1 then 8 else 4),
      ppt_events = 1\<rparr>, Some 21, Some 6, 1) \<and>
   le_c (Some 6) (Some 21) \<and>
   mvnorm 0 10 20 5 4 8 4 = Inr (Some 20, Some 20) \<and> le_c (Some 20) (Some 20) \<and>
   temp_correct_wetdry (Some 22) (Some 5) 1 (- 1) 1 1 (- 1) = (Some 21, Some 6)"
proof -
  let ?m = "\<lparr>wetprob = (\<lambda>d. 1), dryprob = (\<lambda>d. 0), avg_ppt = (\<lambda>d. 1), std_ppt = (\<lambda>d. 0),
      cfxw = (\<lambda>w. - 1), cfxd = (\<lambda>w. 1), cfnw = (\<lambda>w. 1), cfnd = (\<lambda>w. - 1),
      u_cov = (\<lambda>w k. if k = 0 then 20 else 5),
      v_cov = (\<lambda>w a b. if a = 0 \<and> b = 0 then 4 else if a = 1 \<and> b = (1::nat) then 8 else (4::real)),
      ppt_events = 0\<rparr>"
  have mv1: "mvnorm 1 (- 1) 20 5 4 8 4 = Inr (Some 22, Some 5)"
    by (simp add: mvnorm_def sqrt_c_def fmin_def cmp_defs Let_def)
  have mv2: "mvnorm 0 10 20 5 4 8 4 = Inr (Some 20, Some 20)"
    by (simp add: mvnorm_def sqrt_c_def fmin_def cmp_defs Let_def)
  have tc: "temp_correct_wetdry (Some 22) (Some 5) 1 (- 1) 1 1 (- 1) = (Some 21, Some 6)"
    by (simp add: temp_correct_wetdry_def fmin_def cmp_defs Let_def)
  have today: "SW_MKV_today (\<lambda>d. d div 7) ?m 0.5 1 1 (- 1) 0 1
      = Inr (?m\<lparr>ppt_events := 1\<rparr>, Some 21, Some 6, 1)"
    by (simp add: SW_MKV_today_def mv1 tc cmp_defs Let_def)
  from markov_tmin_le_tmax [where ?z1.0 = 1 and ?z2.0 = "- 1" and doy2week = "\<lambda>d. d div 7"
      and m = ?m and p = "0.5" and x = 1 and ?doy0.0 = 0 and rain = 1
      and m' = "?m\<lparr>ppt_events := 1\<rparr>" and tmax' = "Some 21" and tmin' = "Some 6" and rain' = 1
      and tmax0 = "Some 22" and tmin0 = "Some 5" and rain0 = 1 and cfmax_wet = "- 1"
      and cfmax_dry = 1 and cfmin_wet = 1 and cfmin_dry = "- 1"] today tc
  have le1: "le_c (Some 6) (Some 21)" by simp
  from markov_tmin_le_tmax [where ?z1.0 = 0 and ?z2.0 = 10 and wTmax = 20 and wTmin = 5
      and wTmax_var = 4 and wTmin_var = 8 and wT_covar = 4 and tmax = "Some 20" and tmin = "Some 20"] mv2
  have le2: "le_c (Some 20) (Some 20)" by simp
  from today mv2 le1 le2 tc show ?thesis by simp
qed

section \<open>Properties of infiltration\<close>

lemma oversat_sweep_indices_split: "oversat_sweep_indices nlyrs = rev [1..<Suc nlyrs] @ [0]"
  by (simp add: oversat_sweep_indices_def upt_conv_Cons del: upt_Suc)

lemma oversat_sweep_indices_Cons: "oversat_sweep_indices nlyrs = nlyrs # rev [0..<nlyrs]"
  by (simp add: oversat_sweep_indices_def)

lemma fold_invariant:
  assumes "P s" and "\<And>x s. x \<in> set xs \<Longrightarrow> P s \<Longrightarrow> P (f x s)"
  shows "P (fold f xs s)"
  using assms by (induction xs arbitrary: s) auto

lemma standingWater_saturated_percolation_step:
  "sw_standingWater (saturated_percolation_step st nlyrs swcfc impermeability i s) = sw_standingWater s"
  by (simp add: saturated_percolation_step_def Let_def)

lemma standingWater_unsaturated_percolation_step:
  "sw_standingWater (unsaturated_percolation_step st nlyrs sdrainpar sdraindpth swcfc width swcmin
      impermeability i s) = sw_standingWater s"
  by (simp add: unsaturated_percolation_step_def Let_def)

lemma standingWater_push_up_step_high:
  "0 < j \<Longrightarrow> sw_standingWater (push_up_step_high swcsat j s) = sw_standingWater s"
  by (simp add: push_up_step_high_def Let_def)

lemma standingWater_push_up_step_low:
  "0 < j \<Longrightarrow> sw_standingWater (push_up_step_low swcsat j s) = sw_standingWater s"
  by (simp add: push_up_step_low_def Let_def)

lemma standingWater_push_high_top:
  "sw_standingWater (push_up_step_high swcsat 0 s) =
     (if sw_swc s 0 > swcsat 0 then sw_swc s 0 - swcsat 0 else sw_standingWater s)"
  by (simp add: push_up_step_high_def Let_def GT_def)

lemma standingWater_push_low_top:
  "sw_standingWater (push_up_step_low swcsat 0 s) = sw_standingWater s + max 0 (sw_swc s 0 - swcsat 0)"
  by (simp add: push_up_step_low_def Let_def GT_def)

text \<open>
  Claim C10: \<^verbatim>\<open>infiltrate_water_high\<close> does not read the standing water that is passed
  in, and returns as standing water exactly the excess over saturation that layer 0 holds
  when the upward sweep reaches it (0 when there is none); \<^verbatim>\<open>infiltrate_water_low\<close>
  returns the standing water that is passed in plus that excess. The state when the sweep
  reaches layer 0 is the state after the percolation loop and the passes \<open>j = nlyrs\<close>
  down to 1 of the sweep.
\<close>

theorem standing_water_assigned_high_accumulated_low:
  fixes st :: ST_RGR_VALUES and swc drain swcfc swcsat impermeability width swcmin :: "nat \<Rightarrow> real"
  defines "top_high \<equiv>
     \<lambda>drainout pptleft nlyrs.
       fold (push_up_step_high swcsat) (rev [1..<Suc nlyrs])
         (fold (saturated_percolation_step st nlyrs swcfc impermeability) [0..<nlyrs]
            \<lparr>sw_swc = swc(0 := swc 0 + pptleft), sw_drain = drain, sw_drainout = drainout,
             sw_standingWater = 0\<rparr>)"
  defines "top_low \<equiv>
     \<lambda>drainout nlyrs sdrainpar sdraindpth standingWater.
       fold (push_up_step_low swcsat) (rev [1..<Suc nlyrs])
         (fold (unsaturated_percolation_step st nlyrs sdrainpar sdraindpth swcfc width swcmin
                  impermeability) [0..<nlyrs]
            \<lparr>sw_swc = swc, sw_drain = drain, sw_drainout = drainout,
             sw_standingWater = standingWater\<rparr>)"
  shows
    "infiltrate_water_high st swc drain drainout pptleft nlyrs swcfc swcsat impermeability standingWater
       = infiltrate_water_high st swc drain drainout pptleft nlyrs swcfc swcsat impermeability 0 \<and>
     sw_standingWater
       (infiltrate_water_high st swc drain drainout pptleft nlyrs swcfc swcsat impermeability
          standingWater)
       = max 0 (sw_swc (top_high drainout pptleft nlyrs) 0 - swcsat 0) \<and>
     sw_standingWater
       (infiltrate_water_low st swc drain drainout nlyrs sdrainpar sdraindpth swcfc width swcmin
          swcsat impermeability standingWater)
       = standingWater
         + max 0 (sw_swc (top_low drainout nlyrs sdrainpar sdraindpth standingWater) 0 - swcsat 0)"
proof (intro conjI)
  show "infiltrate_water_high st swc drain drainout pptleft nlyrs swcfc swcsat impermeability
          standingWater
        = infiltrate_water_high st swc drain drainout pptleft nlyrs swcfc swcsat impermeability 0"
    by (simp add: infiltrate_water_high_def)
next
  let ?t = "top_high drainout pptleft nlyrs"
  have "sw_standingWater ?t = 0"
    unfolding top_high_def
    by (intro fold_invariant [where P = "\<lambda>s. sw_standingWater s = 0"])
       (auto simp: standingWater_saturated_percolation_step standingWater_push_up_step_high)
  moreover have "infiltrate_water_high st swc drain drainout pptleft nlyrs swcfc swcsat
      impermeability standingWater = push_up_step_high swcsat 0 ?t"
    by (simp add: infiltrate_water_high_def oversat_sweep_indices_split top_high_def Let_def
        del: upt_Suc)
  ultimately show "sw_standingWater
       (infiltrate_water_high st swc drain drainout pptleft nlyrs swcfc swcsat impermeability
          standingWater)
       = max 0 (sw_swc ?t 0 - swcsat 0)"
    by (simp add: standingWater_push_high_top)
next
  let ?t = "top_low drainout nlyrs sdrainpar sdraindpth standingWater"
  have "sw_standingWater ?t = standingWater"
    unfolding top_low_def
    by (intro fold_invariant [where P = "\<lambda>s. sw_standingWater s = standingWater"])
       (auto simp: standingWater_unsaturated_percolation_step standingWater_push_up_step_low)
  moreover have "infiltrate_water_low st swc drain drainout nlyrs sdrainpar sdraindpth swcfc width
      swcmin swcsat impermeability standingWater = push_up_step_low swcsat 0 ?t"
    by (simp add: infiltrate_water_low_def oversat_sweep_indices_split top_low_def Let_def
        del: upt_Suc)
  ultimately show "sw_standingWater
       (infiltrate_water_low st swc drain drainout nlyrs sdrainpar sdraindpth swcfc width swcmin
          swcsat impermeability standingWater)
       = standingWater + max 0 (sw_swc ?t 0 - swcsat 0)"
    by (simp add: standingWater_push_low_top)
qed

text \<open>
  Claim C3 fails on the code: the upward sweep of both routines starts at \<open>j = nlyrs\<close>,
  one past the last layer, so its first pass reads \<^verbatim>\<open>swc[nlyrs]\<close> and
  \<^verbatim>\<open>swcsat[nlyrs]\<close>. With one layer, and the slot after it holding 5 over a saturation
  of 0, that pass writes \<^verbatim>\<open>swc[1]\<close>, \<^verbatim>\<open>drain[0]\<close> and \<^verbatim>\<open>swc[0]\<close>, and the water
  it finds there ends as standing water.
\<close>

theorem oversat_sweep_starts_past_last_layer:
  "oversat_sweep_indices nlyrs = nlyrs # rev [0..<nlyrs] \<and>
   (let r = infiltrate_water_high stValues_initial ((\<lambda>i. 0)(0 := 1, 1 := 5)) (\<lambda>i. 0) 0 0 1
              (\<lambda>i. 1) ((\<lambda>i. 0)(0 := 2)) (\<lambda>i. 0) 0
    in sw_swc r 1 = 0 \<and> sw_swc r 0 = 2 \<and> sw_drain r 0 = - 5 \<and> sw_standingWater r = 4) \<and>
   (let r = infiltrate_water_low stValues_initial ((\<lambda>i. 0)(0 := 1, 1 := 5)) (\<lambda>i. 0) 0 1 0 0
              (\<lambda>i. 1) (\<lambda>i. 1) (\<lambda>i. 1) ((\<lambda>i. 0)(0 := 2)) (\<lambda>i. 0) 0
    in sw_swc r 1 = 0 \<and> sw_swc r 0 = 2 \<and> sw_drain r 0 = - 5 \<and> sw_standingWater r = 4)"
  by (simp add: oversat_sweep_indices_def infiltrate_water_high_def infiltrate_water_low_def
      saturated_percolation_step_def unsaturated_percolation_step_def push_up_step_high_def
      push_up_step_low_def stValues_initial_def cmp_defs Let_def)

section \<open>The bounds on the soil water content under the water operations\<close>

lemma scaled_excess_bounds:
  fixes c y :: real
  assumes "0 \<le> c" and "c \<le> 1"
  shows "0 \<le> max 0 (c * y)" and "max 0 (c * y) \<le> max 0 y"
proof -
  show "0 \<le> max 0 (c * y)" by simp
  show "max 0 (c * y) \<le> max 0 y"
  proof (cases "0 \<le> y")
    case True
    then have "c * y \<le> 1 * y" using assms by (intro mult_right_mono) auto
    then show ?thesis by (simp add: max_def)
  next
    case False
    then have "c * y \<le> 0" using assms by (simp add: mult_nonneg_nonpos)
    then show ?thesis by (simp add: max_def)
  qed
qed

lemma ksat_factor_bounds:
  fixes imp :: real and fr :: int
  assumes "0 \<le> imp" and "imp \<le> 1"
  shows "0 \<le> (if fr = 1 then 0.01 else 1) * (1 - imp)"
    and "(if fr = 1 then 0.01 else 1) * (1 - imp) \<le> 1"
  using assms by (auto intro: mult_le_one)

lemma swc_saturated_percolation_step:
  assumes "i < nlyrs" and "swc_above_min nlyrs swcmin (sw_swc s)"
    and "swcmin i \<le> swcfc i" and "0 \<le> impermeability i" and "impermeability i \<le> 1"
  shows "swc_above_min nlyrs swcmin
           (sw_swc (saturated_percolation_step st nlyrs swcfc impermeability i s))"
proof -
  define c where "c = (if lyrFrozen st i = 1 then 0.01 else (1::real)) * (1 - impermeability i)"
  define d where "d = max 0 (c * (sw_swc s i - swcfc i))"
  have c: "0 \<le> c" "c \<le> 1"
    unfolding c_def using ksat_factor_bounds [OF assms(4,5)] by auto
  have d0: "0 \<le> d" and dle: "d \<le> max 0 (sw_swc s i - swcfc i)"
    unfolding d_def using scaled_excess_bounds [OF c] by auto
  have keep: "swcmin i - swc_tolerance \<le> sw_swc s i - d"
  proof (cases "sw_swc s i \<le> swcfc i")
    case True
    then have "max 0 (sw_swc s i - swcfc i) = 0" by simp
    with dle d0 have "d = 0" by linarith
    with assms(1,2) show ?thesis by (simp add: swc_above_min_def)
  next
    case False
    with dle have "sw_swc s i - d \<ge> swcfc i" by (simp add: max_def)
    with assms(3) show ?thesis by (simp add: swc_tolerance_def)
  qed
  have step: "sw_swc (saturated_percolation_step st nlyrs swcfc impermeability i s) =
      (if i < nlyrs - 1 then (sw_swc s)(i + 1 := sw_swc s (i + 1) + d, i := sw_swc s i - d)
       else (sw_swc s)(i := sw_swc s i - d))"
    by (simp add: saturated_percolation_step_def Let_def d_def c_def)
  show ?thesis
    unfolding step swc_above_min_def
    using assms(2) keep d0 by (auto simp: swc_above_min_def intro: order_trans)
qed


lemma swc_unsaturated_percolation_step:
  assumes "i < nlyrs" and "swc_above_min nlyrs swcmin (sw_swc s)"
    and "0 \<le> sdrainpar" and "0 \<le> impermeability i" and "impermeability i \<le> 1"
  shows "swc_above_min nlyrs swcmin
           (sw_swc (unsaturated_percolation_step st nlyrs sdrainpar sdraindpth swcfc width swcmin
              impermeability i s))"
proof -
  define c where "c = (if lyrFrozen st i = 1 then 0.01 else (1::real)) * (1 - impermeability i)"
  define drainpot where "drainpot = (if GT (sw_swc s i) (swcfc i) then sdrainpar
      else sdrainpar * exp ((sw_swc s i - swcfc i) * sdraindpth / width i))"
  define d where "d = (if LE (sw_swc s i) (swcmin i) then 0
      else c * min (max 0 (sw_swc s i - swcmin i)) drainpot)"
  have c: "0 \<le> c" "c \<le> 1"
    unfolding c_def using ksat_factor_bounds [OF assms(4,5)] by auto
  have pot: "0 \<le> drainpot"
    unfolding drainpot_def using assms(3) by simp
  have d0: "0 \<le> d"
    unfolding d_def using c pot by simp
  have keep: "swcmin i - swc_tolerance \<le> sw_swc s i - d"
  proof (cases "sw_swc s i \<le> swcmin i")
    case True
    then have "d = 0" by (simp add: d_def LE_def)
    with assms(1,2) show ?thesis by (simp add: swc_above_min_def)
  next
    case False
    let ?m = "min (max 0 (sw_swc s i - swcmin i)) drainpot"
    have m0: "0 \<le> ?m" using pot by simp
    have "c * ?m \<le> 1 * ?m" using c m0 by (intro mult_right_mono) auto
    also have "\<dots> \<le> sw_swc s i - swcmin i" using False by simp
    finally have "d \<le> sw_swc s i - swcmin i" using False by (simp add: d_def LE_def)
    then show ?thesis by (simp add: swc_tolerance_def)
  qed
  have step: "sw_swc (unsaturated_percolation_step st nlyrs sdrainpar sdraindpth swcfc width swcmin
        impermeability i s) =
      (if i < nlyrs - 1 then (sw_swc s)(i + 1 := sw_swc s (i + 1) + d, i := sw_swc s i - d)
       else (sw_swc s)(i := sw_swc s i - max d 0))"
    by (simp add: unsaturated_percolation_step_def Let_def d_def c_def drainpot_def)
  have dmax: "max d 0 = d" using d0 by simp
  show ?thesis
    unfolding step dmax swc_above_min_def
    using assms(2) keep d0 by (auto simp: swc_above_min_def intro: order_trans)
qed

lemma sw_swc_push_up_step_low: "sw_swc (push_up_step_low swcsat j s) = sw_swc (push_up_step_high swcsat j s)"
  by (simp add: push_up_step_low_def push_up_step_high_def Let_def)

lemma sw_swc_push_up_step_high:
  "sw_swc (push_up_step_high swcsat j s) =
     (if sw_swc s j > swcsat j then
        (if j > 0 then (sw_swc s)(j := swcsat j, j - 1 := sw_swc s (j - 1) + (sw_swc s j - swcsat j))
         else (sw_swc s)(j := swcsat j))
      else sw_swc s)"
  by (auto simp: push_up_step_high_def Let_def GT_def)

lemma swc_above_min_push_up_step_high:
  assumes "swc_above_min nlyrs swcmin (sw_swc s)" and "\<forall>i<nlyrs. swcmin i \<le> swcsat i"
  shows "swc_above_min nlyrs swcmin (sw_swc (push_up_step_high swcsat j s))"
  using assms unfolding sw_swc_push_up_step_high swc_above_min_def
  by (auto simp: swc_tolerance_def intro: order_trans)

lemma swc_above_min_push_up_step_low:
  assumes "swc_above_min nlyrs swcmin (sw_swc s)" and "\<forall>i<nlyrs. swcmin i \<le> swcsat i"
  shows "swc_above_min nlyrs swcmin (sw_swc (push_up_step_low swcsat j s))"
  unfolding sw_swc_push_up_step_low using assms by (rule swc_above_min_push_up_step_high)

lemma push_up_sweep_high_below_sat:
  assumes "\<forall>k. m \<le> k \<and> k < n \<longrightarrow> sw_swc s k \<le> swcsat k"
  shows "\<forall>k<n. sw_swc (fold (push_up_step_high swcsat) (rev [0..<m]) s) k \<le> swcsat k"
  using assms
proof (induction m arbitrary: s)
  case 0
  then show ?case by simp
next
  case (Suc m)
  have "\<forall>k. m \<le> k \<and> k < n \<longrightarrow> sw_swc (push_up_step_high swcsat m s) k \<le> swcsat k"
  proof (intro allI impI)
    fix k assume k: "m \<le> k \<and> k < n"
    show "sw_swc (push_up_step_high swcsat m s) k \<le> swcsat k"
    proof (cases "k = m")
      case True
      then show ?thesis unfolding sw_swc_push_up_step_high by auto
    next
      case False
      with k have "Suc m \<le> k" by simp
      with k Suc.prems have "sw_swc s k \<le> swcsat k" by blast
      with False k show ?thesis unfolding sw_swc_push_up_step_high by auto
    qed
  qed
  from Suc.IH [OF this] show ?case by simp
qed

lemma push_up_sweep_low_below_sat:
  assumes "\<forall>k. m \<le> k \<and> k < n \<longrightarrow> sw_swc s k \<le> swcsat k"
  shows "\<forall>k<n. sw_swc (fold (push_up_step_low swcsat) (rev [0..<m]) s) k \<le> swcsat k"
  using assms
proof (induction m arbitrary: s)
  case 0
  then show ?case by simp
next
  case (Suc m)
  have "\<forall>k. m \<le> k \<and> k < n \<longrightarrow> sw_swc (push_up_step_low swcsat m s) k \<le> swcsat k"
  proof (intro allI impI)
    fix k assume k: "m \<le> k \<and> k < n"
    show "sw_swc (push_up_step_low swcsat m s) k \<le> swcsat k"
    proof (cases "k = m")
      case True
      then show ?thesis unfolding sw_swc_push_up_step_low sw_swc_push_up_step_high by auto
    next
      case False
      with k have "Suc m \<le> k" by simp
      with k Suc.prems have "sw_swc s k \<le> swcsat k" by blast
      with False k show ?thesis unfolding sw_swc_push_up_step_low sw_swc_push_up_step_high by auto
    qed
  qed
  from Suc.IH [OF this] show ?case by simp
qed


lemma swc_within_bounds_iff:
  "swc_within_bounds nlyrs swcmin swcsat swc \<longleftrightarrow>
   swc_above_min nlyrs swcmin swc \<and> (\<forall>i<nlyrs. swc i \<le> swcsat i + swc_tolerance)"
  by (auto simp: swc_within_bounds_def swc_above_min_def)

lemma infiltrate_water_high_within_bounds:
  assumes profile: "soil_profile_ok nlyrs swcmin swcfc swcwp swcsat impermeability"
    and minsat: "\<forall>i<nlyrs. swcmin i \<le> swcsat i"
    and entry: "swc_within_bounds nlyrs swcmin swcsat swc"
    and ppt: "0 \<le> pptleft"
  shows "swc_within_bounds nlyrs swcmin swcsat
           (sw_swc (infiltrate_water_high st swc drain drainout pptleft nlyrs swcfc swcsat
              impermeability standingWater))"
proof -
  let ?s0 = "\<lparr>sw_swc = swc(0 := swc 0 + pptleft), sw_drain = drain, sw_drainout = drainout,
      sw_standingWater = 0\<rparr>"
  let ?s1 = "fold (saturated_percolation_step st nlyrs swcfc impermeability) [0..<nlyrs] ?s0"
  let ?s2 = "fold (push_up_step_high swcsat) (rev [0..<Suc nlyrs]) ?s1"
  have res: "infiltrate_water_high st swc drain drainout pptleft nlyrs swcfc swcsat
      impermeability standingWater = ?s2"
    by (simp add: infiltrate_water_high_def oversat_sweep_indices_def Let_def del: upt_Suc)
  have "swc_above_min nlyrs swcmin (sw_swc ?s0)"
    using entry ppt by (auto simp: swc_within_bounds_iff swc_above_min_def intro: order_trans)
  then have "swc_above_min nlyrs swcmin (sw_swc ?s1)"
    using profile
    by (intro fold_invariant [where P = "\<lambda>s. swc_above_min nlyrs swcmin (sw_swc s)"])
       (auto simp: soil_profile_ok_def intro!: swc_saturated_percolation_step)
  then have low: "swc_above_min nlyrs swcmin (sw_swc ?s2)"
    using minsat
    by (intro fold_invariant [where P = "\<lambda>s. swc_above_min nlyrs swcmin (sw_swc s)"
          and xs = "rev [0..<Suc nlyrs]"])
       (auto intro!: swc_above_min_push_up_step_high)
  have "\<forall>k<nlyrs. sw_swc ?s2 k \<le> swcsat k"
    by (rule push_up_sweep_high_below_sat) simp
  then have "\<forall>k<nlyrs. sw_swc ?s2 k \<le> swcsat k + swc_tolerance"
    by (auto simp: swc_tolerance_def intro: order_trans)
  with low show ?thesis
    unfolding res swc_within_bounds_iff by simp
qed

lemma infiltrate_water_low_within_bounds:
  assumes profile: "soil_profile_ok nlyrs swcmin swcfc swcwp swcsat impermeability"
    and minsat: "\<forall>i<nlyrs. swcmin i \<le> swcsat i"
    and entry: "swc_within_bounds nlyrs swcmin swcsat swc"
    and par: "0 \<le> sdrainpar"
  shows "swc_within_bounds nlyrs swcmin swcsat
           (sw_swc (infiltrate_water_low st swc drain drainout nlyrs sdrainpar sdraindpth swcfc
              width swcmin swcsat impermeability standingWater))"
proof -
  let ?s0 = "\<lparr>sw_swc = swc, sw_drain = drain, sw_drainout = drainout,
      sw_standingWater = standingWater\<rparr>"
  let ?s1 = "fold (unsaturated_percolation_step st nlyrs sdrainpar sdraindpth swcfc width swcmin
      impermeability) [0..<nlyrs] ?s0"
  let ?s2 = "fold (push_up_step_low swcsat) (rev [0..<Suc nlyrs]) ?s1"
  have res: "infiltrate_water_low st swc drain drainout nlyrs sdrainpar sdraindpth swcfc
              width swcmin swcsat impermeability standingWater = ?s2"
    by (simp add: infiltrate_water_low_def oversat_sweep_indices_def Let_def del: upt_Suc)
  have "swc_above_min nlyrs swcmin (sw_swc ?s0)"
    using entry by (simp add: swc_within_bounds_iff)
  then have "swc_above_min nlyrs swcmin (sw_swc ?s1)"
    using profile par
    by (intro fold_invariant [where P = "\<lambda>s. swc_above_min nlyrs swcmin (sw_swc s)"])
       (auto simp: soil_profile_ok_def intro!: swc_unsaturated_percolation_step)
  then have low: "swc_above_min nlyrs swcmin (sw_swc ?s2)"
    using minsat
    by (intro fold_invariant [where P = "\<lambda>s. swc_above_min nlyrs swcmin (sw_swc s)"
          and xs = "rev [0..<Suc nlyrs]"])
       (auto intro!: swc_above_min_push_up_step_low)
  have "\<forall>k<nlyrs. sw_swc ?s2 k \<le> swcsat k"
    by (rule push_up_sweep_low_below_sat) simp
  then have "\<forall>k<nlyrs. sw_swc ?s2 k \<le> swcsat k + swc_tolerance"
    by (auto simp: swc_tolerance_def intro: order_trans)
  with low show ?thesis
    unfolding res swc_within_bounds_iff by simp
qed

lemma fold_sum_nonneg:
  fixes f :: "nat \<Rightarrow> real"
  assumes "\<forall>i\<in>set xs. 0 \<le> f i" and "0 \<le> a"
  shows "0 \<le> fold (\<lambda>i acc. acc + f i) xs a"
  using assms by (induction xs arbitrary: a) auto

lemma remove_step_within_bounds:
  assumes "swc_within_bounds nlyrs swcmin swcsat (fst s)" and "0 \<le> (swpfrac i / sumswp) * rate"
  shows "swc_within_bounds nlyrs swcmin swcsat (fst (remove_step st swpfrac sumswp rate swcmin i s))"
proof -
  obtain swc qty aet where s: "s = (swc, qty, aet)" by (cases s) auto
  define t where "t = min ((swpfrac i / sumswp) * rate) (max 0 (swc i - swcmin i))"
  have t0: "0 \<le> t" and tle: "t \<le> max 0 (swc i - swcmin i)"
    unfolding t_def using assms(2) by auto
  have fst_step: "fst (remove_step st swpfrac sumswp rate swcmin i s) =
      (if lyrFrozen st i = 0 then swc(i := swc i - t) else swc)"
    by (simp add: remove_step_def s Let_def t_def)
  have "swcmin i - swc_tolerance \<le> swc i - t \<and> swc i - t \<le> swcsat i + swc_tolerance"
    if "i < nlyrs"
  proof -
    from that assms(1) have b: "swcmin i - swc_tolerance \<le> swc i" "swc i \<le> swcsat i + swc_tolerance"
      by (auto simp: s swc_within_bounds_def)
    have "swcmin i - swc_tolerance \<le> swc i - t"
    proof (cases "swcmin i \<le> swc i")
      case True
      with tle have "t \<le> swc i - swcmin i" by simp
      then show ?thesis by (simp add: swc_tolerance_def)
    next
      case False
      with tle t0 have "t = 0" by (simp add: max_def)
      with b show ?thesis by simp
    qed
    moreover have "swc i - t \<le> swcsat i + swc_tolerance" using b t0 by linarith
    ultimately show ?thesis by simp
  qed
  then show ?thesis
    unfolding fst_step using assms(1) by (auto simp: s swc_within_bounds_def)
qed

lemma remove_from_soil_within_bounds:
  assumes entry: "swc_within_bounds nlyrs swcmin swcsat swc"
    and rate: "0 \<le> rate"
    and coeff: "\<forall>i<nlyrs. 0 \<le> coeff i \<and> 0 < SWCbulk2SWPmatric (fractionVolBulk_gravel i) (swc i) i"
  shows "swc_within_bounds nlyrs swcmin swcsat
           (fst (remove_from_soil SWCbulk2SWPmatric fractionVolBulk_gravel st swc qty aet nlyrs
              coeff rate swcmin))"
proof -
  define swpfrac where
    "swpfrac = (\<lambda>i. coeff i / SWCbulk2SWPmatric (fractionVolBulk_gravel i) (swc i) i)"
  define sumswp where "sumswp = fold (\<lambda>i sumswp. sumswp + swpfrac i) [0..<nlyrs] 0"
  have frac: "\<forall>i<nlyrs. 0 \<le> swpfrac i"
    using coeff by (auto simp: swpfrac_def)
  then have sum0: "0 \<le> sumswp"
    unfolding sumswp_def by (intro fold_sum_nonneg) auto
  have res: "remove_from_soil SWCbulk2SWPmatric fractionVolBulk_gravel st swc qty aet nlyrs
      coeff rate swcmin =
      (if ZRO sumswp then (swc, qty, aet)
       else fold (remove_step st swpfrac sumswp rate swcmin) [0..<nlyrs] (swc, qty, aet))"
    by (simp add: remove_from_soil_def Let_def swpfrac_def sumswp_def)
  have "swc_within_bounds nlyrs swcmin swcsat
      (fst (fold (remove_step st swpfrac sumswp rate swcmin) [0..<nlyrs] (swc, qty, aet)))"
    using entry frac sum0 rate
    by (intro fold_invariant [where P = "\<lambda>s. swc_within_bounds nlyrs swcmin swcsat (fst s)"])
       (auto intro!: remove_step_within_bounds)
  with entry show ?thesis unfolding res by simp
qed



text \<open>Evaluation of the loops over three layers.\<close>

lemma upt_3: "[0..<3] = [0,1,2]" "[Suc 0..<3] = [1,2]" "[Suc (Suc 0)..<3] = [2]" "[2..<3] = [2]"
  "[3..<3] = []" "[Suc 2..<3] = []"
  by (simp_all add: upt_rec)

lemma hydred_clear_top_zero: "hydred_clear_top 3 (\<lambda>i j. 0) = (\<lambda>i j. 0)"
  by (simp add: hydred_clear_top_def mat_upd_def upt_3 fun_eq_iff)

lemma swc_above_sat_not_within_bounds:
  "i < nlyrs \<Longrightarrow> swcsat i + swc_tolerance < swc i \<Longrightarrow> \<not> swc_within_bounds nlyrs swcmin swcsat swc"
  by (auto simp: swc_within_bounds_def)

text \<open>
  Claim C1, as stated, fails for \<^verbatim>\<open>hydraulic_redistribution\<close>, which has no bound at
  saturation. Three layers hold 1 cm each; layer 1 is saturated and, being finer, holds
  its water at a suction of 2 bar, while layer 2 holds its water at 1 bar. Both are above
  the wilting point and not frozen, so water moves from layer 2 to layer 1: 0.005 cm, and
  layer 1 ends at 1.005 cm over a saturation of 1 cm.
\<close>

theorem hydraulic_redistribution_oversaturates:
  "swc_within_bounds 3 (\<lambda>i. 1/4) (\<lambda>i. if i = 1 then 1 else 2) (\<lambda>i. 1) \<and>
   soil_profile_ok 3 (\<lambda>i. 1/4) (\<lambda>i. 3/4) (\<lambda>i. 1/2) (\<lambda>i. if i = 1 then 1 else 2) (\<lambda>i. 0) \<and>
   fst (hydraulic_redistribution (\<lambda>g w i. if i = 1 then 2 / w else 1 / w) (\<lambda>i. 0)
          (\<lambda>x y. x powr y) stValues_initial (\<lambda>i j. 0) (\<lambda>i. 1) (\<lambda>i. 1/2) (\<lambda>i. 1/4) (\<lambda>i. 0)
          3 (- 0.288) 1 1 1) 1 = 1.005 \<and>
   \<not> swc_within_bounds 3 (\<lambda>i. 1/4) (\<lambda>i. if i = 1 then 1 else 2)
       (fst (hydraulic_redistribution (\<lambda>g w i. if i = 1 then 2 / w else 1 / w) (\<lambda>i. 0)
          (\<lambda>x y. x powr y) stValues_initial (\<lambda>i j. 0) (\<lambda>i. 1) (\<lambda>i. 1/2) (\<lambda>i. 1/4) (\<lambda>i. 0)
          3 (- 0.288) 1 1 1))"
proof -
  let ?H = "\<lambda>i j. if i = 1 \<and> j = 2 then 1/200 else if i = 2 \<and> j = (1::nat) then - 1/200 else (0::real)"
  have flux: "hydred_flux_matrix (\<lambda>g w i. if i = 1 then 2 / w else 1 / w) (\<lambda>i. 0)
        (\<lambda>x y. x powr y) stValues_initial (\<lambda>i j. 0) (\<lambda>i. 1) (\<lambda>i. 1/2) (\<lambda>i. 1/4) (\<lambda>i. 0)
        3 (- 0.288) 1 1 = (\<lambda>i. 0, ?H)"
    apply (simp add: hydred_flux_matrix_def hydred_clear_top_zero Let_def upt_3 hydred_matrix_row_def)
    apply (simp add: hydred_pair_def mat_upd_def stValues_initial_def cmp_defs Let_def fun_eq_iff)
    done
  have limited: "hydred_limited_matrix (\<lambda>i. 1) (\<lambda>i. 1/2) 3 ?H = ?H"
    by (simp add: hydred_limited_matrix_def hydred_limit_row_def upt_3 cmp_defs Let_def)
  have after: "fst (hydraulic_redistribution (\<lambda>g w i. if i = 1 then 2 / w else 1 / w) (\<lambda>i. 0)
          (\<lambda>x y. x powr y) stValues_initial (\<lambda>i j. 0) (\<lambda>i. 1) (\<lambda>i. 1/2) (\<lambda>i. 1/4) (\<lambda>i. 0)
          3 (- 0.288) 1 1 1) 1 = 1.005"
    unfolding hydraulic_redistribution_def flux prod.case Let_def limited
    by (simp add: hydred_apply_row_def upt_3)
  have entry: "swc_within_bounds 3 (\<lambda>i. 1/4) (\<lambda>i. if i = 1 then 1 else 2) (\<lambda>i. 1)"
    by (simp add: swc_within_bounds_def swc_tolerance_def)
  have profile: "soil_profile_ok 3 (\<lambda>i. 1/4) (\<lambda>i. 3/4) (\<lambda>i. 1/2) (\<lambda>i. if i = 1 then 1 else 2) (\<lambda>i. 0)"
    by (simp add: soil_profile_ok_def)
  have "\<not> swc_within_bounds 3 (\<lambda>i. 1/4) (\<lambda>i. if i = 1 then 1 else 2)
       (fst (hydraulic_redistribution (\<lambda>g w i. if i = 1 then 2 / w else 1 / w) (\<lambda>i. 0)
          (\<lambda>x y. x powr y) stValues_initial (\<lambda>i j. 0) (\<lambda>i. 1) (\<lambda>i. 1/2) (\<lambda>i. 1/4) (\<lambda>i. 0)
          3 (- 0.288) 1 1 1))"
    apply (rule swc_above_sat_not_within_bounds [where i = 1])
     apply simp
    apply (subst after)
    apply (simp add: swc_tolerance_def)
    done
  with entry profile after show ?thesis by blast
qed

text \<open>
  Claim C1, amended: when the parameters of the layers satisfy the data model and, in
  addition, no layer has its minimum above its saturation, then the bounds on the water
  content of the layers that hold on entry hold again after \<^verbatim>\<open>infiltrate_water_high\<close>
  (for water to infiltrate that is not negative), after \<^verbatim>\<open>remove_from_soil\<close> (for a
  rate and coefficients that are not negative and positive water potentials) and after
  \<^verbatim>\<open>infiltrate_water_low\<close> (for a slow-drainage parameter that is not negative).
  Nothing is claimed for \<^verbatim>\<open>hydraulic_redistribution\<close>.
\<close>

theorem water_operations_keep_swc_within_bounds:
  assumes profile: "soil_profile_ok nlyrs swcmin swcfc swcwp swcsat impermeability"
    and minsat: "\<forall>i<nlyrs. swcmin i \<le> swcsat i"
    and entry: "swc_within_bounds nlyrs swcmin swcsat swc"
  shows
    "(0 \<le> pptleft \<longrightarrow>
        swc_within_bounds nlyrs swcmin swcsat
          (sw_swc (infiltrate_water_high st swc drain drainout pptleft nlyrs swcfc swcsat
             impermeability standingWater))) \<and>
     (0 \<le> rate \<and>
      (\<forall>i<nlyrs. 0 \<le> coeff i \<and> 0 < SWCbulk2SWPmatric (fractionVolBulk_gravel i) (swc i) i) \<longrightarrow>
        swc_within_bounds nlyrs swcmin swcsat
          (fst (remove_from_soil SWCbulk2SWPmatric fractionVolBulk_gravel st swc qty aet nlyrs
             coeff rate swcmin))) \<and>
     (0 \<le> sdrainpar \<longrightarrow>
        swc_within_bounds nlyrs swcmin swcsat
          (sw_swc (infiltrate_water_low st swc drain drainout nlyrs sdrainpar sdraindpth swcfc
             width swcmin swcsat impermeability standingWater)))"
  using infiltrate_water_high_within_bounds [OF profile minsat entry]
    remove_from_soil_within_bounds [OF entry]
    infiltrate_water_low_within_bounds [OF profile minsat entry]
  by blast

text \<open>
  The witness takes two layers with minimum 1, field capacity 2, wilting point 1.5 and
  saturation 3, each holding 2.5 cm, 2 cm of water to infiltrate, a removal rate of 1 and a
  slow-drainage parameter of 0.02.
\<close>

theorem water_operations_keep_swc_within_bounds_witness:
  "swc_within_bounds 2 (\<lambda>i. 1) (\<lambda>i. 3)
     (sw_swc (infiltrate_water_high stValues_initial (\<lambda>i. 5/2) (\<lambda>i. 0) 0 2 2 (\<lambda>i. 2) (\<lambda>i. 3)
        (\<lambda>i. 0) 0)) \<and>
   swc_within_bounds 2 (\<lambda>i. 1) (\<lambda>i. 3)
     (fst (remove_from_soil (\<lambda>g w i. 1) (\<lambda>i. 0) stValues_initial (\<lambda>i. 5/2) (\<lambda>i. 0) 0 2
        (\<lambda>i. 1/2) 1 (\<lambda>i. 1))) \<and>
   swc_within_bounds 2 (\<lambda>i. 1) (\<lambda>i. 3)
     (sw_swc (infiltrate_water_low stValues_initial (\<lambda>i. 5/2) (\<lambda>i. 0) 0 2 0.02 60 (\<lambda>i. 2)
        (\<lambda>i. 10) (\<lambda>i. 1) (\<lambda>i. 3) (\<lambda>i. 0) 0))"
proof -
  have profile: "soil_profile_ok 2 (\<lambda>i. 1) (\<lambda>i. 2) (\<lambda>i. 3/2) (\<lambda>i. 3) (\<lambda>i. 0)"
    by (simp add: soil_profile_ok_def)
  have minsat: "\<forall>i<2. (\<lambda>i. 1::real) i \<le> (\<lambda>i. 3) i"
    by simp
  have entry: "swc_within_bounds 2 (\<lambda>i. 1) (\<lambda>i. 3) (\<lambda>i. 5/2)"
    by (simp add: swc_within_bounds_def swc_tolerance_def)
  show ?thesis
    using water_operations_keep_swc_within_bounds [OF profile minsat entry,
        where pptleft = 2 and rate = 1 and coeff = "\<lambda>i. 1/2" and SWCbulk2SWPmatric = "\<lambda>g w i. 1"
        and fractionVolBulk_gravel = "\<lambda>i. 0" and sdrainpar = "0.02" and st = stValues_initial
        and drain = "\<lambda>i. 0" and drainout = 0 and standingWater = 0 and qty = "\<lambda>i. 0" and aet = 0
        and sdraindpth = 60 and width = "\<lambda>i. 10"]
    by simp
qed


section \<open>The available-water cap of hydraulic redistribution\<close>

text \<open>Evaluation of the loops over four layers.\<close>

lemma upt_4: "[0..<4] = [0,1,2,3]" "[Suc 0..<4] = [1,2,3]" "[Suc (Suc 0)..<4] = [2,3]"
  "[2..<4] = [2,3]" "[Suc 2..<4] = [3]" "[3..<4] = [3]" "[Suc 3..<4] = []" "[4..<4] = []"
  by (simp_all add: upt_rec)

lemma hydred_clear_top_zero4: "hydred_clear_top 4 (\<lambda>i j. 0) = (\<lambda>i j. 0)"
  by (simp add: hydred_clear_top_def mat_upd_def upt_4 fun_eq_iff)

text \<open>
  Claim C4 fails on the code in its second half. The third loop scales row \<open>i\<close> and
  column \<open>i\<close> of the pair matrix when layer \<open>i\<close> would lose more than its available
  water; scaling the column of a later layer shrinks what an earlier layer gains from it,
  after that earlier layer has passed its own test. Four layers hold 1 cm each, at
  suctions of 1, 2, 5 and 1 bar. Layer 1 loses 0.02 to layer 2 and gains 0.01 from layer
  3: a net loss of 0.01, below its available water 0.015, so its row is not scaled. Layer
  3 would lose 0.05 and has 0.005 available, so its row and column are scaled by 0.1, and
  the gain of layer 1 shrinks to 0.001. Layer 1 then loses 0.019, more than the 0.015 it
  has above its wilting point, and ends below it.
\<close>

theorem hydred_scaling_breaks_earlier_cap:
  "(let swc = (\<lambda>i. 1);
        swcwp = (\<lambda>i. if i = 1 then 0.985 else if i = 3 then 0.995 else 0.5);
        r = hydraulic_redistribution (\<lambda>g w i. (if i = 1 then 2 else if i = 2 then 5 else 1) / w)
              (\<lambda>i. 0) (\<lambda>x y. x powr y) stValues_initial (\<lambda>i j. 0) swc swcwp (\<lambda>i. 1/4) (\<lambda>i. 0)
              4 (- 0.576) 1 1 1
    in max 0 (swc 1 - swcwp 1) = 0.015 \<and> snd r 1 = - 0.019 \<and> fst r 1 = 0.981)"
proof -
  let ?swp = "\<lambda>g w i. (if i = 1 then 2 else if i = (2::nat) then 5 else 1) / (w::real)"
  let ?wp = "\<lambda>i. if i = 1 then 0.985 else if i = (3::nat) then 0.995 else (0.5::real)"
  let ?H = "\<lambda>i j. if i = 1 \<and> j = 2 then - 0.02 else if i = 2 \<and> j = 1 then 0.02
      else if i = 1 \<and> j = 3 then 0.01 else if i = 3 \<and> j = 1 then - 0.01
      else if i = 2 \<and> j = 3 then 0.04 else if i = 3 \<and> j = (2::nat) then - 0.04 else (0::real)"
  let ?L = "\<lambda>i j. if i = 1 \<and> j = 2 then - 0.02 else if i = 2 \<and> j = 1 then 0.02
      else if i = 1 \<and> j = 3 then 0.001 else if i = 3 \<and> j = 1 then - 0.001
      else if i = 2 \<and> j = 3 then 0.004 else if i = 3 \<and> j = (2::nat) then - 0.004 else (0::real)"
  have flux: "hydred_flux_matrix ?swp (\<lambda>i. 0) (\<lambda>x y. x powr y) stValues_initial (\<lambda>i j. 0)
      (\<lambda>i. 1) ?wp (\<lambda>i. 1/4) (\<lambda>i. 0) 4 (- 0.576) 1 1 = (\<lambda>i. 0, ?H)"
    apply (simp add: hydred_flux_matrix_def hydred_clear_top_zero4 Let_def upt_4 hydred_matrix_row_def)
    apply (simp add: hydred_pair_def mat_upd_def stValues_initial_def cmp_defs Let_def fun_eq_iff)
    done
  have limited: "hydred_limited_matrix (\<lambda>i. 1) ?wp 4 ?H = ?L"
    apply (simp add: hydred_limited_matrix_def hydred_limit_row_def upt_4 cmp_defs Let_def)
    apply (simp add: mat_upd_def fun_eq_iff)
    done
  show ?thesis
    unfolding Let_def hydraulic_redistribution_def flux prod.case limited
    by (simp add: hydred_apply_row_def upt_4)
qed


section \<open>Initialisation of the temperature grid\<close>

text \<open>
  What the first part of \<^verbatim>\<open>soil_temperature_init\<close> does to the module state: the
  entries \<open>0..nRgr\<close> of the grid arrays and the rows \<open>0..nRgr\<close> and columns
  \<open>0..nlyrs\<close> of the correspondence matrix are cleared, and the cumulative depths are
  stored.
\<close>

lemma init_clear_inner:
  "fold (\<lambda>j st. st\<lparr>tlyrs_by_slyrs := mat_upd (tlyrs_by_slyrs st) i j 0\<rparr>) [0..<m] st =
   st\<lparr>tlyrs_by_slyrs := (\<lambda>a b. if a = i \<and> b < m then 0 else tlyrs_by_slyrs st a b)\<rparr>"
proof (induction m)
  case 0
  then show ?case by simp
next
  case (Suc m)
  have "mat_upd (\<lambda>a b. if a = i \<and> b < m then 0 else tlyrs_by_slyrs st a b) i m 0 =
      (\<lambda>a b. if a = i \<and> b < Suc m then 0 else tlyrs_by_slyrs st a b)"
    by (auto simp: mat_upd_def fun_eq_iff less_Suc_eq)
  with Suc show ?case by simp
qed

lemma soil_temperature_init_clear_eq:
  "soil_temperature_init_clear nlyrs nRgr st =
   st\<lparr>fcR := (\<lambda>i. if i < nRgr + 1 then 0 else fcR st i),
      wpR := (\<lambda>i. if i < nRgr + 1 then 0 else wpR st i),
      bDensityR := (\<lambda>i. if i < nRgr + 1 then 0 else bDensityR st i),
      oldsTempR := (\<lambda>i. if i < nRgr + 1 then 0 else oldsTempR st i),
      tlyrs_by_slyrs := (\<lambda>i j. if i < nRgr + 1 \<and> j < nlyrs + 1 then 0 else tlyrs_by_slyrs st i j)\<rparr>"
proof -
  have "fold (\<lambda>i st.
             let st = st\<lparr>fcR := (fcR st)(i := 0.0)\<rparr>;
                 st = st\<lparr>wpR := (wpR st)(i := 0.0)\<rparr>;
                 st = st\<lparr>bDensityR := (bDensityR st)(i := 0.0)\<rparr>;
                 st = st\<lparr>oldsTempR := (oldsTempR st)(i := 0.0)\<rparr>
             in fold (\<lambda>j st. st\<lparr>tlyrs_by_slyrs := mat_upd (tlyrs_by_slyrs st) i j 0.0\<rparr>)
                  [0..<nlyrs + 1] st)
       [0..<m] st =
     st\<lparr>fcR := (\<lambda>i. if i < m then 0 else fcR st i),
      wpR := (\<lambda>i. if i < m then 0 else wpR st i),
      bDensityR := (\<lambda>i. if i < m then 0 else bDensityR st i),
      oldsTempR := (\<lambda>i. if i < m then 0 else oldsTempR st i),
      tlyrs_by_slyrs := (\<lambda>i j. if i < m \<and> j < nlyrs + 1 then 0 else tlyrs_by_slyrs st i j)\<rparr>" for m
  proof (induction m)
    case 0
    then show ?case by simp
  next
    case (Suc m)
    have f: "\<And>f :: nat \<Rightarrow> real. (\<lambda>i. if i < m then 0 else f i)(m := 0) = (\<lambda>i. if i < Suc m then 0 else f i)"
      by (auto simp: fun_eq_iff less_Suc_eq)
    have t: "(\<lambda>a b. if a = m \<and> b < Suc nlyrs then 0
                     else if a < m \<and> b < Suc nlyrs then 0 else tlyrs_by_slyrs st a b) =
             (\<lambda>i j. if i < Suc m \<and> j < Suc nlyrs then 0 else tlyrs_by_slyrs st i j)"
      by (auto simp: fun_eq_iff less_Suc_eq)
    show ?case
      unfolding upt_Suc_append [OF le0] fold_append comp_def Suc.IH
      by (simp add: Let_def init_clear_inner f [unfolded fun_upd_def] t fun_upd_def
          del: upt_Suc cong: if_cong)
  qed
  then show ?thesis by (simp add: soil_temperature_init_clear_def del: upt_Suc)
qed

lemma init_depths_fold:
  "fold (\<lambda>j s. case s of (acc', st) \<Rightarrow>
            (acc' + width j, st\<lparr>depths := (depths st)(j := acc' + width j)\<rparr>)) [0..<m] (0, st) =
   (\<Sum>k<m. width k, st\<lparr>depths := (\<lambda>j. if j < m then (\<Sum>k\<le>j. width k) else depths st j)\<rparr>)"
proof (induction m)
  case 0
  then show ?case by simp
next
  case (Suc m)
  have "(\<lambda>j. if j < m then (\<Sum>k\<le>j. width k) else depths st j)(m := sum width {..<m} + width m) =
      (\<lambda>j. if j < Suc m then (\<Sum>k\<le>j. width k) else depths st j)"
    by (auto simp: fun_eq_iff less_Suc_eq lessThan_Suc_atMost [symmetric])
  with Suc show ?case by (simp add: fun_upd_def cong: if_cong)
qed

lemma init_depthsR_fold:
  "fold (\<lambda>i s. case s of (acc', st) \<Rightarrow>
            (acc' + deltaX, st\<lparr>depthsR := (depthsR st)(i := acc' + deltaX)\<rparr>)) [0..<m] (0, st) =
   (real m * deltaX, st\<lparr>depthsR := (\<lambda>i. if i < m then real (i + 1) * deltaX else depthsR st i)\<rparr>)"
proof (induction m)
  case 0
  then show ?case by simp
next
  case (Suc m)
  have "(\<lambda>i. if i < m then real (i + 1) * deltaX else depthsR st i)(m := real m * deltaX + deltaX) =
      (\<lambda>i. if i < Suc m then real (i + 1) * deltaX else depthsR st i)"
    by (auto simp: fun_eq_iff less_Suc_eq algebra_simps)
  with Suc show ?case by (simp add: fun_upd_def algebra_simps cong: if_cong)
qed

lemma soil_temperature_init_depths_eq:
  "soil_temperature_init_depths width nlyrs deltaX nRgr st =
   st\<lparr>depths := (\<lambda>j. if j < nlyrs + 1 then (\<Sum>k\<le>j. width k) else depths st j),
      depthsR := (\<lambda>i. if i < nRgr + 1 then real (i + 1) * deltaX else depthsR st i)\<rparr>"
  by (simp add: soil_temperature_init_depths_def Let_def init_depths_fold init_depthsR_fold
      del: upt_Suc cong: if_cong)


lemma soil_temperature_init_error_path:
  assumes "1 \<le> nlyrs" and "theMaxDepth < (\<Sum>j<nlyrs. width j)"
  shows "soil_temperature_init interpolation bDensity width surfaceTemp oldsTemp meanAirTemp
           nlyrs fc wp deltaX theMaxDepth nRgr g =
         Some (g\<lparr>soil_temp_init := 1,
                 stValues := (stValues g)
                   \<lparr>fcR := (\<lambda>i. if i \<le> nRgr then 0 else fcR (stValues g) i),
                    wpR := (\<lambda>i. if i \<le> nRgr then 0 else wpR (stValues g) i),
                    bDensityR := (\<lambda>i. if i \<le> nRgr then 0 else bDensityR (stValues g) i),
                    oldsTempR := (\<lambda>i. if i \<le> nRgr then 0 else oldsTempR (stValues g) i),
                    tlyrs_by_slyrs := (\<lambda>i j. if i \<le> nRgr \<and> j \<le> nlyrs then 0
                                             else tlyrs_by_slyrs (stValues g) i j),
                    depths := (\<lambda>j. if j \<le> nlyrs then (\<Sum>k\<le>j. width k)
                                   else depths (stValues g) j),
                    depthsR := (\<lambda>i. if i \<le> nRgr then real (i + 1) * deltaX
                                     else depthsR (stValues g) i)\<rparr>,
                 soil_temp_error := (if soil_temp_error g = 0 then 1 else soil_temp_error g)\<rparr>)"
proof -
  define st where "st = soil_temperature_init_depths width nlyrs deltaX nRgr
      (soil_temperature_init_clear nlyrs nRgr (stValues g))"
  have st: "st = (stValues g)
                \<lparr>fcR := (\<lambda>i. if i \<le> nRgr then 0 else fcR (stValues g) i),
                 wpR := (\<lambda>i. if i \<le> nRgr then 0 else wpR (stValues g) i),
                 bDensityR := (\<lambda>i. if i \<le> nRgr then 0 else bDensityR (stValues g) i),
                 oldsTempR := (\<lambda>i. if i \<le> nRgr then 0 else oldsTempR (stValues g) i),
                 tlyrs_by_slyrs := (\<lambda>i j. if i \<le> nRgr \<and> j \<le> nlyrs then 0
                                          else tlyrs_by_slyrs (stValues g) i j),
                 depths := (\<lambda>j. if j \<le> nlyrs then (\<Sum>k\<le>j. width k) else depths (stValues g) j),
                 depthsR := (\<lambda>i. if i \<le> nRgr then real (i + 1) * deltaX
                                  else depthsR (stValues g) i)\<rparr>"
    unfolding st_def soil_temperature_init_depths_eq soil_temperature_init_clear_eq
    by (simp add: less_Suc_eq_le cong: if_cong)
  have pred: "unsigned_pred nlyrs = nlyrs - 1"
    using assms(1) by (simp add: unsigned_pred_def)
  have "{..nlyrs - 1} = {..<nlyrs}"
    using assms(1) by auto
  then have "depths st (unsigned_pred nlyrs) = (\<Sum>j<nlyrs. width j)"
    by (simp add: st pred)
  with assms(2) have lt: "LT theMaxDepth (depths st (unsigned_pred nlyrs))"
    by (simp add: LT_def)
  have "soil_temperature_init interpolation bDensity width surfaceTemp oldsTemp meanAirTemp
      nlyrs fc wp deltaX theMaxDepth nRgr g =
      Some (if soil_temp_error g = 0 then g\<lparr>soil_temp_init := 1, stValues := st, soil_temp_error := 1\<rparr>
            else g\<lparr>soil_temp_init := 1, stValues := st\<rparr>)"
    using lt by (simp add: soil_temperature_init_def Let_def st_def)
  then show ?thesis
    unfolding st by simp
qed

text \<open>
  Claim C8, as stated, fails in its second half: the arrays of the grid are cleared and the
  depths are stored before the maximum depth is tested, so the function does not leave
  them as they were. Two layers of 50 cm and a maximum depth of 70 cm, in a state whose
  array \<^verbatim>\<open>fcR\<close> holds 0.3 from an earlier initialisation: the function sets the flag,
  and on return \<^verbatim>\<open>fcR[0]\<close> is 0, \<^verbatim>\<open>depths[0]\<close> is 50, \<^verbatim>\<open>depths[1]\<close> is 100 and
  \<^verbatim>\<open>depthsR[0]\<close> is 15, where the last three were 0 before.
\<close>

theorem soil_temperature_init_rewrites_grid:
  "map_option
     (\<lambda>g'. (soil_temp_error g', fcR (stValues g') 0, depths (stValues g') 0,
            depths (stValues g') 1, depthsR (stValues g') 0))
     (soil_temperature_init (\<lambda>x1 x2 y1 y2 x. y1) (\<lambda>i. 1) (\<lambda>i. 50) 0 (\<lambda>i. 1) 5 2 (\<lambda>i. 1)
        (\<lambda>i. 1) 15 70 3
        (flow_globals_initial\<lparr>stValues := stValues_initial\<lparr>fcR := (\<lambda>i. 0.3)\<rparr>\<rparr>))
   = Some (1, 0, 50, 100, 15) \<and>
   fcR (stValues (flow_globals_initial\<lparr>stValues := stValues_initial\<lparr>fcR := (\<lambda>i. 0.3)\<rparr>\<rparr>)) 0 = 0.3 \<and>
   depths (stValues (flow_globals_initial\<lparr>stValues := stValues_initial\<lparr>fcR := (\<lambda>i. 0.3)\<rparr>\<rparr>)) 0 = 0 \<and>
   depthsR (stValues (flow_globals_initial\<lparr>stValues := stValues_initial\<lparr>fcR := (\<lambda>i. 0.3)\<rparr>\<rparr>)) 0 = 0"
proof -
  have "(70::real) < (\<Sum>j<(2::nat). 50)" by simp
  from soil_temperature_init_error_path [where nlyrs = 2 and width = "\<lambda>i. 50" and theMaxDepth = 70,
      OF _ this]
  show ?thesis
    by (simp add: flow_globals_initial_def stValues_initial_def)
qed

text \<open>
  Claim C8, amended: for at least one layer, a maximum depth below the cumulative depth of
  the profile and an error flag that is 0 or 1, \<^verbatim>\<open>soil_temperature_init\<close> returns with
  the error flag 1 and the initialisation latch set, before the correspondence matrix and
  the projections onto the grid are computed. On return the entries \<open>0..nRgr\<close> of
  \<^verbatim>\<open>fcR\<close>, \<^verbatim>\<open>wpR\<close>, \<^verbatim>\<open>bDensityR\<close> and \<^verbatim>\<open>oldsTempR\<close> and the rows \<open>0..nRgr\<close>,
  columns \<open>0..nlyrs\<close> of \<^verbatim>\<open>tlyrs_by_slyrs\<close> are 0, \<^verbatim>\<open>depths\<close> holds the cumulative
  depths of the soil layers and \<^verbatim>\<open>depthsR\<close> the multiples of \<^verbatim>\<open>deltaX\<close>; everything
  else in the module state is as before.
\<close>

theorem soil_temperature_init_max_depth_error:
  assumes "1 \<le> nlyrs" and "theMaxDepth < (\<Sum>j<nlyrs. width j)" and "soil_temp_error g \<le> 1"
  shows "\<exists>g'. soil_temperature_init interpolation bDensity width surfaceTemp oldsTemp meanAirTemp
                 nlyrs fc wp deltaX theMaxDepth nRgr g = Some g' \<and>
              soil_temp_error g' = 1 \<and> soil_temp_init g' = 1 \<and>
              fusion_pool_init g' = fusion_pool_init g \<and>
              stValues g' = (stValues g)
                \<lparr>fcR := (\<lambda>i. if i \<le> nRgr then 0 else fcR (stValues g) i),
                 wpR := (\<lambda>i. if i \<le> nRgr then 0 else wpR (stValues g) i),
                 bDensityR := (\<lambda>i. if i \<le> nRgr then 0 else bDensityR (stValues g) i),
                 oldsTempR := (\<lambda>i. if i \<le> nRgr then 0 else oldsTempR (stValues g) i),
                 tlyrs_by_slyrs := (\<lambda>i j. if i \<le> nRgr \<and> j \<le> nlyrs then 0
                                          else tlyrs_by_slyrs (stValues g) i j),
                 depths := (\<lambda>j. if j \<le> nlyrs then (\<Sum>k\<le>j. width k) else depths (stValues g) j),
                 depthsR := (\<lambda>i. if i \<le> nRgr then real (i + 1) * deltaX
                                  else depthsR (stValues g) i)\<rparr>"
  unfolding soil_temperature_init_error_path [OF assms(1,2)]
  using assms(3) by auto

text \<open>
  The witness is the first call, from the zero-initialised module state, with two layers of
  50 cm and a maximum depth of 70 cm.
\<close>

theorem soil_temperature_init_max_depth_error_witness:
  "\<exists>g'. soil_temperature_init (\<lambda>x1 x2 y1 y2 x. y1) (\<lambda>i. 1) (\<lambda>i. 50) 0 (\<lambda>i. 1) 5 2 (\<lambda>i. 1)
           (\<lambda>i. 1) 15 70 3 flow_globals_initial = Some g' \<and>
        soil_temp_error g' = 1 \<and> soil_temp_init g' = 1 \<and>
        depths (stValues g') 1 = 100 \<and> depthsR (stValues g') 3 = 60 \<and>
        tlyrs_by_slyrs (stValues g') 0 0 = 0"
proof -
  have d: "(70::real) < (\<Sum>j<(2::nat). 50)" by simp
  have e: "soil_temp_error flow_globals_initial \<le> 1"
    by (simp add: flow_globals_initial_def)
  from soil_temperature_init_max_depth_error [where nlyrs = 2 and width = "\<lambda>i. 50"
      and theMaxDepth = 70 and g = flow_globals_initial and nRgr = 3 and deltaX = 15
      and interpolation = "\<lambda>x1 x2 y1 y2 x. y1" and bDensity = "\<lambda>i. 1" and surfaceTemp = 0
      and oldsTemp = "\<lambda>i. 1" and meanAirTemp = 5 and fc = "\<lambda>i. 1" and wp = "\<lambda>i. 1", OF _ d e]
  obtain g' where g': "soil_temperature_init (\<lambda>x1 x2 y1 y2 x. y1) (\<lambda>i. 1) (\<lambda>i. 50) 0 (\<lambda>i. 1) 5 2
        (\<lambda>i. 1) (\<lambda>i. 1) 15 70 3 flow_globals_initial = Some g'"
    and "soil_temp_error g' = 1" and "soil_temp_init g' = 1"
    and st: "stValues g' = (stValues flow_globals_initial)
                \<lparr>fcR := (\<lambda>i. if i \<le> 3 then 0 else fcR (stValues flow_globals_initial) i),
                 wpR := (\<lambda>i. if i \<le> 3 then 0 else wpR (stValues flow_globals_initial) i),
                 bDensityR := (\<lambda>i. if i \<le> 3 then 0 else bDensityR (stValues flow_globals_initial) i),
                 oldsTempR := (\<lambda>i. if i \<le> 3 then 0 else oldsTempR (stValues flow_globals_initial) i),
                 tlyrs_by_slyrs := (\<lambda>i j. if i \<le> 3 \<and> j \<le> 2 then 0
                                          else tlyrs_by_slyrs (stValues flow_globals_initial) i j),
                 depths := (\<lambda>j. if j \<le> 2 then (\<Sum>k\<le>j. 50) else depths (stValues flow_globals_initial) j),
                 depthsR := (\<lambda>i. if i \<le> 3 then real (i + 1) * 15
                                  else depthsR (stValues flow_globals_initial) i)\<rparr>"
    by auto
  then show ?thesis by (intro exI [of _ g']) simp
qed

section \<open>The initialisation of the grid returns\<close>

text \<open>
  The \<^verbatim>\<open>while\<close> loop of \<^verbatim>\<open>soil_temperature_init\<close> ends whenever \<open>deltaX\<close> is
  positive: a pass either goes on to the next soil layer, or fills the band (and the loop
  ends), or takes \<open>deltaX\<close> from what is left of the layer \<open>x1\<close>. So the initialisation
  returns, and so does the first part of \<^verbatim>\<open>soil_temperature\<close>, for every profile and
  every grid with a positive \<open>deltaX\<close>.
\<close>

lemma soil_temperature_init_while_done:
  "\<not> (x2 < nlyrs \<and> acc' < deltaX) \<Longrightarrow>
   soil_temperature_init_while nlyrs deltaX width st i x1 (x2, d1, acc', tlyrs) =
     Some (x2, d1, acc', tlyrs)"
  by (auto simp: soil_temperature_init_while.simps [of nlyrs deltaX width st i x1 "(x2, d1, acc', tlyrs)"])

lemma soil_temperature_init_while_returns:
  assumes dx: "0 < deltaX"
  shows "\<exists>r. soil_temperature_init_while nlyrs deltaX width st i x1 s = Some r"
proof (induction s rule: wf_induct_rule [OF wf_measures [of
      "[\<lambda>(x2, d1, acc', tlyrs). nlyrs - x2, \<lambda>(x2, d1, acc', tlyrs). nat \<lceil>d1 / deltaX\<rceil>]"]])
  case (1 s)
  obtain x2 d1 acc' tlyrs where s: "s = (x2, d1, acc', tlyrs)" by (cases s) auto
  show ?case
  proof (cases "x2 < nlyrs \<and> acc' < deltaX")
    case False
    then show ?thesis unfolding s by (simp add: soil_temperature_init_while_done)
  next
    case True
    note loop = True
    show ?thesis
    proof (cases "d1 > 0")
      case True
      note d1pos = True
      show ?thesis
      proof (cases "d1 > deltaX")
        case True
        have eq: "(d1 - deltaX) / deltaX = d1 / deltaX - 1" using dx by (simp add: field_simps)
        have "1 < d1 / deltaX" using True dx by simp
        then have "1 < \<lceil>d1 / deltaX\<rceil>" by linarith
        then have "nat \<lceil>(d1 - deltaX) / deltaX\<rceil> < nat \<lceil>d1 / deltaX\<rceil>"
          unfolding eq by simp
        then have "((x2, d1 - deltaX, acc' + deltaX, mat_upd tlyrs i x1 deltaX), s) \<in> measures
          [\<lambda>(x2, d1, acc', tlyrs). nlyrs - x2, \<lambda>(x2, d1, acc', tlyrs). nat \<lceil>d1 / deltaX\<rceil>]"
          by (simp add: s)
        from 1 [OF this] show ?thesis
          unfolding s
          using loop d1pos True
          by (simp add: cmp_defs soil_temperature_init_while.simps [of nlyrs deltaX width st i x1 "(x2, d1, acc', tlyrs)"])
      next
        case False
        have "((x2 + 1, 0, acc' + d1, mat_upd tlyrs i x1 d1), s) \<in> measures
          [\<lambda>(x2, d1, acc', tlyrs). nlyrs - x2, \<lambda>(x2, d1, acc', tlyrs). nat \<lceil>d1 / deltaX\<rceil>]"
          using loop by (auto simp: s)
        from 1 [OF this] show ?thesis
          unfolding s
          using loop d1pos False
          by (simp add: cmp_defs soil_temperature_init_while.simps [of nlyrs deltaX width st i x1 "(x2, d1, acc', tlyrs)"])
      qed
    next
      case False
      note d1neg = False
      show ?thesis
      proof (cases "depthsR st i < depths st x2")
        case True
        have m: "max (deltaX - acc') 0 = deltaX - acc'" using loop by simp
        show ?thesis
          unfolding s
          using loop d1neg True
          by (simp add: cmp_defs m soil_temperature_init_while_done
              soil_temperature_init_while.simps [of nlyrs deltaX width st i x1 "(x2, d1, acc', tlyrs)"])
      next
        case False
        have "((x2 + 1, 0, acc' + width x2, mat_upd tlyrs i x2 (width x2)), s) \<in> measures
          [\<lambda>(x2, d1, acc', tlyrs). nlyrs - x2, \<lambda>(x2, d1, acc', tlyrs). nat \<lceil>d1 / deltaX\<rceil>]"
          using loop by (auto simp: s)
        from 1 [OF this] show ?thesis
          unfolding s
          using loop d1neg False
          by (simp add: cmp_defs soil_temperature_init_while.simps [of nlyrs deltaX width st i x1 "(x2, d1, acc', tlyrs)"])
      qed
    qed
  qed
qed

lemma soil_temperature_init_row_returns:
  "0 < deltaX \<Longrightarrow> \<exists>r. soil_temperature_init_row nlyrs deltaX width st i s = Some r"
proof -
  assume dx: "0 < deltaX"
  obtain x1 x2 d1 tlyrs where s: "s = (x1, x2, d1, tlyrs)" by (cases s) auto
  from soil_temperature_init_while_returns [OF dx, of nlyrs width st i x1 "(x2, d1, 0, tlyrs)"]
  obtain r where "soil_temperature_init_while nlyrs deltaX width st i x1 (x2, d1, 0, tlyrs) = Some r"
    by blast
  then show ?thesis
    by (cases r) (simp add: soil_temperature_init_row_def s)
qed

lemma fold_option_returns:
  "(\<And>x s. \<exists>r. f x s = Some r) \<Longrightarrow> \<exists>r. fold_option f xs s = Some r"
proof (induction xs arbitrary: s)
  case Nil
  then show ?case by simp
next
  case (Cons x xs)
  from Cons.prems [of x s] obtain r where "f x s = Some r" by blast
  with Cons.IH [OF Cons.prems, of r] show ?case by simp
qed

lemma soil_temperature_init_returns:
  assumes "0 < deltaX"
  shows "\<exists>g'. soil_temperature_init interpolation bDensity width surfaceTemp oldsTemp meanAirTemp
                 nlyrs fc wp deltaX theMaxDepth nRgr g = Some g'"
proof -
  let ?st = "soil_temperature_init_depths width nlyrs deltaX nRgr
      (soil_temperature_init_clear nlyrs nRgr (stValues (g\<lparr>soil_temp_init := 1\<rparr>)))"
  have "\<exists>r. fold_option (soil_temperature_init_row nlyrs deltaX width ?st) [0..<nRgr + 1]
      (0, 0, 0, tlyrs_by_slyrs ?st) = Some r"
    by (rule fold_option_returns) (rule soil_temperature_init_row_returns [OF assms])
  then obtain x1 x2 d1 tlyrs where
    "fold_option (soil_temperature_init_row nlyrs deltaX width ?st) [0..<nRgr + 1]
      (0, 0, 0, tlyrs_by_slyrs ?st) = Some (x1, x2, d1, tlyrs)"
    by (metis prod_cases4)
  then show ?thesis
    unfolding soil_temperature_init_def Let_def
    by simp
qed

lemma soil_temperature_first_call_returns:
  assumes "soil_temp_init g \<noteq> 0 \<or> 0 < deltaX"
  shows "\<exists>g1 surfaceTemp1. soil_temperature_first_call interpolation airTemp swc swc_sat bDensity
      width oldsTemp surfaceTemp nlyrs fc wp meanAirTemp deltaX theMaxDepth nRgr g
      = Some (g1, surfaceTemp1)"
proof (cases "soil_temp_init g = 0")
  case False
  then show ?thesis by (simp add: soil_temperature_first_call_def)
next
  case True
  with assms have dx: "0 < deltaX" by simp
  show ?thesis
    unfolding soil_temperature_first_call_def Let_def
    using soil_temperature_init_returns [OF dx, of interpolation bDensity width _ oldsTemp
        meanAirTemp nlyrs fc wp theMaxDepth nRgr] True
    by (auto split: option.splits)
qed

section \<open>The writes to the local arrays\<close>

text \<open>
  A loop over the indices \<open>k..<m\<close> that writes the index of each pass into an array of \<open>n\<close>
  elements runs through if \<open>m \<le> n\<close>, and ends at the index \<open>n\<close> if \<open>k \<le> n < m\<close>.
\<close>

lemma checked_within: "i < n \<Longrightarrow> checked name n i x = Inr x"
  by (simp add: checked_def)



lemma fold_error_checked:
  "\<forall>i\<in>set xs. i < n \<Longrightarrow>
   fold_error (\<lambda>i s. checked name n i (f i s)) xs s = Inr (fold f xs s)"
  by (induction xs arbitrary: s) (auto simp: checked_def)

lemma fold_error_checked_upt:
  "m \<le> n \<Longrightarrow> fold_error (\<lambda>i s. checked name n i (f i s)) [k..<m] s = Inr (fold f [k..<m] s)"
  by (rule fold_error_checked) auto


section \<open>The stability flag of the heat equation\<close>

text \<open>
  The loop over the bands of the grid, as a function of the number of bands: the flag after
  the loop, the entries the loop leaves alone, and the recurrence of the entries it writes.
\<close>

lemma soil_temperature_step_fold:
  fixes st vwcR csParam1 csParam2 shParam part1
  defines "parts \<equiv> soil_temperature_parts st vwcR csParam1 csParam2 shParam part1"
  defines "F \<equiv> \<lambda>m s. fold (soil_temperature_step st vwcR csParam1 csParam2 shParam part1) [1..<m + 1] s"
  shows "snd (F m (sTempR, err)) = (if \<exists>k<m. parts k > 1 then 1 else err)"
    and "i = 0 \<or> m < i \<Longrightarrow> fst (F m (sTempR, err)) i = sTempR i"
    and "1 \<le> i \<Longrightarrow> i \<le> m \<Longrightarrow>
         fst (F m (sTempR, err)) i =
           oldsTempR st i + parts (i - 1) *
             (fst (F m (sTempR, err)) (i - 1) - 2 * oldsTempR st i + oldsTempR st (i + 1))"
proof -
  have step: "F (Suc m) s = soil_temperature_step st vwcR csParam1 csParam2 shParam part1 (Suc m) (F m s)"
    for m s
    by (simp add: F_def)
  have stepv: "soil_temperature_step st vwcR csParam1 csParam2 shParam part1 (Suc m) (T, e) =
      (T(Suc m := oldsTempR st (Suc m) + parts m * (T m - 2 * oldsTempR st (Suc m) + oldsTempR st (Suc (Suc m)))),
       if parts m > 1 then 1 else e)" for m T e
    by (simp add: soil_temperature_step_def Let_def parts_def GT_def)
  have all: "snd (F m (sTempR, err)) = (if \<exists>k<m. parts k > 1 then 1 else err) \<and>
     (\<forall>i. i = 0 \<or> m < i \<longrightarrow> fst (F m (sTempR, err)) i = sTempR i) \<and>
     (\<forall>i. 1 \<le> i \<and> i \<le> m \<longrightarrow> fst (F m (sTempR, err)) i =
           oldsTempR st i + parts (i - 1) *
             (fst (F m (sTempR, err)) (i - 1) - 2 * oldsTempR st i + oldsTempR st (i + 1)))"
  proof (induction m)
    case 0
    then show ?case by (simp add: F_def)
  next
    case (Suc m)
    obtain T e where Fm: "F m (sTempR, err) = (T, e)" by (cases "F m (sTempR, err)")
    from Suc [unfolded Fm] have e: "e = (if \<exists>k<m. parts k > 1 then 1 else err)"
      and frame: "\<And>i. i = 0 \<or> m < i \<Longrightarrow> T i = sTempR i"
      and rec: "\<And>i. 1 \<le> i \<Longrightarrow> i \<le> m \<Longrightarrow>
          T i = oldsTempR st i + parts (i - 1) * (T (i - 1) - 2 * oldsTempR st i + oldsTempR st (i + 1))"
      by auto
    have FS: "F (Suc m) (sTempR, err) =
      (T(Suc m := oldsTempR st (Suc m) + parts m * (T m - 2 * oldsTempR st (Suc m) + oldsTempR st (Suc (Suc m)))),
       if parts m > 1 then 1 else e)"
      by (simp add: step Fm stepv)
    show ?case
      unfolding FS
    proof (intro conjI allI impI)
      show "snd (T(Suc m := oldsTempR st (Suc m) + parts m * (T m - 2 * oldsTempR st (Suc m) + oldsTempR st (Suc (Suc m)))),
          if parts m > 1 then 1 else e) = (if \<exists>k<Suc m. parts k > 1 then 1 else err)"
        by (auto simp: e less_Suc_eq)
    next
      fix i assume "i = 0 \<or> Suc m < i"
      then show "fst (T(Suc m := oldsTempR st (Suc m) + parts m * (T m - 2 * oldsTempR st (Suc m) + oldsTempR st (Suc (Suc m)))),
          if parts m > 1 then 1 else e) i = sTempR i"
        using frame [of i] by auto
    next
      fix i assume i: "1 \<le> i \<and> i \<le> Suc m"
      show "fst (T(Suc m := oldsTempR st (Suc m) + parts m * (T m - 2 * oldsTempR st (Suc m) + oldsTempR st (Suc (Suc m)))),
          if parts m > 1 then 1 else e) i =
          oldsTempR st i + parts (i - 1) *
            (fst (T(Suc m := oldsTempR st (Suc m) + parts m * (T m - 2 * oldsTempR st (Suc m) + oldsTempR st (Suc (Suc m)))),
               if parts m > 1 then 1 else e) (i - 1) - 2 * oldsTempR st i + oldsTempR st (i + 1))"
      proof (cases "i = Suc m")
        case True
        then show ?thesis by simp
      next
        case False
        with i have "1 \<le> i" "i \<le> m" by auto
        then have "i \<noteq> Suc m" "i - 1 \<noteq> Suc m" by auto
        with rec [OF \<open>1 \<le> i\<close> \<open>i \<le> m\<close>] show ?thesis by simp
      qed
    qed
  qed
  from all show "snd (F m (sTempR, err)) = (if \<exists>k<m. parts k > 1 then 1 else err)" by blast
  from all show "i = 0 \<or> m < i \<Longrightarrow> fst (F m (sTempR, err)) i = sTempR i" by blast
  from all show "1 \<le> i \<Longrightarrow> i \<le> m \<Longrightarrow>
         fst (F m (sTempR, err)) i =
           oldsTempR st i + parts (i - 1) *
             (fst (F m (sTempR, err)) (i - 1) - 2 * oldsTempR st i + oldsTempR st (i + 1))" by blast
qed


lemma oldsTempR_store_fold:
  "oldsTempR (fold (\<lambda>i st. st\<lparr>oldsTempR := (oldsTempR st)(i := sTempR i)\<rparr>) [0..<m] st) i =
     (if i < m then sTempR i else oldsTempR st i)"
  by (induction m) auto

lemma adjust_Tsoil_by_freezing_and_thawing_result:
  "\<exists>g'. adjust_Tsoil_by_freezing_and_thawing oldsTemp sTemp shParam nlyrs vwc bDensity g = (g', 0) \<and>
        soil_temp_error g' = soil_temp_error g \<and> soil_temp_init g' = soil_temp_init g"
  by (simp add: adjust_Tsoil_by_freezing_and_thawing_def Let_def)

lemma soil_temperature_first_call_initialised:
  "soil_temp_init g \<noteq> 0 \<Longrightarrow>
   soil_temperature_first_call interpolation airTemp swc swc_sat bDensity width oldsTemp surfaceTemp
     nlyrs fc wp meanAirTemp deltaX theMaxDepth nRgr g = Some (g, surfaceTemp)"
  by (simp add: soil_temperature_first_call_def)


text \<open>
  What \<^verbatim>\<open>soil_temperature\<close> computes once its local arrays have room for the indices
  it writes (\<open>nRgr < n_vwcR\<close> and \<open>nRgr + 1 < n_sTempR\<close>), from the state \<open>g1\<close> that the
  first part of the function leaves. The function returns. Where no divisor of a
  coefficient \<open>alpha k\<close> (\<^verbatim>\<open>parts\<close>) is 0, the error flag on return is 1 if the
  coefficient of some band \<open>k < nRgr\<close> exceeds 1, and is what it was after the first part
  otherwise; in both cases the new temperatures of the grid are computed by the recurrence of
  the heat equation from the surface temperature down to the constant temperature below
  the grid, they are projected back onto the soil layers, they are stored as the old
  temperatures of the next day, and the surface temperature of today is recorded.
\<close>

lemma soil_temperature_sized_after_first_part:
  fixes g1 :: flow_globals and swc width :: "nat \<Rightarrow> real" and nlyrs nRgr :: nat
    and deltaX csParam1 csParam2 shParam :: real
  assumes room: "nRgr < n_vwcR" "nRgr + 1 < n_sTempR"
    and first: "soil_temperature_first_call interpolation airTemp swc swc_sat bDensity width
      oldsTemp surfaceTemp nlyrs fc wp meanAirTemp deltaX theMaxDepth nRgr g = Some (g1, surfaceTemp1)"
    and T1: "soil_temperature_T1 airTemp pet aet biomass bmLimiter t1Param1 t1Param2 t1Param3
      snowdepth snow = Some T1"
  defines "vwcR \<equiv> lyrSoil_to_lyrTemp (tlyrs_by_slyrs (stValues g1)) nlyrs width
      (fold (\<lambda>i a. a(i := swc i / width i)) [0..<nlyrs] (\<lambda>i. 0)) nRgr deltaX (\<lambda>i. 0)"
  defines "alpha \<equiv> soil_temperature_parts (stValues g1) vwcR csParam1 csParam2 shParam
      (SEC_PER_DAY / squared deltaX)"
  shows "\<exists>g' sTemp' surfaceTemp'.
      soil_temperature_sized n_vwcR n_sTempR interpolation airTemp pet aet biomass swc swc_sat
        bDensity width oldsTemp sTemp surfaceTemp nlyrs fc wp bmLimiter t1Param1 t1Param2 t1Param3
        csParam1 csParam2 shParam snowdepth meanAirTemp deltaX theMaxDepth nRgr snow g
        = Some (Inr (g', sTemp', surfaceTemp')) \<and>
      ((\<forall>k<nRgr. soil_temperature_parts_defined (stValues g1) vwcR shParam deltaX k) \<longrightarrow>
       (\<exists>sTempR.
          soil_temp_error g' = (if \<exists>k<nRgr. alpha k > 1 then 1 else soil_temp_error g1) \<and>
          sTempR 0 = T1 \<and>
          (\<forall>i. 1 \<le> i \<and> i \<le> nRgr \<longrightarrow>
             sTempR i = oldsTempR (stValues g1) i
               + alpha (i - 1) * (sTempR (i - 1) - 2 * oldsTempR (stValues g1) i
                                  + oldsTempR (stValues g1) (i + 1))) \<and>
          sTempR (nRgr + 1) = meanAirTemp \<and>
          sTemp' = lyrTemp_to_lyrSoil_temperature interpolation (tlyrs_by_slyrs (stValues g1)) nRgr
                     (depthsR (stValues g1)) sTempR nlyrs (depths (stValues g1)) width sTemp \<and>
          (\<forall>i. i \<le> nRgr + 1 \<longrightarrow> oldsTempR (stValues g') i = sTempR i) \<and>
          soil_temp_init g' = soil_temp_init g1 \<and>
          surfaceTemp' Today = T1 \<and> surfaceTemp' Yesterday = surfaceTemp1 Today))"
proof -
  let ?st = "stValues g1"
  let ?part1 = "SEC_PER_DAY / squared deltaX"
  let ?F = "fold (soil_temperature_step ?st vwcR csParam1 csParam2 shParam ?part1) [1..<nRgr + 1]
      ((\<lambda>i. 0)(0 := T1), soil_temp_error g1)"
  define sTempR where "sTempR = (fst ?F)(nRgr + 1 := meanAirTemp)"
  define err where "err = snd ?F"
  have grid: "soil_temperature_grid n_sTempR ?st vwcR T1 csParam1 csParam2 shParam meanAirTemp
      deltaX nRgr (soil_temp_error g1) = Inr (sTempR, err)"
    using room(2)
    by (simp add: soil_temperature_grid_def Let_def sTempR_def err_def checked_within
        fold_error_checked_upt del: upt_Suc split: prod.splits)
  obtain j where rows: "fold_error
      (\<lambda>i s. checked Array_vwcR n_vwcR i
         (lyrSoil_to_lyrTemp_row (tlyrs_by_slyrs ?st) nlyrs width
            (fold (\<lambda>i a. a(i := swc i / width i)) [0..<nlyrs] (\<lambda>i. 0)) deltaX i s))
      [0..<nRgr + 1] (0, \<lambda>i. 0) = Inr (j, vwcR)"
    using room(1)
    by (cases "fold (lyrSoil_to_lyrTemp_row (tlyrs_by_slyrs ?st) nlyrs width
            (fold (\<lambda>i a. a(i := swc i / width i)) [0..<nlyrs] (\<lambda>i. 0)) deltaX)
          [0..<nRgr + 1] (0, \<lambda>i. 0)")
      (simp add: fold_error_checked_upt vwcR_def lyrSoil_to_lyrTemp_def del: upt_Suc)
  have err: "err = (if \<exists>k<nRgr. alpha k > 1 then 1 else soil_temp_error g1)"
    unfolding err_def alpha_def by (rule soil_temperature_step_fold(1))
  have s0: "sTempR 0 = T1"
    unfolding sTempR_def using soil_temperature_step_fold(2) [of 0 nRgr ?st vwcR csParam1 csParam2
        shParam ?part1 "(\<lambda>i. 0)(0 := T1)" "soil_temp_error g1"]
    by simp
  have srec: "sTempR i = oldsTempR ?st i
           + alpha (i - 1) * (sTempR (i - 1) - 2 * oldsTempR ?st i + oldsTempR ?st (i + 1))"
    if "1 \<le> i \<and> i \<le> nRgr" for i
  proof -
    from that have "i \<noteq> nRgr + 1" "i - 1 \<noteq> nRgr + 1" by auto
    then show ?thesis
      unfolding sTempR_def alpha_def
      using soil_temperature_step_fold(3) [of i nRgr ?st vwcR csParam1 csParam2 shParam ?part1
          "(\<lambda>i. 0)(0 := T1)" "soil_temp_error g1"] that
      by simp
  qed
  have sN: "sTempR (nRgr + 1) = meanAirTemp"
    by (simp add: sTempR_def)
  define sTemp' where "sTemp' = lyrTemp_to_lyrSoil_temperature interpolation (tlyrs_by_slyrs ?st)
      nRgr (depthsR ?st) sTempR nlyrs (depths ?st) width sTemp"
  obtain g2 where adj: "adjust_Tsoil_by_freezing_and_thawing oldsTemp sTemp' shParam nlyrs
      (fold (\<lambda>i a. a(i := swc i / width i)) [0..<nlyrs] (\<lambda>i. 0)) bDensity
      (g1\<lparr>soil_temp_error := err\<rparr>) = (g2, 0)"
    and g2: "soil_temp_error g2 = err" "soil_temp_init g2 = soil_temp_init g1"
    using adjust_Tsoil_by_freezing_and_thawing_result [of oldsTemp sTemp' shParam nlyrs _ bDensity
        "g1\<lparr>soil_temp_error := err\<rparr>"]
    by auto
  define g' where "g' = g2\<lparr>stValues :=
      fold (\<lambda>i st. st\<lparr>oldsTempR := (oldsTempR st)(i := sTempR i)\<rparr>) [0..<nRgr + 2]
        (set_frozen_unfrozen nlyrs sTemp' swc swc_sat width (stValues g2))\<rparr>"
  define surfaceTemp' where
    "surfaceTemp' = (surfaceTemp1(Yesterday := surfaceTemp1 Today))(Today := T1)"
  have res: "soil_temperature_sized n_vwcR n_sTempR interpolation airTemp pet aet biomass swc
      swc_sat bDensity width oldsTemp sTemp surfaceTemp nlyrs fc wp bmLimiter t1Param1 t1Param2
      t1Param3 csParam1 csParam2 shParam snowdepth meanAirTemp deltaX theMaxDepth nRgr snow g
      = Some (Inr (g', sTemp', surfaceTemp'))"
    unfolding soil_temperature_sized_def Let_def first T1 option.case prod.case
      rows grid sum.case sTemp'_def [symmetric] adj
    by (simp add: g'_def surfaceTemp'_def)
  have "soil_temp_error g' = err" "soil_temp_init g' = soil_temp_init g1"
    by (simp_all add: g'_def g2)
  moreover have "\<forall>i. i \<le> nRgr + 1 \<longrightarrow> oldsTempR (stValues g') i = sTempR i"
    by (simp add: g'_def oldsTempR_store_fold del: upt_Suc)
  moreover have "surfaceTemp' Today = T1" "surfaceTemp' Yesterday = surfaceTemp1 Today"
    by (simp_all add: surfaceTemp'_def)
  ultimately show ?thesis
    using res err s0 srec sN sTemp'_def by blast
qed


text \<open>
  The same without a word on the first part: that part returns when the grid is
  initialised already or \<open>deltaX\<close> is positive, and \<open>g1\<close> is the state that it leaves.
\<close>

lemma soil_temperature_sized_stability_flag:
  fixes g :: flow_globals and swc width :: "nat \<Rightarrow> real" and nlyrs nRgr :: nat
    and deltaX csParam1 csParam2 shParam :: real
  assumes room: "nRgr < n_vwcR" "nRgr + 1 < n_sTempR"
    and init: "soil_temp_init g \<noteq> 0 \<or> 0 < deltaX"
    and T1: "soil_temperature_T1 airTemp pet aet biomass bmLimiter t1Param1 t1Param2 t1Param3
      snowdepth snow = Some T1"
  shows "\<exists>g1 surfaceTemp1 g' sTemp' surfaceTemp' vwcR alpha.
      soil_temperature_first_call interpolation airTemp swc swc_sat bDensity width
        oldsTemp surfaceTemp nlyrs fc wp meanAirTemp deltaX theMaxDepth nRgr g
        = Some (g1, surfaceTemp1) \<and>
      soil_temperature_sized n_vwcR n_sTempR interpolation airTemp pet aet biomass swc swc_sat
        bDensity width oldsTemp sTemp surfaceTemp nlyrs fc wp bmLimiter t1Param1 t1Param2 t1Param3
        csParam1 csParam2 shParam snowdepth meanAirTemp deltaX theMaxDepth nRgr snow g
        = Some (Inr (g', sTemp', surfaceTemp')) \<and>
      vwcR = lyrSoil_to_lyrTemp (tlyrs_by_slyrs (stValues g1)) nlyrs width
        (fold (\<lambda>i a. a(i := swc i / width i)) [0..<nlyrs] (\<lambda>i. 0)) nRgr deltaX (\<lambda>i. 0) \<and>
      alpha = soil_temperature_parts (stValues g1) vwcR csParam1 csParam2 shParam
        (SEC_PER_DAY / squared deltaX) \<and>
      ((\<forall>k<nRgr. soil_temperature_parts_defined (stValues g1) vwcR shParam deltaX k) \<longrightarrow>
       (\<exists>sTempR.
          soil_temp_error g' = (if \<exists>k<nRgr. alpha k > 1 then 1 else soil_temp_error g1) \<and>
          sTempR 0 = T1 \<and>
          (\<forall>i. 1 \<le> i \<and> i \<le> nRgr \<longrightarrow>
             sTempR i = oldsTempR (stValues g1) i
               + alpha (i - 1) * (sTempR (i - 1) - 2 * oldsTempR (stValues g1) i
                                  + oldsTempR (stValues g1) (i + 1))) \<and>
          sTempR (nRgr + 1) = meanAirTemp \<and>
          sTemp' = lyrTemp_to_lyrSoil_temperature interpolation (tlyrs_by_slyrs (stValues g1)) nRgr
                     (depthsR (stValues g1)) sTempR nlyrs (depths (stValues g1)) width sTemp \<and>
          (\<forall>i. i \<le> nRgr + 1 \<longrightarrow> oldsTempR (stValues g') i = sTempR i) \<and>
          soil_temp_init g' = soil_temp_init g1 \<and>
          surfaceTemp' Today = T1 \<and> surfaceTemp' Yesterday = surfaceTemp1 Today))"
proof -
  from soil_temperature_first_call_returns [OF init]
  obtain g1 surfaceTemp1 where first: "soil_temperature_first_call interpolation airTemp swc
      swc_sat bDensity width oldsTemp surfaceTemp nlyrs fc wp meanAirTemp deltaX theMaxDepth nRgr g
      = Some (g1, surfaceTemp1)"
    by blast
  from soil_temperature_sized_after_first_part [OF room first T1, of sTemp csParam1 csParam2 shParam]
  show ?thesis
    using first by blast
qed

lemma soil_temperature_sized_returns:
  assumes "nRgr < n_vwcR" "nRgr + 1 < n_sTempR" "soil_temp_init g \<noteq> 0 \<or> 0 < deltaX"
    and "soil_temperature_T1 airTemp pet aet biomass bmLimiter t1Param1 t1Param2 t1Param3
      snowdepth snow = Some T1"
  shows "\<exists>r. soil_temperature_sized n_vwcR n_sTempR interpolation airTemp pet aet biomass swc swc_sat
        bDensity width oldsTemp sTemp surfaceTemp nlyrs fc wp bmLimiter t1Param1 t1Param2 t1Param3
        csParam1 csParam2 shParam snowdepth meanAirTemp deltaX theMaxDepth nRgr snow g
        = Some (Inr r)"
proof -
  from soil_temperature_first_call_returns [OF assms(3)]
  obtain g1 surfaceTemp1 where "soil_temperature_first_call interpolation airTemp swc swc_sat
      bDensity width oldsTemp surfaceTemp nlyrs fc wp meanAirTemp deltaX theMaxDepth nRgr g
      = Some (g1, surfaceTemp1)"
    by blast
  from soil_temperature_sized_after_first_part [OF assms(1) assms(2) this assms(4)]
  show ?thesis by blast
qed

section \<open>A first day of the soil temperature function\<close>

text \<open>
  An example, evaluated: one soil layer of 15 cm under a grid of one band of 15 cm, with a
  maximum depth of 30 cm. The initialisation gives the band the whole layer and the values
  of the layer, and marks the row below the band as lying under the soil profile.
\<close>

lemma soil_temperature_init_while_next_layer:
  "x2 < nlyrs \<Longrightarrow> acc' < deltaX \<Longrightarrow> \<not> 0 < d1 \<Longrightarrow> \<not> depthsR st i < depths st x2 \<Longrightarrow>
   soil_temperature_init_while nlyrs deltaX width st i x1 (x2, d1, acc', tlyrs) =
   soil_temperature_init_while nlyrs deltaX width st i x1
     (x2 + 1, 0, acc' + width x2, mat_upd tlyrs i x2 (width x2))"
  by (simp add: cmp_defs
      soil_temperature_init_while.simps [of nlyrs deltaX width st i x1 "(x2, d1, acc', tlyrs)"])

lemma first_day_tlyrs:
  fixes st :: ST_RGR_VALUES
  assumes "depthsR st 0 = 15" "depths st 0 = 15"
  shows "fold_option (soil_temperature_init_row (Suc 0) 15 (\<lambda>i. 15) st) [0, Suc 0] (0, 0, 0, \<lambda>i j. 0)
    = Some (Suc 0, Suc 0, 0,
            (\<lambda>i j. if i = 0 \<and> j = 0 then 15 else if i = Suc 0 \<and> j = Suc 0 then - 15 else 0))"
proof -
  have w0: "soil_temperature_init_while (Suc 0) 15 (\<lambda>i. 15) st 0 0 (0, 0, 0, \<lambda>i j. 0)
      = Some (Suc 0, 0, 15, mat_upd (\<lambda>i j. 0) 0 0 15)"
    using assms
    by (simp add: soil_temperature_init_while_next_layer soil_temperature_init_while_done)
  have w1: "soil_temperature_init_while (Suc 0) 15 (\<lambda>i. 15) st (Suc 0) (Suc 0) (Suc 0, 0, 0, tl)
      = Some (Suc 0, 0, 0, tl)" for tl
    by (simp add: soil_temperature_init_while_done)
  have m: "mat_upd (mat_upd (mat_upd (\<lambda>i j. 0) 0 0 15) 0 (Suc 0) 0) (Suc 0) (Suc 0) (- 15)
      = (\<lambda>i j. if i = 0 \<and> j = 0 then 15 else if i = Suc 0 \<and> j = Suc 0 then - 15 else (0::real))"
    by (auto simp: mat_upd_def fun_eq_iff)
  show ?thesis
    by (simp add: soil_temperature_init_row_def w0 w1 m)
qed

lemma first_day_lyrSoil_to_lyrTemp:
  "lyrSoil_to_lyrTemp (\<lambda>i j. if i = 0 \<and> j = 0 then 15 else if i = Suc 0 \<and> j = Suc 0 then - 15 else 0)
     (Suc 0) (\<lambda>i. 15) var (Suc 0) 15 res 0 = var 0"
  by (simp add: lyrSoil_to_lyrTemp_def lyrSoil_to_lyrTemp_row_def cmp_defs Let_def unsigned_pred_def)

lemma first_day_lyrSoil_to_lyrTemp_temperature:
  assumes "depth_Soil 0 = 15" "depth_Temp 0 = 15"
  shows "lyrSoil_to_lyrTemp_temperature interpolation
     (Suc 0) depth_Soil (\<lambda>i. 10) 10 (Suc 0) depth_Temp 30 res =
     res(Suc 0 := interpolation 15 30 10 10 15, Suc (Suc 0) := 10)"
  using assms
  by (simp add: lyrSoil_to_lyrTemp_temperature_def cmp_defs Let_def)


lemma first_day_init:
  fixes b :: real
  assumes z: "tlyrs_by_slyrs (stValues g) = (\<lambda>i j. 0)"
  shows "\<exists>g1. soil_temperature_init (\<lambda>x1 x2 y1 y2 x. y1 + (y2 - y1) / (x2 - x1) * (x - x1))
            (\<lambda>i. b) (\<lambda>i. 15) T (\<lambda>i. 10) 10 1 (\<lambda>i. 4.5) (\<lambda>i. 1.5) 15 30 1 g = Some g1 \<and>
          soil_temp_error g1 = soil_temp_error g \<and> soil_temp_init g1 = 1 \<and>
          fusion_pool_init g1 = fusion_pool_init g \<and>
          tlyrs_by_slyrs (stValues g1) =
            (\<lambda>i j. if i = 0 \<and> j = 0 then 15 else if i = Suc 0 \<and> j = Suc 0 then - 15 else 0) \<and>
          fcR (stValues g1) 0 = 0.3 \<and> wpR (stValues g1) 0 = 0.1 \<and> bDensityR (stValues g1) 0 = b \<and>
          oldsTempR (stValues g1) 1 = 10 \<and> oldsTempR (stValues g1) 2 = 10 \<and>
          depthsR (stValues g1) 0 = 15 \<and> depthsR (stValues g1) 1 = 30 \<and>
          depths (stValues g1) 0 = 15 \<and> depths (stValues g1) 1 = 30 \<and>
          lyrFrozen (stValues g1) = lyrFrozen (stValues g)"
proof -
  define st where "st = soil_temperature_init_depths (\<lambda>i. 15) (Suc 0) 15 (Suc 0)
      (soil_temperature_init_clear (Suc 0) (Suc 0) (stValues g))"
  have d: "depthsR st 0 = 15" "depths st 0 = 15" "tlyrs_by_slyrs st = (\<lambda>i j. 0)"
    "depthsR st (Suc 0) = 30" "depths st (Suc 0) = 30" "lyrFrozen st = lyrFrozen (stValues g)"
    by (simp_all add: st_def soil_temperature_init_depths_eq soil_temperature_init_clear_eq z
        cong: if_cong)
  note rows = first_day_tlyrs [OF d(1) d(2)]
  show ?thesis
    apply (simp add: soil_temperature_init_def Let_def st_def [symmetric] d cmp_defs
        unsigned_pred_def rows first_day_lyrSoil_to_lyrTemp
        first_day_lyrSoil_to_lyrTemp_temperature numeral_2_eq_2
        del: fold_option.simps)
    done
qed

text \<open>
  The back-projection on the first day of the example: the temperature of the soil layer
  is interpolated between the surface and the first band, at the depth of the layer.
\<close>

lemma first_day_lyrTemp_to_lyrSoil_temperature:
  "lyrTemp_to_lyrSoil_temperature interpolation
     (\<lambda>i j. if i = 0 \<and> j = 0 then 15 else if i = Suc 0 \<and> j = Suc 0 then - 15 else 0)
     (Suc 0) depth_Temp sTempR (Suc 0) depth_Soil (\<lambda>i. 15) sTemp =
   sTemp(0 := interpolation 0 (depth_Temp 0) (sTempR 0) (sTempR (Suc 0)) (depth_Soil 0), Suc 0 := 0)"
  by (simp add: lyrTemp_to_lyrSoil_temperature_def cmp_defs Let_def)


text \<open>
  The first day of the example, run with room in the local arrays, from the initial state
  of the module: air temperature 16 degrees, old temperature of the layer and mean air
  temperature 10 degrees, a water content of 3 cm between a wilting point of 1.5 cm and a
  field capacity of 4.5 cm, a bulk density \<open>b\<close>. The coefficient of the one band is
  \<open>204 / (215 * b)\<close>. The grid is initialised, the flag is set exactly when the coefficient
  exceeds 1, and in both cases the new temperature \<open>10 + 6 * (204 / (215 * b))\<close> of the band
  is the temperature of the soil layer on return and is stored for the next day.
\<close>

lemma soil_temperature_sized_first_day:
  fixes b :: real
  assumes b: "b \<noteq> 0"
  shows "\<exists>g' sTemp' surfaceTemp'.
      soil_temperature_sized 2 3 (\<lambda>x1 x2 y1 y2 x. y1 + (y2 - y1) / (x2 - x1) * (x - x1)) 16 0.3 0.3 100
        (\<lambda>i. 3) (\<lambda>i. 6) (\<lambda>i. b) (\<lambda>i. 15) (\<lambda>i. 10) (\<lambda>i. 0) (\<lambda>d. 10) 1 (\<lambda>i. 4.5) (\<lambda>i. 1.5)
        300 15 (- 4) 600 0.0007 0.0003 0.18 0 10 15 30 1 0 flow_globals_initial
        = Some (Inr (g', sTemp', surfaceTemp')) \<and>
      soil_temp_init g' = 1 \<and>
      soil_temp_error g' = (if 204 / (215 * b) > 1 then 1 else 0) \<and>
      sTemp' 0 = 10 + 6 * (204 / (215 * b)) \<and>
      oldsTempR (stValues g') 0 = 16 \<and>
      oldsTempR (stValues g') 1 = 10 + 6 * (204 / (215 * b)) \<and>
      oldsTempR (stValues g') 2 = 10 \<and>
      surfaceTemp' Today = 16 \<and> surfaceTemp' Yesterday = 16"
proof -
  let ?I = "\<lambda>x1 x2 y1 y2 x :: real. y1 + (y2 - y1) / (x2 - x1) * (x - x1)"
  let ?cor = "\<lambda>i j. if i = 0 \<and> j = 0 then 15 else if i = Suc 0 \<and> j = Suc 0 then - 15 else (0::real)"
  let ?g0 = "flow_globals_initial\<lparr>stValues :=
      set_frozen_unfrozen 1 (\<lambda>i. 10) (\<lambda>i. 3) (\<lambda>i. 6) (\<lambda>i. 15) (stValues flow_globals_initial)\<rparr>"
  have z: "tlyrs_by_slyrs (stValues ?g0) = (\<lambda>i j. 0)"
    by (simp add: flow_globals_initial_def stValues_initial_def set_frozen_unfrozen_def
        set_frozen_step_def)
  from first_day_init [OF z, of b 16]
  obtain g1 where init: "soil_temperature_init ?I (\<lambda>i. b) (\<lambda>i. 15) 16 (\<lambda>i. 10) 10 1 (\<lambda>i. 4.5)
        (\<lambda>i. 1.5) 15 30 1 ?g0 = Some g1"
    and g1: "soil_temp_error g1 = 0" "soil_temp_init g1 = 1"
      "tlyrs_by_slyrs (stValues g1) = ?cor"
      "fcR (stValues g1) 0 = 0.3" "wpR (stValues g1) 0 = 0.1" "bDensityR (stValues g1) 0 = b"
      "oldsTempR (stValues g1) 1 = 10" "oldsTempR (stValues g1) 2 = 10"
      "depthsR (stValues g1) 0 = 15" "depths (stValues g1) 0 = 15"
    by (auto simp: flow_globals_initial_def)
  have g1S: "oldsTempR (stValues g1) (Suc 0) = 10" "oldsTempR (stValues g1) (Suc (Suc 0)) = 10"
    using g1 by (simp_all add: numeral_2_eq_2)
  have first: "soil_temperature_first_call ?I 16 (\<lambda>i. 3) (\<lambda>i. 6) (\<lambda>i. b) (\<lambda>i. 15) (\<lambda>i. 10)
      (\<lambda>d. 10) 1 (\<lambda>i. 4.5) (\<lambda>i. 1.5) 10 15 30 1 flow_globals_initial
      = Some (g1, (\<lambda>d. 10)(Today := 16))"
    using init
    by (simp add: soil_temperature_first_call_def Let_def flow_globals_initial_def)
  have T1: "soil_temperature_T1 16 0.3 0.3 100 300 15 (- 4) 600 0 0 = Some 16"
    by (simp add: soil_temperature_T1_def cmp_defs)
  have v: "lyrSoil_to_lyrTemp (tlyrs_by_slyrs (stValues g1)) 1 (\<lambda>i. 15)
      (fold (\<lambda>i a. a(i := (\<lambda>i. 3) i / (\<lambda>i. 15) i)) [0..<1] (\<lambda>i. 0)) 1 15 (\<lambda>i. 0) 0 = 1 / 5"
    using first_day_lyrSoil_to_lyrTemp [of "(\<lambda>i. 0)(0 := 1 / 5)" "\<lambda>i. 0"]
    by (simp add: g1)
  have alpha: "soil_temperature_parts (stValues g1)
        (lyrSoil_to_lyrTemp (tlyrs_by_slyrs (stValues g1)) 1 (\<lambda>i. 15)
           (fold (\<lambda>i a. a(i := (\<lambda>i. 3) i / (\<lambda>i. 15) i)) [0..<1] (\<lambda>i. 0)) 1 15 (\<lambda>i. 0))
        0.0007 0.0003 0.18 (SEC_PER_DAY / squared 15) 0 = 204 / (215 * b)"
    by (simp add: soil_temperature_parts_def Let_def g1 SEC_PER_DAY_def squared_def
        first_day_lyrSoil_to_lyrTemp [of "(\<lambda>i. 0)(0 := 1 / 5)" "\<lambda>i. 0"])
  have defined: "\<forall>k<1. soil_temperature_parts_defined (stValues g1)
        (lyrSoil_to_lyrTemp (tlyrs_by_slyrs (stValues g1)) 1 (\<lambda>i. 15)
           (fold (\<lambda>i a. a(i := (\<lambda>i. 3) i / (\<lambda>i. 15) i)) [0..<1] (\<lambda>i. 0)) 1 15 (\<lambda>i. 0))
        0.18 15 k"
    using b
    by (simp add: soil_temperature_parts_defined_def g1
        first_day_lyrSoil_to_lyrTemp [of "(\<lambda>i. 0)(0 := 1 / 5)" "\<lambda>i. 0"])
  from soil_temperature_sized_after_first_part [OF _ _ first T1, where n_vwcR = 2 and n_sTempR = 3
      and sTemp = "\<lambda>i. 0" and ?csParam1.0 = "0.0007" and ?csParam2.0 = "0.0003"
      and shParam = "0.18"] defined
  obtain g' sTemp' surfaceTemp' sTempR where
    res: "soil_temperature_sized 2 3 ?I 16 0.3 0.3 100 (\<lambda>i. 3) (\<lambda>i. 6) (\<lambda>i. b) (\<lambda>i. 15) (\<lambda>i. 10)
        (\<lambda>i. 0) (\<lambda>d. 10) 1 (\<lambda>i. 4.5) (\<lambda>i. 1.5) 300 15 (- 4) 600 0.0007 0.0003 0.18 0 10 15 30 1 0
        flow_globals_initial = Some (Inr (g', sTemp', surfaceTemp'))"
    and flag: "soil_temp_error g' = (if \<exists>k<1. soil_temperature_parts (stValues g1)
        (lyrSoil_to_lyrTemp (tlyrs_by_slyrs (stValues g1)) 1 (\<lambda>i. 15)
           (fold (\<lambda>i a. a(i := (\<lambda>i. 3) i / (\<lambda>i. 15) i)) [0..<1] (\<lambda>i. 0)) 1 15 (\<lambda>i. 0))
        0.0007 0.0003 0.18 (SEC_PER_DAY / squared 15) k > 1 then 1 else soil_temp_error g1)"
    and s0: "sTempR 0 = 16"
    and srec: "\<forall>i. 1 \<le> i \<and> i \<le> 1 \<longrightarrow>
         sTempR i = oldsTempR (stValues g1) i
           + soil_temperature_parts (stValues g1)
        (lyrSoil_to_lyrTemp (tlyrs_by_slyrs (stValues g1)) 1 (\<lambda>i. 15)
           (fold (\<lambda>i a. a(i := (\<lambda>i. 3) i / (\<lambda>i. 15) i)) [0..<1] (\<lambda>i. 0)) 1 15 (\<lambda>i. 0))
        0.0007 0.0003 0.18 (SEC_PER_DAY / squared 15) (i - 1) * (sTempR (i - 1) - 2 * oldsTempR (stValues g1) i
                              + oldsTempR (stValues g1) (i + 1))"
    and sN: "sTempR (1 + 1) = 10"
    and bp: "sTemp' = lyrTemp_to_lyrSoil_temperature ?I (tlyrs_by_slyrs (stValues g1)) 1
        (depthsR (stValues g1)) sTempR 1 (depths (stValues g1)) (\<lambda>i. 15) (\<lambda>i. 0)"
    and store: "\<forall>i. i \<le> 1 + 1 \<longrightarrow> oldsTempR (stValues g') i = sTempR i"
    and latch: "soil_temp_init g' = soil_temp_init g1"
    and today: "surfaceTemp' Today = 16" "surfaceTemp' Yesterday = ((\<lambda>d. 10)(Today := 16)) Today"
    by (auto simp del: One_nat_def)
  from flag have flag': "soil_temp_error g' = (if 204 / (215 * b) > 1 then 1 else 0)"
    unfolding alpha [symmetric] by (simp add: g1)
  from srec [rule_format, of 1] have s1: "sTempR 1 = 10 + 6 * (204 / (215 * b))"
    unfolding alpha [symmetric] using s0 by (simp add: g1S)
  from store s0 s1 sN have olds: "oldsTempR (stValues g') 0 = 16"
      "oldsTempR (stValues g') 1 = 10 + 6 * (204 / (215 * b))"
      "oldsTempR (stValues g') 2 = 10"
    by (simp_all add: numeral_2_eq_2)
  have "sTemp' 0 = sTempR (Suc 0)"
    unfolding bp g1 One_nat_def first_day_lyrTemp_to_lyrSoil_temperature
    using s0 by (simp add: field_simps)
  with s1 have "sTemp' 0 = 10 + 6 * (204 / (215 * b))" by simp
  with res flag' olds today latch g1(2) show ?thesis by simp
qed


text \<open>
  With a bulk density of 0.5 the coefficient is \<open>408 / 215\<close>, above 1: the flag is set and
  the new temperature is kept all the same. With a bulk density of 1.5 the coefficient is
  \<open>136 / 215\<close> and the flag stays 0.
\<close>

lemma soil_temperature_sized_first_day_flag:
  "(\<exists>g' sTemp' surfaceTemp'.
      soil_temperature_sized 2 3 (\<lambda>x1 x2 y1 y2 x. y1 + (y2 - y1) / (x2 - x1) * (x - x1)) 16 0.3 0.3 100
        (\<lambda>i. 3) (\<lambda>i. 6) (\<lambda>i. 0.5) (\<lambda>i. 15) (\<lambda>i. 10) (\<lambda>i. 0) (\<lambda>d. 10) 1 (\<lambda>i. 4.5) (\<lambda>i. 1.5)
        300 15 (- 4) 600 0.0007 0.0003 0.18 0 10 15 30 1 0 flow_globals_initial
        = Some (Inr (g', sTemp', surfaceTemp')) \<and>
      soil_temp_init g' = 1 \<and> soil_temp_error g' = 1 \<and>
      sTemp' 0 = 10 + 6 * (408 / 215) \<and>
      oldsTempR (stValues g') 0 = 16 \<and> oldsTempR (stValues g') 1 = 10 + 6 * (408 / 215) \<and>
      oldsTempR (stValues g') 2 = 10 \<and>
      surfaceTemp' Today = 16 \<and> surfaceTemp' Yesterday = 16) \<and>
   (\<exists>g' sTemp' surfaceTemp'.
      soil_temperature_sized 2 3 (\<lambda>x1 x2 y1 y2 x. y1 + (y2 - y1) / (x2 - x1) * (x - x1)) 16 0.3 0.3 100
        (\<lambda>i. 3) (\<lambda>i. 6) (\<lambda>i. 1.5) (\<lambda>i. 15) (\<lambda>i. 10) (\<lambda>i. 0) (\<lambda>d. 10) 1 (\<lambda>i. 4.5) (\<lambda>i. 1.5)
        300 15 (- 4) 600 0.0007 0.0003 0.18 0 10 15 30 1 0 flow_globals_initial
        = Some (Inr (g', sTemp', surfaceTemp')) \<and>
      soil_temp_init g' = 1 \<and> soil_temp_error g' = 0 \<and>
      sTemp' 0 = 10 + 6 * (136 / 215) \<and>
      oldsTempR (stValues g') 0 = 16 \<and> oldsTempR (stValues g') 1 = 10 + 6 * (136 / 215) \<and>
      oldsTempR (stValues g') 2 = 10 \<and>
      surfaceTemp' Today = 16 \<and> surfaceTemp' Yesterday = 16)"
  using soil_temperature_sized_first_day [of "0.5"] soil_temperature_sized_first_day [of "1.5"]
  by simp

section \<open>The local arrays of the soil temperature function\<close>



end
